theory Spec2Isabelle
  imports Main "HOL-Library.Char_ord" "HOL-Library.Sublist" "HOL-Library.AList"
begin

section \<open>The forwarding proxy of \<^verbatim>\<open>proxy.go\<close>\<close>

text \<open>
  The file \<^verbatim>\<open>proxy.go\<close> holds two revisions of the package. The development embeds
  the later one (lines 133 to 290), whose \<^verbatim>\<open>Data\<close> has the fields \<^verbatim>\<open>Error\<close>,
  \<^verbatim>\<open>Times\<close> and \<^verbatim>\<open>Source\<close> and whose handler sends every record on the channel.
  The earlier one (lines 1 to 132, the one the tests call with a result callback) has
  none of these fields and sends a record only when the status is 200.

  Go strings and byte slices are \<^typ>\<open>string\<close>, a list of 8-bit characters. The
  functions of Go's standard library that the proxy calls (\<^verbatim>\<open>net/url\<close>,
  \<^verbatim>\<open>net/http\<close>, \<^verbatim>\<open>io\<close>, \<^verbatim>\<open>bytes\<close>) are modelled after the library of the
  code's time (Go 1.10). What the network, the caller's connection and the clock do is
  an input of the model. One request is handled from beginning to end, or until a
  panic ends it: requests that run at the same time, a channel whose consumer stalls,
  and the closing of the two bodies (\<^verbatim>\<open>defer r.Body.Close()\<close>,
  \<^verbatim>\<open>defer res.Body.Close()\<close>) are not part of it.
\<close>

subsection \<open>Errors\<close>

text \<open>
  A Go \<^verbatim>\<open>error\<close> value. \<^verbatim>\<open>io.EOF\<close> and \<^verbatim>\<open>io.ErrShortWrite\<close> are the two
  sentinel values \<^verbatim>\<open>io.Copy\<close> tests for; every other error is its message.
\<close>

datatype error = EOF | ErrShortWrite | Err string

fun error_Error :: "error \<Rightarrow> string" where
  "error_Error EOF = ''EOF''"
| "error_Error ErrShortWrite = ''short write''"
| "error_Error (Err m) = m"

subsection \<open>\<^verbatim>\<open>net/url\<close>: the URL and its string form\<close>

record userinfo =
  username :: string
  password :: string
  passwordSet :: bool

record url =
  Scheme :: string
  Opaque :: string
  User :: "userinfo option"
  Host :: string
  Path :: string
  RawPath :: string
  ForceQuery :: bool
  RawQuery :: string
  Fragment :: string

datatype encoding =
  encodePath | encodePathSegment | encodeHost | encodeZone
  | encodeUserPassword | encodeQueryComponent | encodeFragment

definition isAlnum :: "char \<Rightarrow> bool" where
  "isAlnum c \<longleftrightarrow>
     CHR ''A'' \<le> c \<and> c \<le> CHR ''Z'' \<or> CHR ''a'' \<le> c \<and> c \<le> CHR ''z''
     \<or> CHR ''0'' \<le> c \<and> c \<le> CHR ''9''"

text \<open>
  \<^verbatim>\<open>shouldEscape(c, mode)\<close>: whether the byte must be written as \<^verbatim>\<open>%XX\<close> in that
  part of a URL. In a path, of the reserved characters only \<^verbatim>\<open>?\<close> is escaped.
\<close>

definition shouldEscape :: "char \<Rightarrow> encoding \<Rightarrow> bool" where
  "shouldEscape c mode =
     (if isAlnum c then False
      else if (mode = encodeHost \<or> mode = encodeZone) \<and> c \<in> set ''!$&'()*+,;=:[]<>\"'' then False
      else if c \<in> set ''-_.~'' then False
      else if c \<in> set ''$&+,/:;=?@'' then
        (case mode of
           encodePath \<Rightarrow> c = CHR ''?''
         | encodePathSegment \<Rightarrow> c \<in> set ''/;,?''
         | encodeUserPassword \<Rightarrow> c \<in> set ''@/?:''
         | encodeQueryComponent \<Rightarrow> True
         | encodeFragment \<Rightarrow> False
         | _ \<Rightarrow> True)
      else True)"

definition upperhex :: string where
  "upperhex = ''0123456789ABCDEF''"

definition escape_byte :: "encoding \<Rightarrow> char \<Rightarrow> string" where
  "escape_byte mode c =
     (if shouldEscape c mode then
        (if c = CHR '' '' \<and> mode = encodeQueryComponent then ''+''
         else [CHR ''%'', upperhex ! (of_char c div 16), upperhex ! (of_char c mod 16)])
      else [c])"

text \<open>\<^verbatim>\<open>escape(s, mode)\<close>: the string with every byte that needs it percent-encoded.\<close>

definition escape :: "string \<Rightarrow> encoding \<Rightarrow> string" where
  "escape s mode = concat (map (escape_byte mode) s)"

definition ishex :: "char \<Rightarrow> bool" where
  "ishex c \<longleftrightarrow>
     CHR ''0'' \<le> c \<and> c \<le> CHR ''9'' \<or> CHR ''a'' \<le> c \<and> c \<le> CHR ''f''
     \<or> CHR ''A'' \<le> c \<and> c \<le> CHR ''F''"

definition unhex :: "char \<Rightarrow> nat" where
  "unhex c =
     (if CHR ''0'' \<le> c \<and> c \<le> CHR ''9'' then of_char c - of_char CHR ''0''
      else if CHR ''a'' \<le> c \<and> c \<le> CHR ''f'' then of_char c - of_char CHR ''a'' + 10
      else if CHR ''A'' \<le> c \<and> c \<le> CHR ''F'' then of_char c - of_char CHR ''A'' + 10
      else 0)"

text \<open>
  \<^verbatim>\<open>unescape(s, encodePath)\<close>: percent-decoding of a path; \<^const>\<open>None\<close> is the
  \<^verbatim>\<open>EscapeError\<close> of a malformed escape. (The host checks of the other modes do not
  apply to a path.)
\<close>

fun unescape_path :: "string \<Rightarrow> string option" where
  "unescape_path [] = Some []"
| "unescape_path (c # s) =
     (if c = CHR ''%'' then
        (case s of
           h # l # rest \<Rightarrow>
             (if ishex h \<and> ishex l then
                map_option (\<lambda>t. char_of (unhex h * 16 + unhex l) # t) (unescape_path rest)
              else None)
         | _ \<Rightarrow> None)
      else map_option (\<lambda>t. c # t) (unescape_path s))"

definition validEncodedPath :: "string \<Rightarrow> bool" where
  "validEncodedPath s \<longleftrightarrow>
     list_all (\<lambda>c. c \<in> set ''!$&'()*+,;=:@[]%'' \<or> \<not> shouldEscape c encodePath) s"

text \<open>
  \<^verbatim>\<open>u.EscapedPath()\<close>: \<^verbatim>\<open>RawPath\<close> when it is a valid encoding of \<^verbatim>\<open>Path\<close>,
  otherwise the escaped \<^verbatim>\<open>Path\<close>.
\<close>

definition EscapedPath :: "url \<Rightarrow> string" where
  "EscapedPath u =
     (if RawPath u \<noteq> [] \<and> validEncodedPath (RawPath u)
         \<and> unescape_path (RawPath u) = Some (Path u) then RawPath u
      else if Path u = ''*'' then ''*''
      else escape (Path u) encodePath)"

definition Userinfo_String :: "userinfo \<Rightarrow> string" where
  "Userinfo_String ui =
     escape (username ui) encodeUserPassword
     @ (if passwordSet ui then '':'' @ escape (password ui) encodeUserPassword else [])"

text \<open>
  \<^verbatim>\<open>u.String()\<close>, statement by statement; \<open>buf\<close> is the builder the Go code
  appends to.
\<close>

definition URL_String :: "url \<Rightarrow> string" where
  "URL_String u =
     (let buf0 = (if Scheme u \<noteq> [] then Scheme u @ '':'' else []);
          buf1 =
            (if Opaque u \<noteq> [] then buf0 @ Opaque u
             else
               (let buf2 =
                      (if Scheme u \<noteq> [] \<or> Host u \<noteq> [] \<or> User u \<noteq> None then
                         buf0
                         @ (if Host u \<noteq> [] \<or> Path u \<noteq> [] \<or> User u \<noteq> None then ''//'' else [])
                         @ (case User u of None \<Rightarrow> [] | Some ui \<Rightarrow> Userinfo_String ui @ ''@'')
                         @ (if Host u \<noteq> [] then escape (Host u) encodeHost else [])
                       else buf0);
                    path = EscapedPath u;
                    buf3 =
                      (if path \<noteq> [] \<and> take 1 path \<noteq> ''/'' \<and> Host u \<noteq> [] then buf2 @ ''/''
                       else buf2);
                    buf4 =
                      (if buf3 = [] \<and> CHR '':'' \<in> set (takeWhile (\<lambda>c. c \<noteq> CHR ''/'') path)
                       then buf3 @ ''./'' else buf3)
                in buf4 @ path));
          buf5 = (if ForceQuery u \<or> RawQuery u \<noteq> [] then buf1 @ ''?'' @ RawQuery u else buf1)
      in if Fragment u \<noteq> [] then buf5 @ ''#'' @ escape (Fragment u) encodeFragment else buf5)"

subsection \<open>\<^verbatim>\<open>rewrite\<close>\<close>

text \<open>
  \<^verbatim>\<open>rewrite(source, target)\<close> builds a URL from the target's scheme and host and the
  source's \<^verbatim>\<open>Path\<close> and \<^verbatim>\<open>RawQuery\<close>, every other field at its zero value, and
  returns its string form.
\<close>

definition rewrite :: "url \<Rightarrow> url \<Rightarrow> string" where
  "rewrite source target =
     URL_String \<lparr>Scheme = Scheme target, Opaque = [], User = None, Host = Host target,
       Path = Path source, RawPath = [], ForceQuery = False, RawQuery = RawQuery source,
       Fragment = []\<rparr>"

subsection \<open>\<^verbatim>\<open>net/http\<close>: headers\<close>

text \<open>
  \<^verbatim>\<open>http.Header\<close> is a Go map from a key to the list of its values, in the order
  the header lines came. It is an association list here; \<^const>\<open>map_of\<close> is the
  lookup, and the order of the list is the order in which \<^verbatim>\<open>range\<close> visits the
  keys (any order, in Go).
\<close>

type_synonym header = "(string \<times> string list) list"

definition validHeaderFieldByte :: "char \<Rightarrow> bool" where
  "validHeaderFieldByte c \<longleftrightarrow> isAlnum c \<or> c \<in> set ''!#$%&'*+-.^_`|~''"

text \<open>
  The loop of \<^verbatim>\<open>canonicalMIMEHeaderKey\<close>: the first letter and every letter after a
  hyphen in upper case, the others in lower case.
\<close>

fun canonical_from :: "bool \<Rightarrow> string \<Rightarrow> string" where
  "canonical_from upper [] = []"
| "canonical_from upper (c # s) =
     (let c' =
        (if upper \<and> CHR ''a'' \<le> c \<and> c \<le> CHR ''z'' then char_of (of_char c - (32::nat))
         else if \<not> upper \<and> CHR ''A'' \<le> c \<and> c \<le> CHR ''Z'' then char_of (of_char c + (32::nat))
         else c)
      in c' # canonical_from (c' = CHR ''-'') s)"

text \<open>A key with a byte that no header name may hold is returned as it is.\<close>

definition CanonicalMIMEHeaderKey :: "string \<Rightarrow> string" where
  "CanonicalMIMEHeaderKey s =
     (if list_all validHeaderFieldByte s then canonical_from True s else s)"

text \<open>\<^verbatim>\<open>h.Get(key)\<close>: the first value of the canonical key, or the empty string.\<close>

definition Header_Get :: "header \<Rightarrow> string \<Rightarrow> string" where
  "Header_Get h key =
     (case map_of h (CanonicalMIMEHeaderKey key) of
        None \<Rightarrow> []
      | Some [] \<Rightarrow> []
      | Some (v # _) \<Rightarrow> v)"

text \<open>\<^verbatim>\<open>h.Set(key, value)\<close>: the canonical key now has the single value.\<close>

definition Header_Set :: "header \<Rightarrow> string \<Rightarrow> string \<Rightarrow> header" where
  "Header_Set h key val = AList.update (CanonicalMIMEHeaderKey key) [val] h"

subsection \<open>\<^verbatim>\<open>copyHeaders\<close>\<close>

text \<open>
  \<^verbatim>\<open>for k := range src { dst.Set(k, src.Get(k)) }\<close>: the loop runs over the keys
  of \<open>src\<close> and returns the updated \<open>dst\<close>.
\<close>

definition copyHeaders :: "header \<Rightarrow> header \<Rightarrow> header" where
  "copyHeaders dst src = fold (\<lambda>k h. Header_Set h k (Header_Get src k)) (map fst src) dst"

subsection \<open>Readers, the response writer and the record\<close>

text \<open>
  An \<^verbatim>\<open>io.Reader\<close> is the sequence of what its \<^verbatim>\<open>Read\<close> calls will return: the
  chunks of bytes still to come (a chunk may be empty), and the error returned once
  they are used up, \<^const>\<open>EOF\<close> for a stream that ends well. Streams are finite.
\<close>

record reader =
  chunks :: "string list"
  final :: error

definition Reader_Read :: "reader \<Rightarrow> string \<times> error option \<times> reader" where
  "Reader_Read r =
     (case chunks r of
        [] \<Rightarrow> ([], Some (final r), r)
      | p # ps \<Rightarrow> (p, None, r\<lparr>chunks := ps\<rparr>))"

text \<open>
  The \<^verbatim>\<open>http.ResponseWriter\<close> of the caller's connection. \<open>rw_Header\<close> is the map
  \<^verbatim>\<open>w.Header()\<close> returns; \<open>rw_status\<close> and \<open>rw_sent\<close> are the status line and
  the headers once \<^verbatim>\<open>WriteHeader\<close> has sent them; \<open>rw_body\<close> holds the body bytes
  that reached the caller. \<open>rw_script\<close> is what the connection will do: for each
  coming \<^verbatim>\<open>Write\<close>, how many bytes it takes and the error it returns; a \<^verbatim>\<open>Write\<close>
  beyond the script takes everything.
\<close>

record response_writer =
  rw_Header :: header
  rw_status :: "int option"
  rw_sent :: header
  rw_body :: string
  rw_script :: "(nat \<times> error option) list"

text \<open>The upstream's \<^verbatim>\<open>*http.Response\<close>.\<close>

record response =
  res_StatusCode :: int
  res_Header :: header
  res_Body :: reader

text \<open>The inbound \<^verbatim>\<open>*http.Request\<close>; its body is part of the state below.\<close>

record request =
  Method :: string
  URL :: url
  Header :: header

text \<open>
  The outbound request \<^verbatim>\<open>prepareRequest\<close> builds. Its body is
  \<^verbatim>\<open>io.TeeReader(r.Body, buf)\<close>; \<open>out_buf\<close> is the address of \<open>buf\<close>.
\<close>

record out_request =
  out_Method :: string
  out_URL :: string
  out_Header :: header
  out_buf :: nat

text \<open>
  A \<^verbatim>\<open>time.Time\<close>: \<^const>\<open>None\<close> is the zero value (never stamped),
  \<open>Some t\<close> a reading \<open>t\<close> of the clock.
\<close>

type_synonym time = "nat option"

record Times =
  Start :: time
  WroteRequest :: time
  GotFirstResponseByte :: time
  End :: time

text \<open>
  \<^verbatim>\<open>Data\<close>. \<open>Request\<close> and \<open>Response\<close> are \<^verbatim>\<open>io.Reader\<close> interfaces that
  hold a \<^verbatim>\<open>*bytes.Buffer\<close> or \<^verbatim>\<open>nil\<close>: the address of a buffer, or \<^const>\<open>None\<close>.
\<close>

record Data =
  StatusCode :: int
  Request :: "nat option"
  Response :: "nat option"
  Error :: "error option"
  Times :: Times
  Source :: string

definition zero_Data :: Data where
  "zero_Data =
     \<lparr>StatusCode = 0, Request = None, Response = None, Error = None,
      Times = \<lparr>Start = None, WroteRequest = None, GotFirstResponseByte = None, End = None\<rparr>,
      Source = []\<rparr>"

subsection \<open>The state of one request\<close>

text \<open>What leaves the handler, in the order it leaves.\<close>

datatype effect =
  Published Data
  | SentHeader int header
  | SentBody string
  | Logged string int "string option"

text \<open>
  Everything the handler of one request reads and writes: its local \<open>d\<close>, the clock,
  the unread rest of \<^verbatim>\<open>r.Body\<close>, the \<^verbatim>\<open>bytes.Buffer\<close>s allocated so far (a
  buffer's address is its index), the response writer \<open>w\<close>, the channel \<open>ch\<close> as
  the list of the records sent on it, the bytes the transport has taken from the
  outbound body (what it forwards upstream), and the effects so far.
\<close>

record world =
  data :: Data
  clock :: nat
  reqBody :: reader
  buffers :: "string list"
  writer :: response_writer
  chan :: "Data list"
  upstream :: string
  effects :: "effect list"

text \<open>
  A call returns, or it panics. A panic carries the state in which it was raised;
  nothing of the handler runs after it, since the handler has no \<^verbatim>\<open>recover\<close> and
  defers nothing but the closing of the body.
\<close>

datatype 'a result = Return 'a | Panic world

text \<open>
  What the transport does during one \<^verbatim>\<open>RoundTrip\<close>, as the handler can see it: it
  reads the outbound body, calls the two hooks of the \<^verbatim>\<open>ClientTrace\<close>, and time
  passes. \<^verbatim>\<open>WroteRequest\<close> is called when the transport stops writing the request,
  with the result of the write, the \<^verbatim>\<open>Err\<close> of its \<^verbatim>\<open>WroteRequestInfo\<close>:
  \<^const>\<open>None\<close> when the request went out, the error when the write failed.
  \<^verbatim>\<open>GotFirstResponseByte\<close> is called when the first byte of the response has
  arrived.
\<close>

datatype tevent =
  ReadBody | CallWroteRequest "error option" | CallGotFirstResponseByte | Elapse nat

text \<open>
  The surroundings of the handler: whether \<^verbatim>\<open>url.Parse\<close> accepts the target,
  whether \<^verbatim>\<open>http.NewRequest\<close> rejects a method and URL, and what the transport
  does with an outbound request and returns.
\<close>

record env =
  url_Parse :: "string \<Rightarrow> error + url"
  NewRequest_error :: "string \<Rightarrow> string \<Rightarrow> error option"
  RoundTrip_run :: "out_request \<Rightarrow> tevent list \<times> (error + response)"

definition upd_data :: "(Data \<Rightarrow> Data) \<Rightarrow> world \<Rightarrow> world" where
  "upd_data f s = s\<lparr>data := f (data s)\<rparr>"

definition upd_Times :: "(Times \<Rightarrow> Times) \<Rightarrow> Data \<Rightarrow> Data" where
  "upd_Times f x = x\<lparr>Times := f (Times x)\<rparr>"

definition upd_writer :: "(response_writer \<Rightarrow> response_writer) \<Rightarrow> world \<Rightarrow> world" where
  "upd_writer f s = s\<lparr>writer := f (writer s)\<rparr>"

text \<open>\<^verbatim>\<open>time.Now()\<close>.\<close>

definition time_Now :: "world \<Rightarrow> time" where
  "time_Now s = Some (clock s)"

text \<open>\<^verbatim>\<open>&bytes.Buffer{}\<close>: a new, empty buffer and its address.\<close>

definition new_Buffer :: "world \<Rightarrow> nat \<times> world" where
  "new_Buffer s = (length (buffers s), s\<lparr>buffers := buffers s @ [[]]\<rparr>)"

text \<open>\<^verbatim>\<open>buf.Write(p)\<close> appends and never fails.\<close>

definition Buffer_Write :: "nat \<Rightarrow> string \<Rightarrow> world \<Rightarrow> world" where
  "Buffer_Write b p s = s\<lparr>buffers := (buffers s)[b := buffers s ! b @ p]\<rparr>"

text \<open>
  What a consumer reads from a record's \<open>Request\<close> or \<open>Response\<close>: nothing for
  \<^verbatim>\<open>nil\<close>, the bytes of the buffer otherwise.
\<close>

definition captured :: "world \<Rightarrow> nat option \<Rightarrow> string option" where
  "captured s ref =
     (case ref of
        None \<Rightarrow> None
      | Some b \<Rightarrow> if b < length (buffers s) then Some (buffers s ! b) else None)"

text \<open>The status line and the headers, as they are then, go out.\<close>

definition sendHeader :: "int \<Rightarrow> world \<Rightarrow> world" where
  "sendHeader code s =
     (upd_writer (\<lambda>w. w\<lparr>rw_status := Some code, rw_sent := rw_Header w\<rparr>) s)
       \<lparr>effects := effects s @ [SentHeader code (rw_Header (writer s))]\<rparr>"

text \<open>
  \<^verbatim>\<open>w.WriteHeader(code)\<close> of the server's response writer: a call after the header
  was sent sends nothing; otherwise the code is checked, and
  \<^verbatim>\<open>checkWriteHeaderCode\<close> panics for a code that has not three digits; then the
  header goes out.
\<close>

definition WriteHeader :: "int \<Rightarrow> world \<Rightarrow> world result" where
  "WriteHeader code s =
     (if rw_status (writer s) \<noteq> None then Return s
      else if code < 100 \<or> 999 < code then Panic s
      else Return (sendHeader code s))"

text \<open>
  \<^verbatim>\<open>w.Write(p)\<close>: if no header was sent, \<^verbatim>\<open>WriteHeader(StatusOK)\<close> sends it (200
  passes the check); then as many bytes go out as the connection takes. It returns
  that number and the connection's error.
\<close>

definition Write :: "string \<Rightarrow> world \<Rightarrow> nat \<times> error option \<times> world" where
  "Write p s =
     (let s1 = (if rw_status (writer s) = None then sendHeader 200 s else s) in
      case rw_script (writer s1) of
        [] \<Rightarrow>
          (length p, None,
           (upd_writer (\<lambda>w. w\<lparr>rw_body := rw_body w @ p\<rparr>) s1)
             \<lparr>effects := effects s1 @ [SentBody p]\<rparr>)
      | (n, e) # rest \<Rightarrow>
          (min n (length p), e,
           (upd_writer (\<lambda>w. w\<lparr>rw_body := rw_body w @ take n p, rw_script := rest\<rparr>) s1)
             \<lparr>effects := effects s1 @ [SentBody (take n p)]\<rparr>))"

text \<open>
  \<^verbatim>\<open>http.Error(w, error, code)\<close>: two headers, the status, and the message with a
  line feed after it (\<^verbatim>\<open>fmt.Fprintln\<close>, its result dropped).
\<close>

definition http_Error :: "string \<Rightarrow> int \<Rightarrow> world \<Rightarrow> world result" where
  "http_Error msg code s =
     (let s1 = upd_writer (\<lambda>w. w\<lparr>rw_Header :=
                  Header_Set (Header_Set (rw_Header w) ''Content-Type'' ''text/plain; charset=utf-8'')
                    ''X-Content-Type-Options'' ''nosniff''\<rparr>) s
      in case WriteHeader code s1 of
           Panic w \<Rightarrow> Panic w
         | Return s2 \<Rightarrow> Return (snd (snd (Write (msg @ [CHR 0x0A]) s2))))"

text \<open>\<^verbatim>\<open>log.Printf\<close> with the URL, the status and, on the error path, the message.\<close>

definition log_Printf :: "string \<Rightarrow> int \<Rightarrow> string option \<Rightarrow> world \<Rightarrow> world" where
  "log_Printf u code msg s = s\<lparr>effects := effects s @ [Logged u code msg]\<rparr>"

text \<open>\<^verbatim>\<open>ch <- d\<close>: a copy of the record goes onto the channel.\<close>

definition send :: "world \<Rightarrow> world" where
  "send s = s\<lparr>chan := chan s @ [data s], effects := effects s @ [Published (data s)]\<rparr>"

subsection \<open>\<^verbatim>\<open>io.TeeReader\<close> and \<^verbatim>\<open>io.Copy\<close>\<close>

text \<open>
  One \<^verbatim>\<open>Read\<close> of \<^verbatim>\<open>io.TeeReader(r.Body, buf)\<close> by the transport: what the body
  returns is written to the buffer when it is not empty, and returned.
\<close>

definition TeeReader_Read :: "nat \<Rightarrow> world \<Rightarrow> world" where
  "TeeReader_Read b s =
     (case Reader_Read (reqBody s) of
        (p, er, r') \<Rightarrow>
          (let s1 = s\<lparr>reqBody := r'\<rparr>;
               s2 = (if p \<noteq> [] then Buffer_Write b p s1 else s1)
           in s2\<lparr>upstream := upstream s2 @ p\<rparr>))"

text \<open>
  \<^verbatim>\<open>io.Copy(w, io.TeeReader(src, buf))\<close>, the loop of \<^verbatim>\<open>copyBuffer\<close>: each round
  reads from \<open>src\<close> through the tee and writes what was read to \<open>w\<close>; it stops at
  a write error, a short write, or the reader's error, and \<^const>\<open>EOF\<close> is no error.
  The arguments are the chunks \<open>src\<close> will return and its last error.
\<close>

fun io_Copy :: "nat \<Rightarrow> string list \<Rightarrow> error \<Rightarrow> world \<Rightarrow> error option \<times> world" where
  "io_Copy b [] fin s = (if fin = EOF then None else Some fin, s)"
| "io_Copy b (p # ps) fin s =
     (if p = [] then io_Copy b ps fin s
      else
        (case Write p (Buffer_Write b p s) of
           (nw, ew, s1) \<Rightarrow>
             (if ew \<noteq> None then (ew, s1)
              else if length p \<noteq> nw then (Some ErrShortWrite, s1)
              else io_Copy b ps fin s1)))"

subsection \<open>The pipeline\<close>

text \<open>
  \<^verbatim>\<open>transport.RoundTrip(req)\<close>: the transport's events happen in order, the hooks
  that \<^verbatim>\<open>prepareRequest\<close> attached stamp the record, and the result is returned.
  The hook for \<^verbatim>\<open>WroteRequest\<close> does not look at the \<^verbatim>\<open>WroteRequestInfo\<close> it is
  given.
\<close>

fun transport_step :: "nat \<Rightarrow> tevent \<Rightarrow> world \<Rightarrow> world" where
  "transport_step b ReadBody s = TeeReader_Read b s"
| "transport_step b (CallWroteRequest info) s =
     upd_data (upd_Times (\<lambda>t. t\<lparr>WroteRequest := time_Now s\<rparr>)) s"
| "transport_step b CallGotFirstResponseByte s =
     upd_data (upd_Times (\<lambda>t. t\<lparr>GotFirstResponseByte := time_Now s\<rparr>)) s"
| "transport_step b (Elapse n) s = s\<lparr>clock := clock s + n\<rparr>"

definition RoundTrip :: "env \<Rightarrow> out_request \<Rightarrow> world \<Rightarrow> (error + response) \<times> world" where
  "RoundTrip e req s =
     (case RoundTrip_run e req of
        (evs, result) \<Rightarrow> (result, fold (transport_step (out_buf req)) evs s))"

definition prepareRequest :: "env \<Rightarrow> request \<Rightarrow> url \<Rightarrow> world \<Rightarrow> (error + out_request) \<times> world" where
  "prepareRequest e r target s =
     (let newurl = rewrite (URL r) target;
          (buf, s1) = new_Buffer s;
          err = NewRequest_error e (Method r) newurl;
          s2 = upd_data (\<lambda>x. x\<lparr>Request := Some buf\<rparr>) s1
      in case err of
           Some er \<Rightarrow> (Inl er, s2)
         | None \<Rightarrow>
             (Inr \<lparr>out_Method = Method r, out_URL = newurl,
                   out_Header = copyHeaders [] (Header r), out_buf = buf\<rparr>, s2))"

text \<open>
  \<^verbatim>\<open>process\<close> hands the upstream's status code to \<^verbatim>\<open>w.WriteHeader\<close> as it came;
  when that call panics, nothing after it runs.
\<close>

definition process ::
  "env \<Rightarrow> out_request \<Rightarrow> world \<Rightarrow> (error option \<times> world) result" where
  "process e req s =
     (case RoundTrip e req s of
        (Inl err, s1) \<Rightarrow> Return (Some err, upd_data (\<lambda>x. x\<lparr>StatusCode := 503\<rparr>) s1)
      | (Inr res, s1) \<Rightarrow>
          (let s2 = upd_data (\<lambda>x. x\<lparr>StatusCode := res_StatusCode res\<rparr>) s1;
               (responseBuf, s3) = new_Buffer s2;
               s4 = upd_writer (\<lambda>w. w\<lparr>rw_Header := copyHeaders (rw_Header w) (res_Header res)\<rparr>) s3
           in case WriteHeader (res_StatusCode res) s4 of
                Panic w \<Rightarrow> Panic w
              | Return s5 \<Rightarrow>
                  (let (err, s6) =
                         io_Copy responseBuf (chunks (res_Body res)) (final (res_Body res)) s5
                   in Return (err, upd_data (\<lambda>x. x\<lparr>Response := Some responseBuf\<rparr>) s6))))"

definition handleRequest ::
  "env \<Rightarrow> request \<Rightarrow> url \<Rightarrow> world \<Rightarrow> (error option \<times> world) result" where
  "handleRequest e r u s =
     (case prepareRequest e r u s of
        (Inl err, s1) \<Rightarrow> Return (Some err, s1)
      | (Inr req, s1) \<Rightarrow>
          process e req (upd_data (\<lambda>x. x\<lparr>Source := Header_Get (Header r) ''Source''\<rparr>) s1))"

text \<open>
  The function \<^verbatim>\<open>NewHandler\<close> returns, for the parsed target \<open>u\<close>. A panic in
  \<^verbatim>\<open>handleRequest\<close> leaves it at once: \<open>End\<close> is not stamped and nothing is sent
  on the channel.
\<close>

definition handler :: "env \<Rightarrow> url \<Rightarrow> request \<Rightarrow> world \<Rightarrow> world result" where
  "handler e u r s =
     (let s1 = s\<lparr>data := zero_Data\<rparr>;
          s2 = upd_data (upd_Times (\<lambda>t. t\<lparr>Start := time_Now s1\<rparr>)) s1
      in case handleRequest e r u s2 of
           Panic w \<Rightarrow> Panic w
         | Return (err, s3) \<Rightarrow>
             (let s4 = upd_data (\<lambda>x. x\<lparr>Error := err\<rparr>) s3;
                  s5 = upd_data (upd_Times (\<lambda>t. t\<lparr>End := time_Now s4\<rparr>)) s4;
                  s6 = send s5
              in case Error (data s6) of
                   Some er \<Rightarrow>
                     http_Error (error_Error er) 503
                       (log_Printf (URL_String (URL r)) 503 (Some (error_Error er)) s6)
                 | None \<Rightarrow>
                     Return (log_Printf (URL_String (URL r)) (StatusCode (data s6)) None s6)))"

definition NewHandler ::
  "env \<Rightarrow> string \<Rightarrow> error + (request \<Rightarrow> world \<Rightarrow> world result)" where
  "NewHandler e targetURL =
     (case url_Parse e targetURL of
        Inl err \<Rightarrow> Inl err
      | Inr u \<Rightarrow> Inr (handler e u))"

subsection \<open>Notions the statements use\<close>

text \<open>
  Whether a call returned, and the state it left: the state returned, or the state in
  which the panic was raised; \<open>state_of\<close> is the same for a call that also returns an
  error value.
\<close>

fun returns :: "'a result \<Rightarrow> bool" where
  "returns (Return x) = True"
| "returns (Panic w) = False"

fun state_after :: "world result \<Rightarrow> world" where
  "state_after (Return s) = s"
| "state_after (Panic w) = w"

fun state_of :: "(error option \<times> world) result \<Rightarrow> world" where
  "state_of (Return (err, s)) = s"
| "state_of (Panic w) = w"

text \<open>The outbound request \<^const>\<open>prepareRequest\<close> hands to the transport.\<close>

definition outbound :: "request \<Rightarrow> url \<Rightarrow> world \<Rightarrow> out_request" where
  "outbound r u s =
     \<lparr>out_Method = Method r, out_URL = rewrite (URL r) u,
      out_Header = copyHeaders [] (Header r), out_buf = length (buffers s)\<rparr>"

text \<open>
  A run in which the transport calls each hook at most once. The Transport of
  \<^verbatim>\<open>net/http\<close> calls \<^verbatim>\<open>WroteRequest\<close> again only when it retries a request, and it
  does not retry the one \<^const>\<open>prepareRequest\<close> builds, whose body is a tee reader
  that cannot be read a second time.
\<close>

fun is_CallWroteRequest :: "tevent \<Rightarrow> bool" where
  "is_CallWroteRequest (CallWroteRequest info) = True"
| "is_CallWroteRequest _ = False"

definition hooks_once :: "tevent list \<Rightarrow> bool" where
  "hooks_once evs \<longleftrightarrow>
     length (filter is_CallWroteRequest evs) \<le> 1
     \<and> length (filter (\<lambda>ev. ev = CallGotFirstResponseByte) evs) \<le> 1"

text \<open>The time that passes during a run of the transport.\<close>

fun elapsed :: "tevent list \<Rightarrow> nat" where
  "elapsed [] = 0"
| "elapsed (Elapse n # evs) = n + elapsed evs"
| "elapsed (_ # evs) = elapsed evs"

text \<open>
  What a copy through the tee comes to, as a function of the chunks the source
  returns, its last error and the script of the connection: the error of the copy,
  the bytes read from the source (all of them go to the capture buffer), and the
  bytes the connection took.
\<close>

fun copy_outcome ::
  "string list \<Rightarrow> error \<Rightarrow> (nat \<times> error option) list \<Rightarrow> error option \<times> string \<times> string" where
  "copy_outcome [] fin sc = (if fin = EOF then None else Some fin, [], [])"
| "copy_outcome (p # ps) fin sc =
     (if p = [] then copy_outcome ps fin sc
      else
        (case sc of
           [] \<Rightarrow> (case copy_outcome ps fin [] of (er, rd, wr) \<Rightarrow> (er, p @ rd, p @ wr))
         | (n, e) # rest \<Rightarrow>
             (if e \<noteq> None then (e, p, take n p)
              else if n < length p then (Some ErrShortWrite, p, take n p)
              else (case copy_outcome ps fin rest of (er, rd, wr) \<Rightarrow> (er, p @ rd, p @ wr)))))"

fun is_Published :: "effect \<Rightarrow> bool" where
  "is_Published (Published x) = True"
| "is_Published _ = False"

subsection \<open>Sample runs\<close>

text \<open>
  A target, a request with a repeated header, a fresh state, an upstream that answers
  200 with the body \<^verbatim>\<open>bam\<close>, and surroundings in which the round trip succeeds, is
  refused, fails while the request is written, breaks off in the body of the response,
  returns a response with the status code 99, or is never made because the method is
  not a token; a caller that hangs up after one byte of the response.
\<close>

definition example_target :: url where
  "example_target =
     \<lparr>Scheme = ''http'', Opaque = [], User = None, Host = ''upstream:8080'', Path = [],
      RawPath = [], ForceQuery = False, RawQuery = [], Fragment = []\<rparr>"

definition example_url :: url where
  "example_url =
     \<lparr>Scheme = ''https'', Opaque = [], User = None, Host = ''proxy.local'',
      Path = ''/some/path'', RawPath = [], ForceQuery = False, RawQuery = ''a=1&b=2'',
      Fragment = ''top''\<rparr>"

definition example_request :: request where
  "example_request =
     \<lparr>Method = ''POST'', URL = example_url,
      Header = [(''Content-Type'', [''text/xml'']), (''Source'', [''unit-7'']),
                (''Accept'', [''text/html'', ''text/plain''])]\<rparr>"

definition example_world :: world where
  "example_world =
     \<lparr>data = zero_Data, clock = 100,
      reqBody = \<lparr>chunks = [''<xml>some '', ''request</xml>''], final = EOF\<rparr>,
      buffers = [],
      writer = \<lparr>rw_Header = [], rw_status = None, rw_sent = [], rw_body = [], rw_script = []\<rparr>,
      chan = [], upstream = [], effects = []\<rparr>"

definition example_response :: response where
  "example_response =
     \<lparr>res_StatusCode = 200,
      res_Header = [(''X-Response-Header'', [''response header value''])],
      res_Body = \<lparr>chunks = [''ba'', ''m''], final = EOF\<rparr>\<rparr>"

definition env_ok :: env where
  "env_ok =
     \<lparr>url_Parse = (\<lambda>_. Inr example_target),
      NewRequest_error =
        (\<lambda>m _. if CHR '' '' \<in> set m then Some (Err ''net/http: invalid method'') else None),
      RoundTrip_run =
        (\<lambda>_. ([ReadBody, ReadBody, ReadBody, Elapse 3, CallWroteRequest None, Elapse 5,
                CallGotFirstResponseByte, Elapse 1], Inr example_response))\<rparr>"

definition env_refused :: env where
  "env_refused =
     env_ok\<lparr>RoundTrip_run := (\<lambda>_. ([Elapse 2], Inl (Err ''connection refused'')))\<rparr>"

definition env_write_failed :: env where
  "env_write_failed =
     env_ok\<lparr>RoundTrip_run :=
       (\<lambda>_. ([ReadBody, Elapse 3, CallWroteRequest (Some (Err ''write: connection reset by peer''))],
             Inl (Err ''write: connection reset by peer'')))\<rparr>"

definition env_truncated :: env where
  "env_truncated =
     env_ok\<lparr>RoundTrip_run :=
       (\<lambda>_. ([ReadBody, ReadBody, CallWroteRequest None, Elapse 4, CallGotFirstResponseByte],
             Inr (example_response\<lparr>res_Body :=
                    \<lparr>chunks = [''ba''], final = Err ''unexpected EOF''\<rparr>\<rparr>)))\<rparr>"

definition env_099 :: env where
  "env_099 =
     env_ok\<lparr>RoundTrip_run :=
       (\<lambda>_. ([ReadBody, ReadBody, ReadBody, Elapse 3, CallWroteRequest None, Elapse 5,
               CallGotFirstResponseByte, Elapse 1],
             Inr (example_response\<lparr>res_StatusCode := 99\<rparr>)))\<rparr>"

definition bad_method_request :: request where
  "bad_method_request = example_request\<lparr>Method := ''BAD METHOD''\<rparr>"

definition hung_up :: world where
  "hung_up =
     upd_writer (\<lambda>w. w\<lparr>rw_script :=
        [(1, Some (Err ''broken pipe'')), (0, Some (Err ''broken pipe''))]\<rparr>) example_world"

section \<open>Properties\<close>

subsection \<open>The response writer and the copy loop\<close>

lemmas upd_defs = upd_data_def upd_Times_def upd_writer_def

lemma sendHeader_frame [simp]:
  "data (sendHeader c s) = data s"
  "clock (sendHeader c s) = clock s"
  "reqBody (sendHeader c s) = reqBody s"
  "buffers (sendHeader c s) = buffers s"
  "chan (sendHeader c s) = chan s"
  "upstream (sendHeader c s) = upstream s"
  "rw_script (writer (sendHeader c s)) = rw_script (writer s)"
  "rw_body (writer (sendHeader c s)) = rw_body (writer s)"
  "rw_Header (writer (sendHeader c s)) = rw_Header (writer s)"
  "rw_status (writer (sendHeader c s)) = Some c"
  "filter is_Published (effects (sendHeader c s)) = filter is_Published (effects s)"
  by (simp_all add: sendHeader_def upd_defs)

lemma sendHeader_effects:
  "effects (sendHeader c s) = effects s @ [SentHeader c (rw_Header (writer s))]"
  by (simp add: sendHeader_def upd_defs)

lemma WriteHeader_returns:
  "returns (WriteHeader c s) \<longleftrightarrow> rw_status (writer s) \<noteq> None \<or> (100 \<le> c \<and> c \<le> 999)"
  by (auto simp add: WriteHeader_def)

lemma WriteHeader_Return:
  "returns (WriteHeader c s) \<Longrightarrow> WriteHeader c s = Return (state_after (WriteHeader c s))"
  by (cases "WriteHeader c s") simp_all

lemma WriteHeader_Panic:
  "\<not> returns (WriteHeader c s) \<Longrightarrow> WriteHeader c s = Panic s"
  by (simp add: WriteHeader_def split: if_splits)

text \<open>The header that \<^const>\<open>Write\<close> sends is the one \<^verbatim>\<open>WriteHeader(StatusOK)\<close> sends.\<close>

lemma WriteHeader_200:
  "WriteHeader 200 s = Return (if rw_status (writer s) = None then sendHeader 200 s else s)"
  by (simp add: WriteHeader_def)

lemma WriteHeader_frame [simp]:
  "data (state_after (WriteHeader c s)) = data s"
  "clock (state_after (WriteHeader c s)) = clock s"
  "reqBody (state_after (WriteHeader c s)) = reqBody s"
  "buffers (state_after (WriteHeader c s)) = buffers s"
  "chan (state_after (WriteHeader c s)) = chan s"
  "upstream (state_after (WriteHeader c s)) = upstream s"
  "rw_script (writer (state_after (WriteHeader c s))) = rw_script (writer s)"
  "rw_body (writer (state_after (WriteHeader c s))) = rw_body (writer s)"
  "rw_Header (writer (state_after (WriteHeader c s))) = rw_Header (writer s)"
  "filter is_Published (effects (state_after (WriteHeader c s))) = filter is_Published (effects s)"
  by (simp_all add: WriteHeader_def)

lemma WriteHeader_status:
  "returns (WriteHeader c s) \<Longrightarrow>
   rw_status (writer (state_after (WriteHeader c s))) =
     (if rw_status (writer s) = None then Some c else rw_status (writer s))"
  by (simp add: WriteHeader_def split: if_splits)

lemma WriteHeader_effects:
  "returns (WriteHeader c s) \<Longrightarrow>
   effects (state_after (WriteHeader c s)) =
     (if rw_status (writer s) = None then effects s @ [SentHeader c (rw_Header (writer s))]
      else effects s)"
  by (simp add: WriteHeader_def sendHeader_effects split: if_splits)

lemma Write_frame [simp]:
  "data (snd (snd (Write p s))) = data s"
  "clock (snd (snd (Write p s))) = clock s"
  "reqBody (snd (snd (Write p s))) = reqBody s"
  "buffers (snd (snd (Write p s))) = buffers s"
  "chan (snd (snd (Write p s))) = chan s"
  "upstream (snd (snd (Write p s))) = upstream s"
  "rw_Header (writer (snd (snd (Write p s)))) = rw_Header (writer s)"
  "filter is_Published (effects (snd (snd (Write p s)))) = filter is_Published (effects s)"
  by (simp_all add: Write_def Let_def upd_defs split: list.splits prod.splits)

lemma Write_status:
  "rw_status (writer (snd (snd (Write p s)))) =
     (if rw_status (writer s) = None then Some 200 else rw_status (writer s))"
  by (simp add: Write_def Let_def upd_defs split: list.splits prod.splits)

lemma Write_body:
  "rw_body (writer (snd (snd (Write p s)))) =
     rw_body (writer s) @ (case rw_script (writer s) of [] \<Rightarrow> p | (n, e) # rest \<Rightarrow> take n p)"
  by (simp add: Write_def Let_def upd_defs split: list.splits prod.splits)

lemma Write_script:
  "rw_script (writer (snd (snd (Write p s)))) = tl (rw_script (writer s))"
  by (simp add: Write_def Let_def upd_defs split: list.splits prod.splits)

lemma Write_result:
  "fst (Write p s) = (case rw_script (writer s) of [] \<Rightarrow> length p | (n, e) # rest \<Rightarrow> min n (length p))"
  "fst (snd (Write p s)) = (case rw_script (writer s) of [] \<Rightarrow> None | (n, e) # rest \<Rightarrow> e)"
  by (simp_all add: Write_def Let_def upd_defs split: list.splits prod.splits)

lemma Buffer_Write_frame [simp]:
  "data (Buffer_Write b p s) = data s"
  "clock (Buffer_Write b p s) = clock s"
  "reqBody (Buffer_Write b p s) = reqBody s"
  "chan (Buffer_Write b p s) = chan s"
  "upstream (Buffer_Write b p s) = upstream s"
  "writer (Buffer_Write b p s) = writer s"
  "effects (Buffer_Write b p s) = effects s"
  "buffers (Buffer_Write b p s) = (buffers s)[b := buffers s ! b @ p]"
  by (simp_all add: Buffer_Write_def)

lemma io_Copy_frame:
  "data (snd (io_Copy b ps fin s)) = data s \<and>
   clock (snd (io_Copy b ps fin s)) = clock s \<and>
   reqBody (snd (io_Copy b ps fin s)) = reqBody s \<and>
   chan (snd (io_Copy b ps fin s)) = chan s \<and>
   upstream (snd (io_Copy b ps fin s)) = upstream s \<and>
   rw_Header (writer (snd (io_Copy b ps fin s))) = rw_Header (writer s) \<and>
   length (buffers (snd (io_Copy b ps fin s))) = length (buffers s) \<and>
   filter is_Published (effects (snd (io_Copy b ps fin s))) = filter is_Published (effects s)"
proof (induction ps arbitrary: s)
  case Nil
  show ?case by simp
next
  case (Cons p ps)
  show ?case
  proof (cases "p = []")
    case True
    then show ?thesis using Cons.IH [of s] by simp
  next
    case False
    obtain nw ew s1 where w: "Write p (Buffer_Write b p s) = (nw, ew, s1)"
      by (cases "Write p (Buffer_Write b p s)") auto
    have s1: "s1 = snd (snd (Write p (Buffer_Write b p s)))" using w by simp
    have fr: "data s1 = data s" "clock s1 = clock s" "reqBody s1 = reqBody s" "chan s1 = chan s"
      "upstream s1 = upstream s" "rw_Header (writer s1) = rw_Header (writer s)"
      "length (buffers s1) = length (buffers s)"
      "filter is_Published (effects s1) = filter is_Published (effects s)"
      unfolding s1 by simp_all
    show ?thesis using False w fr Cons.IH [of s1] by simp
  qed
qed

text \<open>The copy loop comes to what \<^const>\<open>copy_outcome\<close> says.\<close>

lemma io_Copy_outcome:
  "b < length (buffers s) \<Longrightarrow>
   fst (io_Copy b ps fin s) = fst (copy_outcome ps fin (rw_script (writer s))) \<and>
   buffers (snd (io_Copy b ps fin s)) =
     (buffers s)[b := buffers s ! b @ fst (snd (copy_outcome ps fin (rw_script (writer s))))] \<and>
   rw_body (writer (snd (io_Copy b ps fin s))) =
     rw_body (writer s) @ snd (snd (copy_outcome ps fin (rw_script (writer s))))"
proof (induction ps arbitrary: s)
  case Nil
  then show ?case by simp
next
  case (Cons p ps)
  show ?case
  proof (cases "p = []")
    case True
    then show ?thesis using Cons.IH [OF Cons.prems] by simp
  next
    case False
    let ?s0 = "Buffer_Write b p s"
    obtain nw ew s1 where w: "Write p ?s0 = (nw, ew, s1)"
      by (cases "Write p ?s0") auto
    have s1: "s1 = snd (snd (Write p ?s0))" and nw: "nw = fst (Write p ?s0)"
      and ew: "ew = fst (snd (Write p ?s0))" using w by simp_all
    have len: "b < length (buffers s1)" unfolding s1 using Cons.prems by simp
    have bufs: "buffers s1 = (buffers s)[b := buffers s ! b @ p]" unfolding s1 by simp
    have body: "rw_body (writer s1) =
        rw_body (writer s) @ (case rw_script (writer s) of [] \<Rightarrow> p | (n, e) # rest \<Rightarrow> take n p)"
      unfolding s1 by (simp add: Write_body)
    have scr: "rw_script (writer s1) = tl (rw_script (writer s))"
      unfolding s1 by (simp add: Write_script)
    have nw': "nw = (case rw_script (writer s) of [] \<Rightarrow> length p | (n, e) # rest \<Rightarrow> min n (length p))"
      and ew': "ew = (case rw_script (writer s) of [] \<Rightarrow> None | (n, e) # rest \<Rightarrow> e)"
      unfolding nw ew by (simp_all add: Write_result)
    show ?thesis
    proof (cases "rw_script (writer s)")
      case Nil
      then show ?thesis
        using False w nw' ew' bufs body scr Cons.IH [OF len] Cons.prems
        by (simp split: prod.splits)
    next
      case (Cons ne rest)
      obtain n e where ne: "ne = (n, e)" by (cases ne) auto
      show ?thesis
        using False w nw' ew' bufs body scr Cons.IH [OF len] Cons.prems Cons ne
        by (auto split: prod.splits)
    qed
  qed
qed


subsection \<open>A run of the transport\<close>

lemma TeeReader_Read_frame [simp]:
  "data (TeeReader_Read b s) = data s"
  "clock (TeeReader_Read b s) = clock s"
  "chan (TeeReader_Read b s) = chan s"
  "writer (TeeReader_Read b s) = writer s"
  "effects (TeeReader_Read b s) = effects s"
  "length (buffers (TeeReader_Read b s)) = length (buffers s)"
  by (simp_all add: TeeReader_Read_def Reader_Read_def Let_def split: list.splits)

lemma TeeReader_Read_tee:
  "\<exists>p. upstream (TeeReader_Read b s) = upstream s @ p \<and>
       buffers (TeeReader_Read b s) = (buffers s)[b := buffers s ! b @ p]"
  by (cases "chunks (reqBody s)")
     (auto simp add: TeeReader_Read_def Reader_Read_def Let_def)

lemma transport_step_frame [simp]:
  "chan (transport_step b ev s) = chan s"
  "writer (transport_step b ev s) = writer s"
  "effects (transport_step b ev s) = effects s"
  "length (buffers (transport_step b ev s)) = length (buffers s)"
  "StatusCode (data (transport_step b ev s)) = StatusCode (data s)"
  "Request (data (transport_step b ev s)) = Request (data s)"
  "Response (data (transport_step b ev s)) = Response (data s)"
  "Error (data (transport_step b ev s)) = Error (data s)"
  "Source (data (transport_step b ev s)) = Source (data s)"
  "Start (Times (data (transport_step b ev s))) = Start (Times (data s))"
  "End (Times (data (transport_step b ev s))) = End (Times (data s))"
  by (cases ev; simp add: upd_defs)+

lemma transport_step_clock:
  "clock (transport_step b ev s) = clock s + elapsed [ev]"
  by (cases ev) (simp_all add: upd_defs)

lemma transport_step_tee:
  "\<exists>p. upstream (transport_step b ev s) = upstream s @ p \<and>
       buffers (transport_step b ev s) = (buffers s)[b := buffers s ! b @ p]"
proof (cases ev)
  case ReadBody
  then show ?thesis using TeeReader_Read_tee [of b s] by simp
qed (simp_all add: upd_defs)

lemma elapsed_append: "elapsed (xs @ ys) = elapsed xs + elapsed ys"
  by (induction xs rule: elapsed.induct) simp_all

lemma run_frame:
  "chan (fold (transport_step b) evs s) = chan s \<and>
   writer (fold (transport_step b) evs s) = writer s \<and>
   effects (fold (transport_step b) evs s) = effects s \<and>
   length (buffers (fold (transport_step b) evs s)) = length (buffers s) \<and>
   StatusCode (data (fold (transport_step b) evs s)) = StatusCode (data s) \<and>
   Request (data (fold (transport_step b) evs s)) = Request (data s) \<and>
   Response (data (fold (transport_step b) evs s)) = Response (data s) \<and>
   Error (data (fold (transport_step b) evs s)) = Error (data s) \<and>
   Source (data (fold (transport_step b) evs s)) = Source (data s) \<and>
   Start (Times (data (fold (transport_step b) evs s))) = Start (Times (data s)) \<and>
   End (Times (data (fold (transport_step b) evs s))) = End (Times (data s)) \<and>
   clock (fold (transport_step b) evs s) = clock s + elapsed evs"
proof (induction evs arbitrary: s)
  case Nil
  show ?case by simp
next
  case (Cons ev evs)
  have "elapsed (ev # evs) = elapsed [ev] + elapsed evs"
    using elapsed_append [of "[ev]" evs] by simp
  then show ?case using Cons.IH [of "transport_step b ev s"]
    by (simp add: transport_step_clock)
qed

lemma run_tee:
  "b < length (buffers s) \<Longrightarrow>
   \<exists>rd. upstream (fold (transport_step b) evs s) = upstream s @ rd \<and>
        buffers (fold (transport_step b) evs s) = (buffers s)[b := buffers s ! b @ rd]"
proof (induction evs arbitrary: s)
  case Nil
  have "upstream s = upstream s @ [] \<and> buffers s = (buffers s)[b := buffers s ! b @ []]"
    by simp
  then show ?case by (simp del: append_Nil2) 
next
  case (Cons ev evs)
  let ?s1 = "transport_step b ev s"
  obtain p where p: "upstream ?s1 = upstream s @ p"
      "buffers ?s1 = (buffers s)[b := buffers s ! b @ p]"
    using transport_step_tee [of b ev s] by blast
  have "b < length (buffers ?s1)" using Cons.prems by simp
  from Cons.IH [OF this] obtain rd where rd:
      "upstream (fold (transport_step b) evs ?s1) = upstream ?s1 @ rd"
      "buffers (fold (transport_step b) evs ?s1) = (buffers ?s1)[b := buffers ?s1 ! b @ rd]"
    by blast
  have "upstream (fold (transport_step b) (ev # evs) s) = upstream s @ (p @ rd)"
    using p rd by simp
  moreover have "buffers (fold (transport_step b) (ev # evs) s) =
      (buffers s)[b := buffers s ! b @ (p @ rd)]"
    using p rd Cons.prems by simp
  ultimately show ?case by blast
qed

lemma run_no_WroteRequest:
  "\<forall>info. CallWroteRequest info \<notin> set evs \<Longrightarrow>
   WroteRequest (Times (data (fold (transport_step b) evs s))) = WroteRequest (Times (data s))"
proof (induction evs arbitrary: s)
  case Nil
  show ?case by simp
next
  case (Cons ev evs)
  then show ?case by (cases ev) (auto simp add: upd_defs)
qed

lemma run_no_GotFirstResponseByte:
  "CallGotFirstResponseByte \<notin> set evs \<Longrightarrow>
   GotFirstResponseByte (Times (data (fold (transport_step b) evs s))) =
     GotFirstResponseByte (Times (data s))"
proof (induction evs arbitrary: s)
  case Nil
  show ?case by simp
next
  case (Cons ev evs)
  then show ?case by (cases ev) (simp_all add: upd_defs)
qed

lemma run_last_WroteRequest:
  assumes "\<forall>info. CallWroteRequest info \<notin> set post"
  shows "WroteRequest (Times (data (fold (transport_step b) (pre @ CallWroteRequest x # post) s))) =
     Some (clock s + elapsed pre)"
proof -
  let ?s1 = "fold (transport_step b) pre s"
  have "clock ?s1 = clock s + elapsed pre" using run_frame [of b pre s] by simp
  then have "WroteRequest (Times (data (transport_step b (CallWroteRequest x) ?s1))) =
      Some (clock s + elapsed pre)"
    by (simp add: upd_defs time_Now_def)
  then show ?thesis
    using run_no_WroteRequest [OF assms, of b "transport_step b (CallWroteRequest x) ?s1"]
    by simp
qed

lemma run_last_GotFirstResponseByte:
  assumes "CallGotFirstResponseByte \<notin> set post"
  shows "GotFirstResponseByte (Times (data (fold (transport_step b)
           (pre @ CallGotFirstResponseByte # post) s))) = Some (clock s + elapsed pre)"
proof -
  let ?s1 = "fold (transport_step b) pre s"
  have "clock ?s1 = clock s + elapsed pre" using run_frame [of b pre s] by simp
  then have "GotFirstResponseByte (Times (data (transport_step b CallGotFirstResponseByte ?s1))) =
      Some (clock s + elapsed pre)"
    by (simp add: upd_defs time_Now_def)
  then show ?thesis
    using run_no_GotFirstResponseByte [OF assms, of b "transport_step b CallGotFirstResponseByte ?s1"]
    by simp
qed

subsection \<open>The steps of the pipeline\<close>

lemma prepareRequest_eq:
  "prepareRequest e r u s =
     (case NewRequest_error e (Method r) (rewrite (URL r) u) of
        Some er \<Rightarrow> Inl er
      | None \<Rightarrow> Inr (outbound r u s),
      upd_data (\<lambda>x. x\<lparr>Request := Some (length (buffers s))\<rparr>) (s\<lparr>buffers := buffers s @ [[]]\<rparr>))"
  by (simp add: prepareRequest_def new_Buffer_def outbound_def Let_def split: option.splits)

lemma handleRequest_invalid:
  assumes "NewRequest_error e (Method r) (rewrite (URL r) u) = Some er"
  shows "handleRequest e r u s =
     Return (Some er, upd_data (\<lambda>x. x\<lparr>Request := Some (length (buffers s))\<rparr>)
                        (s\<lparr>buffers := buffers s @ [[]]\<rparr>))"
  using assms by (simp add: handleRequest_def prepareRequest_eq)

lemma handleRequest_valid:
  assumes "NewRequest_error e (Method r) (rewrite (URL r) u) = None"
  shows "handleRequest e r u s =
     process e (outbound r u s)
       (upd_data (\<lambda>x. x\<lparr>Request := Some (length (buffers s)),
                         Source := Header_Get (Header r) ''Source''\<rparr>)
          (s\<lparr>buffers := buffers s @ [[]]\<rparr>))"
  using assms by (simp add: handleRequest_def prepareRequest_eq upd_defs)

lemma process_failed:
  assumes "RoundTrip_run e req = (evs, Inl er)"
  shows "process e req s =
     Return (Some er,
       upd_data (\<lambda>x. x\<lparr>StatusCode := 503\<rparr>) (fold (transport_step (out_buf req)) evs s))"
  using assms by (simp add: process_def RoundTrip_def)

lemma process_eq:
  assumes "RoundTrip_run e req = (evs, Inr res)"
  shows "process e req s =
     (let s1 = fold (transport_step (out_buf req)) evs s;
          s4 = upd_writer (\<lambda>w. w\<lparr>rw_Header := copyHeaders (rw_Header w) (res_Header res)\<rparr>)
                 ((upd_data (\<lambda>x. x\<lparr>StatusCode := res_StatusCode res\<rparr>) s1)
                    \<lparr>buffers := buffers s1 @ [[]]\<rparr>)
      in case WriteHeader (res_StatusCode res) s4 of
           Panic w \<Rightarrow> Panic w
         | Return s5 \<Rightarrow>
             (let c = io_Copy (length (buffers s1)) (chunks (res_Body res))
                        (final (res_Body res)) s5
              in Return (fst c, upd_data (\<lambda>x. x\<lparr>Response := Some (length (buffers s1))\<rparr>) (snd c))))"
  using assms
  by (simp add: process_def RoundTrip_def new_Buffer_def Let_def upd_defs
      split: prod.splits result.splits)

lemma process_response:
  assumes "RoundTrip_run e req = (evs, Inr res)"
    and "rw_status (writer s) \<noteq> None \<or> (100 \<le> res_StatusCode res \<and> res_StatusCode res \<le> 999)"
  shows "process e req s =
     Return
       (let s1 = fold (transport_step (out_buf req)) evs s;
            s5 = state_after (WriteHeader (res_StatusCode res)
                   (upd_writer (\<lambda>w. w\<lparr>rw_Header := copyHeaders (rw_Header w) (res_Header res)\<rparr>)
                     ((upd_data (\<lambda>x. x\<lparr>StatusCode := res_StatusCode res\<rparr>) s1)
                        \<lparr>buffers := buffers s1 @ [[]]\<rparr>)));
            c = io_Copy (length (buffers s1)) (chunks (res_Body res)) (final (res_Body res)) s5
        in (fst c, upd_data (\<lambda>x. x\<lparr>Response := Some (length (buffers s1))\<rparr>) (snd c)))"
proof -
  let ?s1 = "fold (transport_step (out_buf req)) evs s"
  let ?s4 = "upd_writer (\<lambda>w. w\<lparr>rw_Header := copyHeaders (rw_Header w) (res_Header res)\<rparr>)
               ((upd_data (\<lambda>x. x\<lparr>StatusCode := res_StatusCode res\<rparr>) ?s1)
                  \<lparr>buffers := buffers ?s1 @ [[]]\<rparr>)"
  have "writer ?s1 = writer s" using run_frame [of "out_buf req" evs s] by simp
  then have "rw_status (writer ?s4) = rw_status (writer s)" by (simp add: upd_defs)
  then have "returns (WriteHeader (res_StatusCode res) ?s4)"
    using assms(2) by (simp add: WriteHeader_returns)
  then obtain s5 where "WriteHeader (res_StatusCode res) ?s4 = Return s5"
    by (cases "WriteHeader (res_StatusCode res) ?s4") simp_all
  then show ?thesis by (simp add: process_eq [OF assms(1)] Let_def)
qed

lemma process_panic:
  assumes "RoundTrip_run e req = (evs, Inr res)"
    and "rw_status (writer s) = None"
    and "res_StatusCode res < 100 \<or> 999 < res_StatusCode res"
  shows "process e req s =
     Panic
       (upd_writer (\<lambda>w. w\<lparr>rw_Header := copyHeaders (rw_Header w) (res_Header res)\<rparr>)
          ((upd_data (\<lambda>x. x\<lparr>StatusCode := res_StatusCode res\<rparr>)
              (fold (transport_step (out_buf req)) evs s))
             \<lparr>buffers := buffers (fold (transport_step (out_buf req)) evs s) @ [[]]\<rparr>))"
proof -
  let ?s1 = "fold (transport_step (out_buf req)) evs s"
  let ?s4 = "upd_writer (\<lambda>w. w\<lparr>rw_Header := copyHeaders (rw_Header w) (res_Header res)\<rparr>)
               ((upd_data (\<lambda>x. x\<lparr>StatusCode := res_StatusCode res\<rparr>) ?s1)
                  \<lparr>buffers := buffers ?s1 @ [[]]\<rparr>)"
  have "writer ?s1 = writer s" using run_frame [of "out_buf req" evs s] by simp
  then have "rw_status (writer ?s4) = None" using assms(2) by (simp add: upd_defs)
  then have "\<not> returns (WriteHeader (res_StatusCode res) ?s4)"
    using assms(3) by (auto simp add: WriteHeader_returns)
  then have "WriteHeader (res_StatusCode res) ?s4 = Panic ?s4" by (rule WriteHeader_Panic)
  then show ?thesis by (simp add: process_eq [OF assms(1)] Let_def)
qed

lemma log_Printf_frame [simp]:
  "data (log_Printf a c m s) = data s"
  "clock (log_Printf a c m s) = clock s"
  "reqBody (log_Printf a c m s) = reqBody s"
  "buffers (log_Printf a c m s) = buffers s"
  "chan (log_Printf a c m s) = chan s"
  "upstream (log_Printf a c m s) = upstream s"
  "writer (log_Printf a c m s) = writer s"
  "effects (log_Printf a c m s) = effects s @ [Logged a c m]"
  by (simp_all add: log_Printf_def)

lemma send_frame [simp]:
  "data (send s) = data s"
  "clock (send s) = clock s"
  "reqBody (send s) = reqBody s"
  "buffers (send s) = buffers s"
  "chan (send s) = chan s @ [data s]"
  "upstream (send s) = upstream s"
  "writer (send s) = writer s"
  "effects (send s) = effects s @ [Published (data s)]"
  by (simp_all add: send_def)

lemma http_Error_returns:
  "returns (http_Error m c s) \<longleftrightarrow> rw_status (writer s) \<noteq> None \<or> (100 \<le> c \<and> c \<le> 999)"
  by (auto simp add: http_Error_def Let_def WriteHeader_def upd_defs)

lemma http_Error_frame [simp]:
  "data (state_after (http_Error m c s)) = data s"
  "clock (state_after (http_Error m c s)) = clock s"
  "reqBody (state_after (http_Error m c s)) = reqBody s"
  "buffers (state_after (http_Error m c s)) = buffers s"
  "chan (state_after (http_Error m c s)) = chan s"
  "upstream (state_after (http_Error m c s)) = upstream s"
  "filter is_Published (effects (state_after (http_Error m c s))) = filter is_Published (effects s)"
  by (simp_all add: http_Error_def Let_def WriteHeader_def upd_defs)

lemma http_Error_fresh:
  assumes "rw_status (writer s) = None" and "100 \<le> c" and "c \<le> 999"
  shows "rw_status (writer (state_after (http_Error m c s))) = Some c"
    and "rw_body (writer (state_after (http_Error m c s))) =
           rw_body (writer s) @
             (case rw_script (writer s) of [] \<Rightarrow> m @ [CHR 0x0A] | (n, e) # rest \<Rightarrow> take n (m @ [CHR 0x0A]))"
    and "effects (state_after (http_Error m c s)) =
           effects s @
             [SentHeader c (Header_Set (Header_Set (rw_Header (writer s)) ''Content-Type''
                 ''text/plain; charset=utf-8'') ''X-Content-Type-Options'' ''nosniff''),
              SentBody (case rw_script (writer s) of [] \<Rightarrow> m @ [CHR 0x0A]
                        | (n, e) # rest \<Rightarrow> take n (m @ [CHR 0x0A]))]"
  using assms
  by (simp_all add: http_Error_def Let_def upd_defs Write_def WriteHeader_def sendHeader_def
      split: list.splits)

lemma http_Error_sent:
  "rw_status (writer s) \<noteq> None \<Longrightarrow>
   rw_status (writer (state_after (http_Error m c s))) = rw_status (writer s)"
  by (simp add: http_Error_def Let_def Write_status WriteHeader_def upd_defs)

lemma http_Error_body:
  "returns (http_Error m c s) \<Longrightarrow>
   rw_body (writer (state_after (http_Error m c s))) =
     rw_body (writer s) @
       (case rw_script (writer s) of [] \<Rightarrow> m @ [CHR 0x0A] | (n, e) # rest \<Rightarrow> take n (m @ [CHR 0x0A]))"
  by (simp add: http_Error_def Let_def Write_body WriteHeader_def upd_defs split: if_splits)

lemma handler_eq:
  "handler e u r s =
     (case handleRequest e r u
             (upd_data (upd_Times (\<lambda>t. t\<lparr>Start := Some (clock s)\<rparr>)) (s\<lparr>data := zero_Data\<rparr>)) of
        Panic w \<Rightarrow> Panic w
      | Return hr \<Rightarrow>
          (let s6 = send (upd_data (\<lambda>x. x\<lparr>Error := fst hr,
                             Times := (Times x)\<lparr>End := Some (clock (snd hr))\<rparr>\<rparr>) (snd hr))
           in case fst hr of
                Some er \<Rightarrow>
                  http_Error (error_Error er) 503
                    (log_Printf (URL_String (URL r)) 503 (Some (error_Error er)) s6)
              | None \<Rightarrow>
                  Return (log_Printf (URL_String (URL r)) (StatusCode (data (snd hr))) None s6)))"
  by (simp add: handler_def Let_def upd_defs time_Now_def
      split: prod.splits option.splits result.splits)

lemma handler_panic:
  assumes "handleRequest e r u
             (upd_data (upd_Times (\<lambda>t. t\<lparr>Start := Some (clock s)\<rparr>)) (s\<lparr>data := zero_Data\<rparr>))
           = Panic w"
  shows "handler e u r s = Panic w"
  using assms by (simp add: handler_eq)

lemma handler_after:
  assumes "handleRequest e r u
             (upd_data (upd_Times (\<lambda>t. t\<lparr>Start := Some (clock s)\<rparr>)) (s\<lparr>data := zero_Data\<rparr>))
           = Return (err, s3)"
  shows "data (state_after (handler e u r s)) =
           (data s3)\<lparr>Error := err, Times := (Times (data s3))\<lparr>End := Some (clock s3)\<rparr>\<rparr>"
    and "chan (state_after (handler e u r s)) = chan s3 @ [data (state_after (handler e u r s))]"
    and "buffers (state_after (handler e u r s)) = buffers s3"
    and "upstream (state_after (handler e u r s)) = upstream s3"
    and "clock (state_after (handler e u r s)) = clock s3"
    and "filter is_Published (effects (state_after (handler e u r s))) =
           filter is_Published (effects s3) @ [Published (data (state_after (handler e u r s)))]"
    and "err = None \<Longrightarrow> writer (state_after (handler e u r s)) = writer s3"
    and "err = None \<Longrightarrow> effects (state_after (handler e u r s)) =
           effects s3 @ [Published (data (state_after (handler e u r s))),
                         Logged (URL_String (URL r)) (StatusCode (data s3)) None]"
    and "returns (handler e u r s)"
  using assms
  by (simp_all add: handler_eq Let_def upd_defs http_Error_returns split: option.splits)

lemma handler_after_error:
  assumes "handleRequest e r u
             (upd_data (upd_Times (\<lambda>t. t\<lparr>Start := Some (clock s)\<rparr>)) (s\<lparr>data := zero_Data\<rparr>))
           = Return (Some er, s3)"
  shows "handler e u r s =
           http_Error (error_Error er) 503
             (log_Printf (URL_String (URL r)) 503 (Some (error_Error er))
               (send (upd_data (\<lambda>x. x\<lparr>Error := Some er,
                        Times := (Times x)\<lparr>End := Some (clock s3)\<rparr>\<rparr>) s3)))"
  using assms by (simp add: handler_eq Let_def)


subsection \<open>URL rewriting\<close>

lemma escape_id: "\<forall>c\<in>set s. \<not> shouldEscape c mode \<Longrightarrow> escape s mode = s"
  by (induction s) (simp_all add: escape_def escape_byte_def)

lemma escape_Nil_iff: "escape s mode = [] \<longleftrightarrow> s = []"
  by (cases s) (simp_all add: escape_def escape_byte_def)

lemma escape_take1: "take 1 s = ''/'' \<Longrightarrow> take 1 (escape s encodePath) = ''/''"
  by (cases s) (simp_all add: escape_def escape_byte_def shouldEscape_def isAlnum_def)

lemma rewrite_general:
  assumes "Scheme t \<noteq> []" "Host t \<noteq> []" "Path s = [] \<or> take 1 (Path s) = ''/''"
  shows "rewrite s t = Scheme t @ ''://'' @ escape (Host t) encodeHost @ escape (Path s) encodePath
           @ (if RawQuery s = [] then [] else ''?'' @ RawQuery s)"
proof -
  have star: "Path s \<noteq> ''*''" using assms(3) by auto
  show ?thesis
  proof (cases "Path s = []")
    case True
    then show ?thesis using assms(1,2)
      by (simp add: rewrite_def URL_String_def EscapedPath_def escape_def)
  next
    case False
    then have "take 1 (Path s) = ''/''" using assms(3) by simp
    then have "take 1 (escape (Path s) encodePath) = ''/''" by (rule escape_take1)
    then show ?thesis using assms(1,2) star False
      by (simp add: rewrite_def URL_String_def EscapedPath_def Let_def escape_Nil_iff)
  qed
qed

lemmas url_eval = rewrite_def URL_String_def EscapedPath_def escape_def escape_byte_def
  shouldEscape_def isAlnum_def upperhex_def Let_def


text \<open>
  Claim C6, as the code has it. \<^const>\<open>rewrite\<close> is a function of the target's scheme
  and host and of the inbound \<^verbatim>\<open>Path\<close> and \<^verbatim>\<open>RawQuery\<close> alone: the inbound
  scheme, host, fragment and every other field play no part. With a scheme and a host
  in the target and a path that is empty or begins with a slash, the result is the
  scheme, \<^verbatim>\<open>://\<close>, the host and the path, each percent-encoded where
  \<^verbatim>\<open>URL.String\<close> encodes, and the raw query after a \<^verbatim>\<open>?\<close> when it is not empty,
  byte for byte. When no byte of the host or of the path needs encoding, the result is
  \<^verbatim>\<open>scheme://host\<close> followed by the path and the query unchanged.
\<close>

theorem rewrite_shape:
  "(Scheme t' = Scheme t \<and> Host t' = Host t \<and> Path s' = Path s \<and> RawQuery s' = RawQuery s
      \<longrightarrow> rewrite s' t' = rewrite s t)
   \<and> (Scheme t \<noteq> [] \<and> Host t \<noteq> [] \<and> (Path s = [] \<or> take 1 (Path s) = ''/'')
      \<longrightarrow> rewrite s t =
            Scheme t @ ''://'' @ escape (Host t) encodeHost @ escape (Path s) encodePath
            @ (if RawQuery s = [] then [] else ''?'' @ RawQuery s))
   \<and> (Scheme t \<noteq> [] \<and> Host t \<noteq> [] \<and> (Path s = [] \<or> take 1 (Path s) = ''/'')
       \<and> (\<forall>c\<in>set (Host t). \<not> shouldEscape c encodeHost)
       \<and> (\<forall>c\<in>set (Path s). \<not> shouldEscape c encodePath)
      \<longrightarrow> rewrite s t =
            Scheme t @ ''://'' @ Host t @ Path s
            @ (if RawQuery s = [] then [] else ''?'' @ RawQuery s))"
proof (intro conjI impI)
  assume "Scheme t' = Scheme t \<and> Host t' = Host t \<and> Path s' = Path s \<and> RawQuery s' = RawQuery s"
  then show "rewrite s' t' = rewrite s t" by (simp add: rewrite_def)
next
  assume "Scheme t \<noteq> [] \<and> Host t \<noteq> [] \<and> (Path s = [] \<or> take 1 (Path s) = ''/'')"
  then show "rewrite s t =
      Scheme t @ ''://'' @ escape (Host t) encodeHost @ escape (Path s) encodePath
      @ (if RawQuery s = [] then [] else ''?'' @ RawQuery s)"
    using rewrite_general [of t s] by blast
next
  assume a: "Scheme t \<noteq> [] \<and> Host t \<noteq> [] \<and> (Path s = [] \<or> take 1 (Path s) = ''/'')
       \<and> (\<forall>c\<in>set (Host t). \<not> shouldEscape c encodeHost)
       \<and> (\<forall>c\<in>set (Path s). \<not> shouldEscape c encodePath)"
  then have "escape (Host t) encodeHost = Host t" "escape (Path s) encodePath = Path s"
    by (simp_all add: escape_id)
  then show "rewrite s t =
      Scheme t @ ''://'' @ Host t @ Path s @ (if RawQuery s = [] then [] else ''?'' @ RawQuery s)"
    using a rewrite_general [of t s] by simp
qed

theorem rewrite_shape_witness:
  "rewrite example_url example_target = ''http://upstream:8080/some/path?a=1&b=2''
   \<and> rewrite (example_url\<lparr>Scheme := ''ftp'', Host := ''elsewhere'', Fragment := []\<rparr>) example_target
       = rewrite example_url example_target
   \<and> rewrite (example_url\<lparr>Path := ''/a b''\<rparr>) example_target
       = ''http://upstream:8080/a%20b?a=1&b=2''"
proof -
  have h: "Scheme example_target \<noteq> [] \<and> Host example_target \<noteq> []
      \<and> (Path example_url = [] \<or> take 1 (Path example_url) = ''/'')
      \<and> (\<forall>c\<in>set (Host example_target). \<not> shouldEscape c encodeHost)
      \<and> (\<forall>c\<in>set (Path example_url). \<not> shouldEscape c encodePath)"
    by (simp add: example_target_def example_url_def shouldEscape_def isAlnum_def)
  have "rewrite example_url example_target =
      Scheme example_target @ ''://'' @ Host example_target @ Path example_url
      @ (if RawQuery example_url = [] then [] else ''?'' @ RawQuery example_url)"
    using rewrite_shape [of example_target example_target example_url example_url] h by blast
  then have a: "rewrite example_url example_target = ''http://upstream:8080/some/path?a=1&b=2''"
    by (simp add: example_target_def example_url_def)
  have b: "rewrite (example_url\<lparr>Scheme := ''ftp'', Host := ''elsewhere'', Fragment := []\<rparr>)
      example_target = rewrite example_url example_target"
    using rewrite_shape [of example_target example_target
        "example_url\<lparr>Scheme := ''ftp'', Host := ''elsewhere'', Fragment := []\<rparr>" example_url]
    by simp
  have c: "rewrite (example_url\<lparr>Path := ''/a b''\<rparr>) example_target
      = ''http://upstream:8080/a%20b?a=1&b=2''"
    using rewrite_shape [of example_target example_target
        "example_url\<lparr>Path := ''/a b''\<rparr>" "example_url\<lparr>Path := ''/a b''\<rparr>"]
    by (simp add: example_target_def example_url_def escape_def escape_byte_def
        shouldEscape_def isAlnum_def upperhex_def)
  show ?thesis using a b c by simp
qed


text \<open>
  The claim as the specification words it, the path passed through unmodified, fails
  for a path with a space: \<^verbatim>\<open>URL.String\<close> writes \<^verbatim>\<open>%20\<close>.
\<close>

theorem rewrite_escapes_path:
  "rewrite
     \<lparr>Scheme = [], Opaque = [], User = None, Host = [], Path = ''/a b'', RawPath = [],
      ForceQuery = False, RawQuery = ''q=1'', Fragment = []\<rparr>
     \<lparr>Scheme = ''http'', Opaque = [], User = None, Host = ''upstream:8080'', Path = [],
      RawPath = [], ForceQuery = False, RawQuery = [], Fragment = []\<rparr>
   = ''http://upstream:8080/a%20b?q=1''
   \<and> ''http://upstream:8080/a%20b?q=1'' \<noteq> ''http'' @ ''://'' @ ''upstream:8080'' @ ''/a b'' @ ''?'' @ ''q=1''"
  by (simp add: url_eval)

subsection \<open>Header copying\<close>

lemma Header_Set_map_of:
  "map_of (Header_Set h k v) = (map_of h)(CanonicalMIMEHeaderKey k \<mapsto> [v])"
  by (simp add: Header_Set_def update_conv')

lemma copy_fold:
  "map_of (fold (\<lambda>k h. Header_Set h k (Header_Get src k)) ks dst) c =
     (if c \<in> CanonicalMIMEHeaderKey ` set ks
      then Some [case map_of src c of None \<Rightarrow> [] | Some [] \<Rightarrow> [] | Some (v # _) \<Rightarrow> v]
      else map_of dst c)"
proof (induction ks arbitrary: dst)
  case Nil
  show ?case by simp
next
  case (Cons k ks)
  show ?case
    using Cons.IH [of "Header_Set dst k (Header_Get src k)"]
    by (auto simp add: Header_Set_map_of Header_Get_def)
qed

lemma copyHeaders_map_of:
  "map_of (copyHeaders dst src) c =
     (if c \<in> CanonicalMIMEHeaderKey ` fst ` set src
      then Some [case map_of src c of None \<Rightarrow> [] | Some [] \<Rightarrow> [] | Some (v # _) \<Rightarrow> v]
      else map_of dst c)"
  using copy_fold [of src "map fst src" dst c] by (simp add: copyHeaders_def)

text \<open>
  Claim C5, as the code has it. Copying replaces per key: for every key of the source,
  \<^verbatim>\<open>Get\<close> on the copy returns what \<^verbatim>\<open>Get\<close> on the source returns, and the
  destination holds that single value under the canonical key. For a canonical key
  with several values this is the first of them, the first occurrence of a repeated
  header name. A key that is the canonical form of no key of the source keeps what
  the destination had.
\<close>

theorem copyHeaders_first_value:
  "(k \<in> fst ` set src \<longrightarrow>
      Header_Get (copyHeaders dst src) k = Header_Get src k
      \<and> map_of (copyHeaders dst src) (CanonicalMIMEHeaderKey k) = Some [Header_Get src k])
   \<and> (map_of src k = Some (v # vs) \<and> CanonicalMIMEHeaderKey k = k \<longrightarrow>
        Header_Get (copyHeaders dst src) k = v
        \<and> map_of (copyHeaders dst src) k = Some [v])
   \<and> (c \<notin> CanonicalMIMEHeaderKey ` fst ` set src \<longrightarrow>
        map_of (copyHeaders dst src) c = map_of dst c)"
proof (intro conjI impI)
  assume k: "k \<in> fst ` set src"
  then have m: "map_of (copyHeaders dst src) (CanonicalMIMEHeaderKey k) = Some [Header_Get src k]"
    by (simp add: copyHeaders_map_of Header_Get_def)
  then show "map_of (copyHeaders dst src) (CanonicalMIMEHeaderKey k) = Some [Header_Get src k]" .
  show "Header_Get (copyHeaders dst src) k = Header_Get src k"
    using m by (simp add: Header_Get_def [of "copyHeaders dst src"])
next
  assume a: "map_of src k = Some (v # vs) \<and> CanonicalMIMEHeaderKey k = k"
  then have "(k, v # vs) \<in> set src" by (simp add: map_of_SomeD)
  then have k: "k \<in> fst ` set src" by force
  have g: "Header_Get src k = v" using a by (simp add: Header_Get_def)
  have m: "map_of (copyHeaders dst src) (CanonicalMIMEHeaderKey k) = Some [Header_Get src k]"
    using k by (simp add: copyHeaders_map_of Header_Get_def)
  then show "map_of (copyHeaders dst src) k = Some [v]" using a g by simp
  then show "Header_Get (copyHeaders dst src) k = v"
    using a by (simp add: Header_Get_def [of "copyHeaders dst src"])
next
  assume "c \<notin> CanonicalMIMEHeaderKey ` fst ` set src"
  then show "map_of (copyHeaders dst src) c = map_of dst c"
    by (simp add: copyHeaders_map_of)
qed

lemmas header_eval = copyHeaders_def Header_Get_def Header_Set_def CanonicalMIMEHeaderKey_def
  validHeaderFieldByte_def isAlnum_def Let_def

theorem copyHeaders_first_value_witness:
  "Header_Get (copyHeaders [(''Accept'', [''old'']), (''Keep'', [''k''])] (Header example_request))
       ''Accept'' = ''text/html''
   \<and> map_of (copyHeaders [(''Accept'', [''old'']), (''Keep'', [''k''])] (Header example_request))
       ''Accept'' = Some [''text/html'']
   \<and> map_of (copyHeaders [(''Accept'', [''old'']), (''Keep'', [''k''])] (Header example_request))
       ''Keep'' = Some [''k'']"
proof -
  let ?dst = "[(''Accept'', [''old'']), (''Keep'', [''k''])]"
  have h1: "''Accept'' \<in> fst ` set (Header example_request)"
    by (simp add: example_request_def)
  have h2: "map_of (Header example_request) ''Accept'' = Some (''text/html'' # [''text/plain''])
      \<and> CanonicalMIMEHeaderKey ''Accept'' = ''Accept''"
    by (simp add: example_request_def CanonicalMIMEHeaderKey_def validHeaderFieldByte_def isAlnum_def Let_def)
  have h3: "''Keep'' \<notin> CanonicalMIMEHeaderKey ` fst ` set (Header example_request)"
    by (simp add: example_request_def CanonicalMIMEHeaderKey_def validHeaderFieldByte_def isAlnum_def Let_def)
  have t: "Header_Get (copyHeaders ?dst (Header example_request)) ''Accept'' = ''text/html''
      \<and> map_of (copyHeaders ?dst (Header example_request)) ''Accept'' = Some [''text/html'']"
    using copyHeaders_first_value [of "''Accept''" "Header example_request" ?dst
        "''text/html''" "[''text/plain'']" "''Keep''"] h2 by blast
  have "map_of (copyHeaders ?dst (Header example_request)) ''Keep'' = map_of ?dst ''Keep''"
    using copyHeaders_first_value [of "''Accept''" "Header example_request" ?dst
        "''text/html''" "[''text/plain'']" "''Keep''"] h3 by blast
  then show ?thesis using t by simp
qed

text \<open>
  The claim as the specification words it, the last occurrence of a repeated name and
  an identical value on the copy, fails for a header with two values: the copy has
  the first one only.
\<close>

theorem copyHeaders_keeps_first_not_last:
  "Header_Get (copyHeaders [] [(''Accept'', [''text/html'', ''text/plain''])]) ''Accept''
     = ''text/html''
   \<and> last [''text/html'', ''text/plain''] = ''text/plain''
   \<and> Header_Get (copyHeaders [] [(''Accept'', [''text/html'', ''text/plain''])]) ''Accept''
       \<noteq> last [''text/html'', ''text/plain'']
   \<and> map_of (copyHeaders [] [(''Accept'', [''text/html'', ''text/plain''])]) ''Accept''
       \<noteq> map_of [(''Accept'', [''text/html'', ''text/plain''])] ''Accept''"
  by (simp add: header_eval)

subsection \<open>The handler, path by path\<close>

lemma outbound_buf [simp]: "out_buf (outbound r u s) = length (buffers s)"
  by (simp add: outbound_def)

lemma outbound_cong: "length (buffers s') = length (buffers s) \<Longrightarrow> outbound r u s' = outbound r u s"
  by (simp add: outbound_def)

lemma handleRequest_frame:
  "chan (state_of (handleRequest e r u s)) = chan s \<and>
   filter is_Published (effects (state_of (handleRequest e r u s))) =
     filter is_Published (effects s) \<and>
   clock s \<le> clock (state_of (handleRequest e r u s)) \<and>
   Start (Times (data (state_of (handleRequest e r u s)))) = Start (Times (data s)) \<and>
   End (Times (data (state_of (handleRequest e r u s)))) = End (Times (data s))"
proof (cases "NewRequest_error e (Method r) (rewrite (URL r) u)")
  case (Some er)
  then show ?thesis by (simp add: handleRequest_invalid upd_defs)
next
  case None
  let ?sp = "upd_data (\<lambda>x. x\<lparr>Request := Some (length (buffers s)),
                 Source := Header_Get (Header r) ''Source''\<rparr>) (s\<lparr>buffers := buffers s @ [[]]\<rparr>)"
  obtain evs result where rt: "RoundTrip_run e (outbound r u s) = (evs, result)"
    by (cases "RoundTrip_run e (outbound r u s)") auto
  let ?s1 = "fold (transport_step (length (buffers s))) evs ?sp"
  have run: "chan ?s1 = chan s" "effects ?s1 = effects s" "clock ?s1 = clock s + elapsed evs"
    "Start (Times (data ?s1)) = Start (Times (data s))"
    "End (Times (data ?s1)) = End (Times (data s))"
    using run_frame [of "length (buffers s)" evs ?sp] by (simp_all add: upd_defs)
  show ?thesis
  proof (cases result)
    case (Inl er)
    then show ?thesis using None rt run
      by (simp add: handleRequest_valid process_failed upd_defs)
  next
    case (Inr res)
    let ?s4 = "upd_writer (\<lambda>w. w\<lparr>rw_Header := copyHeaders (rw_Header w) (res_Header res)\<rparr>)
                 ((upd_data (\<lambda>x. x\<lparr>StatusCode := res_StatusCode res\<rparr>) ?s1)
                    \<lparr>buffers := buffers ?s1 @ [[]]\<rparr>)"
    let ?s5 = "state_after (WriteHeader (res_StatusCode res) ?s4)"
    have s4: "chan ?s4 = chan s" "filter is_Published (effects ?s4) = filter is_Published (effects s)"
      "clock ?s4 = clock s + elapsed evs"
      "Start (Times (data ?s4)) = Start (Times (data s))"
      "End (Times (data ?s4)) = End (Times (data s))"
      using run by (simp_all add: upd_defs)
    have s5: "chan ?s5 = chan s" "filter is_Published (effects ?s5) = filter is_Published (effects s)"
      "clock ?s5 = clock s + elapsed evs"
      "Start (Times (data ?s5)) = Start (Times (data s))"
      "End (Times (data ?s5)) = End (Times (data s))"
      using s4 by simp_all
    have rt': "RoundTrip_run e (outbound r u s) = (evs, Inr res)" using rt Inr by simp
    show ?thesis
    proof (cases "rw_status (writer ?sp) \<noteq> None
        \<or> (100 \<le> res_StatusCode res \<and> res_StatusCode res \<le> 999)")
      case True
      let ?c = "io_Copy (length (buffers ?s1)) (chunks (res_Body res)) (final (res_Body res)) ?s5"
      have "handleRequest e r u s =
          Return (fst ?c, upd_data (\<lambda>x. x\<lparr>Response := Some (length (buffers ?s1))\<rparr>) (snd ?c))"
        using handleRequest_valid [OF None, of s] process_response [OF rt' True]
        by (simp add: Let_def)
      then show ?thesis
        using s5
          io_Copy_frame [of "length (buffers ?s1)" "chunks (res_Body res)" "final (res_Body res)" ?s5]
        by (simp add: upd_defs)
    next
      case False
      then have f: "rw_status (writer ?sp) = None"
        "res_StatusCode res < 100 \<or> 999 < res_StatusCode res" by auto
      have "handleRequest e r u s = Panic ?s4"
        using handleRequest_valid [OF None, of s] process_panic [OF _ f, of e "outbound r u s" evs]
          rt' by simp
      then show ?thesis using s4 by simp
    qed
  qed
qed

lemma handler_chan:
  assumes "returns (handler e u r s)"
  shows "chan (state_after (handler e u r s)) = chan s @ [data (state_after (handler e u r s))]"
    and "filter is_Published (effects (state_after (handler e u r s))) =
           filter is_Published (effects s) @ [Published (data (state_after (handler e u r s)))]"
proof -
  let ?s2 = "upd_data (upd_Times (\<lambda>t. t\<lparr>Start := Some (clock s)\<rparr>)) (s\<lparr>data := zero_Data\<rparr>)"
  obtain err s3 where hr: "handleRequest e r u ?s2 = Return (err, s3)"
    using assms handler_panic [of e r u s]
    by (cases "handleRequest e r u ?s2") auto
  have "chan s3 = chan ?s2" "filter is_Published (effects s3) = filter is_Published (effects ?s2)"
    using handleRequest_frame [of e r u ?s2] hr by simp_all
  then have "chan s3 = chan s" "filter is_Published (effects s3) = filter is_Published (effects s)"
    by (simp_all add: upd_defs)
  then show "chan (state_after (handler e u r s)) = chan s @ [data (state_after (handler e u r s))]"
    and "filter is_Published (effects (state_after (handler e u r s))) =
           filter is_Published (effects s) @ [Published (data (state_after (handler e u r s)))]"
    using handler_after(2,6) [OF hr] by simp_all
qed

lemma handler_unpublished:
  assumes "\<not> returns (handler e u r s)"
  shows "chan (state_after (handler e u r s)) = chan s"
    and "filter is_Published (effects (state_after (handler e u r s))) =
           filter is_Published (effects s)"
proof -
  let ?s2 = "upd_data (upd_Times (\<lambda>t. t\<lparr>Start := Some (clock s)\<rparr>)) (s\<lparr>data := zero_Data\<rparr>)"
  obtain w where hr: "handleRequest e r u ?s2 = Panic w"
    using assms handler_after(9) [of e r u s]
    by (cases "handleRequest e r u ?s2") auto
  have "chan w = chan ?s2" "filter is_Published (effects w) = filter is_Published (effects ?s2)"
    using handleRequest_frame [of e r u ?s2] hr by simp_all
  then have "chan w = chan s" "filter is_Published (effects w) = filter is_Published (effects s)"
    by (simp_all add: upd_defs)
  then show "chan (state_after (handler e u r s)) = chan s"
    and "filter is_Published (effects (state_after (handler e u r s))) =
           filter is_Published (effects s)"
    using handler_panic [OF hr] by simp_all
qed

lemma handler_times:
  "Start (Times (data (state_after (handler e u r s)))) = Some (clock s)"
  "clock s \<le> clock (state_after (handler e u r s))"
  "returns (handler e u r s) \<Longrightarrow>
     End (Times (data (state_after (handler e u r s)))) = Some (clock (state_after (handler e u r s)))"
proof -
  let ?s2 = "upd_data (upd_Times (\<lambda>t. t\<lparr>Start := Some (clock s)\<rparr>)) (s\<lparr>data := zero_Data\<rparr>)"
  have fr: "clock ?s2 \<le> clock (state_of (handleRequest e r u ?s2))"
    "Start (Times (data (state_of (handleRequest e r u ?s2)))) = Start (Times (data ?s2))"
    using handleRequest_frame [of e r u ?s2] by simp_all
  have s2: "clock ?s2 = clock s" "Start (Times (data ?s2)) = Some (clock s)"
    by (simp_all add: upd_defs)
  show "Start (Times (data (state_after (handler e u r s)))) = Some (clock s)"
  proof (cases "handleRequest e r u ?s2")
    case (Return p)
    obtain err s3 where p: "p = (err, s3)" by (cases p) auto
    show ?thesis using fr s2 handler_after(1) [OF Return [unfolded p]] Return p by simp
  next
    case (Panic w)
    show ?thesis using fr s2 handler_panic [OF Panic] Panic by simp
  qed
  show "clock s \<le> clock (state_after (handler e u r s))"
  proof (cases "handleRequest e r u ?s2")
    case (Return p)
    obtain err s3 where p: "p = (err, s3)" by (cases p) auto
    show ?thesis using fr s2 handler_after(5) [OF Return [unfolded p]] Return p by simp
  next
    case (Panic w)
    show ?thesis using fr s2 handler_panic [OF Panic] Panic by simp
  qed
  show "End (Times (data (state_after (handler e u r s)))) = Some (clock (state_after (handler e u r s)))"
    if ret: "returns (handler e u r s)"
  proof -
    obtain err s3 where hr: "handleRequest e r u ?s2 = Return (err, s3)"
      using ret handler_panic [of e r u s]
      by (cases "handleRequest e r u ?s2") auto
    show ?thesis using handler_after(1,5) [OF hr] by simp
  qed
qed

lemmas run_eval = handler_def handleRequest_def prepareRequest_def process_def RoundTrip_def
  new_Buffer_def Buffer_Write_def TeeReader_Read_def Reader_Read_def WriteHeader_def sendHeader_def
  Write_def http_Error_def log_Printf_def send_def time_Now_def upd_data_def upd_Times_def
  upd_writer_def zero_Data_def outbound_def captured_def Let_def

lemmas sample_defs = example_target_def example_url_def example_request_def example_world_def
  example_response_def env_ok_def env_refused_def env_write_failed_def env_truncated_def
  env_099_def bad_method_request_def hung_up_def

lemma io_Copy_status:
  "rw_status (writer s) \<noteq> None \<Longrightarrow>
   rw_status (writer (snd (io_Copy b ps fin s))) = rw_status (writer s)"
proof (induction ps arbitrary: s)
  case Nil
  show ?case by simp
next
  case (Cons p ps)
  show ?case
  proof (cases "p = []")
    case True
    then show ?thesis using Cons.IH [OF Cons.prems] by simp
  next
    case False
    obtain nw ew s1 where w: "Write p (Buffer_Write b p s) = (nw, ew, s1)"
      by (cases "Write p (Buffer_Write b p s)") auto
    have "s1 = snd (snd (Write p (Buffer_Write b p s)))" using w by simp
    then have st: "rw_status (writer s1) = rw_status (writer s)"
      using Cons.prems by (simp add: Write_status)
    then have "rw_status (writer s1) \<noteq> None" using Cons.prems by simp
    from Cons.IH [OF this] show ?thesis using False w st by simp
  qed
qed

lemma list_update_snoc: "(xs @ [y])[length xs := z] = xs @ [z]"
  by (induction xs) simp_all

lemma list_update_snoc2: "(xs @ [y, y'])[Suc (length xs) := z] = xs @ [y, z]"
  by (induction xs) simp_all

lemma handleRequest_response:
  assumes nr: "NewRequest_error e (Method r) (rewrite (URL r) u) = None"
    and rt: "RoundTrip_run e (outbound r u s) = (evs, Inr res)"
    and ok: "rw_status (writer s) \<noteq> None
               \<or> (100 \<le> res_StatusCode res \<and> res_StatusCode res \<le> 999)"
  shows "\<exists>rq s3.
     handleRequest e r u s =
       Return (fst (copy_outcome (chunks (res_Body res)) (final (res_Body res)) (rw_script (writer s))), s3)
     \<and> data s3 =
         (data (fold (transport_step (length (buffers s))) evs
            (upd_data (\<lambda>x. x\<lparr>Request := Some (length (buffers s)),
                              Source := Header_Get (Header r) ''Source''\<rparr>)
               (s\<lparr>buffers := buffers s @ [[]]\<rparr>))))
         \<lparr>StatusCode := res_StatusCode res, Response := Some (Suc (length (buffers s)))\<rparr>
     \<and> upstream s3 = upstream s @ rq
     \<and> buffers s3 = buffers s @
         [rq, fst (snd (copy_outcome (chunks (res_Body res)) (final (res_Body res))
                          (rw_script (writer s))))]
     \<and> rw_body (writer s3) = rw_body (writer s) @
         snd (snd (copy_outcome (chunks (res_Body res)) (final (res_Body res))
                     (rw_script (writer s))))
     \<and> rw_status (writer s3) =
         (if rw_status (writer s) = None then Some (res_StatusCode res) else rw_status (writer s))
     \<and> clock s3 = clock s + elapsed evs
     \<and> chan s3 = chan s"
proof -
  let ?n = "length (buffers s)"
  let ?sp = "upd_data (\<lambda>x. x\<lparr>Request := Some ?n, Source := Header_Get (Header r) ''Source''\<rparr>)
               (s\<lparr>buffers := buffers s @ [[]]\<rparr>)"
  let ?s1 = "fold (transport_step ?n) evs ?sp"
  let ?s4 = "upd_writer (\<lambda>w. w\<lparr>rw_Header := copyHeaders (rw_Header w) (res_Header res)\<rparr>)
               ((upd_data (\<lambda>x. x\<lparr>StatusCode := res_StatusCode res\<rparr>) ?s1)
                  \<lparr>buffers := buffers ?s1 @ [[]]\<rparr>)"
  let ?s5 = "state_after (WriteHeader (res_StatusCode res) ?s4)"
  let ?ps = "chunks (res_Body res)" and ?fin = "final (res_Body res)"
  let ?c = "io_Copy (length (buffers ?s1)) ?ps ?fin ?s5"
  let ?co = "copy_outcome ?ps ?fin (rw_script (writer s))"
  let ?s3 = "upd_data (\<lambda>x. x\<lparr>Response := Some (length (buffers ?s1))\<rparr>) (snd ?c)"
  have ok': "rw_status (writer ?sp) \<noteq> None
      \<or> (100 \<le> res_StatusCode res \<and> res_StatusCode res \<le> 999)"
    using ok by (simp add: upd_defs)
  have hr: "handleRequest e r u s = Return (fst ?c, ?s3)"
    using handleRequest_valid [OF nr, of s] process_response [OF _ ok', of e "outbound r u s" evs] rt
    by (simp add: Let_def)
  have fr1: "chan ?s1 = chan s" "writer ?s1 = writer s" "length (buffers ?s1) = Suc ?n"
      "clock ?s1 = clock s + elapsed evs"
    using run_frame [of ?n evs ?sp] by (simp_all add: upd_defs)
  have "?n < length (buffers ?sp)" by (simp add: upd_defs)
  from run_tee [OF this, of evs] obtain rq where rq:
      "upstream ?s1 = upstream ?sp @ rq" "buffers ?s1 = (buffers ?sp)[?n := buffers ?sp ! ?n @ rq]"
    by blast
  have up1: "upstream ?s1 = upstream s @ rq" using rq(1) by (simp add: upd_defs)
  have bufs1: "buffers ?s1 = buffers s @ [rq]"
    using rq(2) by (simp add: upd_defs list_update_snoc)
  have s5: "buffers ?s5 = buffers s @ [rq, []]" "rw_script (writer ?s5) = rw_script (writer s)"
      "rw_body (writer ?s5) = rw_body (writer s)" "upstream ?s5 = upstream s @ rq"
      "clock ?s5 = clock s + elapsed evs" "chan ?s5 = chan s"
      "data ?s5 = (data ?s1)\<lparr>StatusCode := res_StatusCode res\<rparr>"
    using fr1 up1 bufs1 by (simp_all add: upd_defs)
  have "rw_status (writer ?s4) = rw_status (writer s)" using fr1 by (simp add: upd_defs)
  moreover from this have "returns (WriteHeader (res_StatusCode res) ?s4)"
    using ok by (simp add: WriteHeader_returns)
  ultimately have st5: "rw_status (writer ?s5) =
      (if rw_status (writer s) = None then Some (res_StatusCode res) else rw_status (writer s))"
    by (simp add: WriteHeader_status)
  have lt: "length (buffers ?s1) < length (buffers ?s5)" using s5(1) bufs1 by simp
  have out: "fst ?c = fst ?co"
      "buffers (snd ?c) = (buffers ?s5)[length (buffers ?s1) :=
          buffers ?s5 ! length (buffers ?s1) @ fst (snd ?co)]"
      "rw_body (writer (snd ?c)) = rw_body (writer s) @ snd (snd ?co)"
    using io_Copy_outcome [OF lt, of ?ps ?fin] s5(2,3) by simp_all
  have bufs3: "buffers (snd ?c) = buffers s @ [rq, fst (snd ?co)]"
  proof -
    have "length (buffers ?s1) = Suc ?n" by (rule fr1(3))
    moreover have "(buffers s @ [rq, []]) ! Suc ?n = []"
      by (simp add: nth_append)
    ultimately show ?thesis using out(2) s5(1) by (simp add: list_update_snoc2)
  qed
  have fr: "data (snd ?c) = data ?s5" "clock (snd ?c) = clock ?s5" "chan (snd ?c) = chan ?s5"
      "upstream (snd ?c) = upstream ?s5"
    using io_Copy_frame [of "length (buffers ?s1)" ?ps ?fin ?s5] by simp_all
  have "rw_status (writer ?s5) \<noteq> None" using st5 by simp
  then have st: "rw_status (writer (snd ?c)) = rw_status (writer ?s5)"
    by (rule io_Copy_status)
  have "handleRequest e r u s = Return (fst ?co, ?s3)" using hr out(1) by simp
  moreover have "data ?s3 = (data ?s1)\<lparr>StatusCode := res_StatusCode res,
      Response := Some (Suc ?n)\<rparr>"
    using fr(1) s5(7) fr1(3) by (simp add: upd_defs)
  moreover have "upstream ?s3 = upstream s @ rq" using fr(4) s5(4) by (simp add: upd_defs)
  moreover have "buffers ?s3 = buffers s @ [rq, fst (snd ?co)]"
    using bufs3 by (simp add: upd_defs)
  moreover have "rw_body (writer ?s3) = rw_body (writer s) @ snd (snd ?co)"
    using out(3) by (simp add: upd_defs)
  moreover have "rw_status (writer ?s3) =
      (if rw_status (writer s) = None then Some (res_StatusCode res) else rw_status (writer s))"
    using st st5 by (simp add: upd_defs)
  moreover have "clock ?s3 = clock s + elapsed evs" using fr(2) s5(5) by (simp add: upd_defs)
  moreover have "chan ?s3 = chan s" using fr(3) s5(6) by (simp add: upd_defs)
  ultimately show ?thesis by blast
qed

lemma handleRequest_panics:
  assumes nr: "NewRequest_error e (Method r) (rewrite (URL r) u) = None"
    and rt: "RoundTrip_run e (outbound r u s) = (evs, Inr res)"
    and fresh: "rw_status (writer s) = None"
    and bad: "res_StatusCode res < 100 \<or> 999 < res_StatusCode res"
  shows "\<exists>w.
     handleRequest e r u s = Panic w
     \<and> data w =
         (data (fold (transport_step (length (buffers s))) evs
            (upd_data (\<lambda>x. x\<lparr>Request := Some (length (buffers s)),
                              Source := Header_Get (Header r) ''Source''\<rparr>)
               (s\<lparr>buffers := buffers s @ [[]]\<rparr>))))
         \<lparr>StatusCode := res_StatusCode res\<rparr>
     \<and> rw_status (writer w) = None
     \<and> rw_body (writer w) = rw_body (writer s)
     \<and> effects w = effects s
     \<and> chan w = chan s"
proof -
  let ?n = "length (buffers s)"
  let ?sp = "upd_data (\<lambda>x. x\<lparr>Request := Some ?n, Source := Header_Get (Header r) ''Source''\<rparr>)
               (s\<lparr>buffers := buffers s @ [[]]\<rparr>)"
  let ?s1 = "fold (transport_step ?n) evs ?sp"
  let ?s4 = "upd_writer (\<lambda>w. w\<lparr>rw_Header := copyHeaders (rw_Header w) (res_Header res)\<rparr>)
               ((upd_data (\<lambda>x. x\<lparr>StatusCode := res_StatusCode res\<rparr>) ?s1)
                  \<lparr>buffers := buffers ?s1 @ [[]]\<rparr>)"
  have fresh': "rw_status (writer ?sp) = None" using fresh by (simp add: upd_defs)
  have hr: "handleRequest e r u s = Panic ?s4"
    using handleRequest_valid [OF nr, of s]
      process_panic [OF _ fresh' bad, of e "outbound r u s" evs] rt
    by simp
  have fr1: "chan ?s1 = chan s" "writer ?s1 = writer s" "effects ?s1 = effects s"
    using run_frame [of ?n evs ?sp] by (simp_all add: upd_defs)
  have "data ?s4 = (data ?s1)\<lparr>StatusCode := res_StatusCode res\<rparr>" by (simp add: upd_defs)
  moreover have "rw_status (writer ?s4) = None" "rw_body (writer ?s4) = rw_body (writer s)"
      "effects ?s4 = effects s" "chan ?s4 = chan s"
    using fr1 fresh by (simp_all add: upd_defs)
  ultimately show ?thesis using hr by blast
qed

lemma handleRequest_refused:
  assumes nr: "NewRequest_error e (Method r) (rewrite (URL r) u) = None"
    and rt: "RoundTrip_run e (outbound r u s) = (evs, Inl er)"
  shows "\<exists>rq s3.
     handleRequest e r u s = Return (Some er, s3)
     \<and> data s3 =
         (data (fold (transport_step (length (buffers s))) evs
            (upd_data (\<lambda>x. x\<lparr>Request := Some (length (buffers s)),
                              Source := Header_Get (Header r) ''Source''\<rparr>)
               (s\<lparr>buffers := buffers s @ [[]]\<rparr>))))
         \<lparr>StatusCode := 503\<rparr>
     \<and> upstream s3 = upstream s @ rq
     \<and> buffers s3 = buffers s @ [rq]
     \<and> writer s3 = writer s
     \<and> effects s3 = effects s
     \<and> clock s3 = clock s + elapsed evs
     \<and> chan s3 = chan s"
proof -
  let ?n = "length (buffers s)"
  let ?sp = "upd_data (\<lambda>x. x\<lparr>Request := Some ?n, Source := Header_Get (Header r) ''Source''\<rparr>)
               (s\<lparr>buffers := buffers s @ [[]]\<rparr>)"
  let ?s1 = "fold (transport_step ?n) evs ?sp"
  let ?s3 = "upd_data (\<lambda>x. x\<lparr>StatusCode := 503\<rparr>) ?s1"
  have hr: "handleRequest e r u s = Return (Some er, ?s3)"
    using handleRequest_valid [OF nr, of s] process_failed [OF rt, of ?sp] by simp
  have fr1: "chan ?s1 = chan s" "writer ?s1 = writer s" "effects ?s1 = effects s"
      "clock ?s1 = clock s + elapsed evs"
    using run_frame [of ?n evs ?sp] by (simp_all add: upd_defs)
  have "?n < length (buffers ?sp)" by (simp add: upd_defs)
  from run_tee [OF this, of evs] obtain rq where rq:
      "upstream ?s1 = upstream ?sp @ rq" "buffers ?s1 = (buffers ?sp)[?n := buffers ?sp ! ?n @ rq]"
    by blast
  have "upstream ?s3 = upstream s @ rq" using rq(1) by (simp add: upd_defs)
  moreover have "buffers ?s3 = buffers s @ [rq]"
    using rq(2) by (simp add: upd_defs list_update_snoc)
  moreover have "data ?s3 = (data ?s1)\<lparr>StatusCode := 503\<rparr>" by (simp add: upd_defs)
  moreover have "writer ?s3 = writer s" "effects ?s3 = effects s"
      "clock ?s3 = clock s + elapsed evs" "chan ?s3 = chan s"
    using fr1 by (simp_all add: upd_defs)
  ultimately show ?thesis using hr by blast
qed

lemma start_frame:
  "buffers (upd_data (upd_Times (\<lambda>t. t\<lparr>Start := Some (clock s)\<rparr>)) (s\<lparr>data := zero_Data\<rparr>)) = buffers s"
  "writer (upd_data (upd_Times (\<lambda>t. t\<lparr>Start := Some (clock s)\<rparr>)) (s\<lparr>data := zero_Data\<rparr>)) = writer s"
  "upstream (upd_data (upd_Times (\<lambda>t. t\<lparr>Start := Some (clock s)\<rparr>)) (s\<lparr>data := zero_Data\<rparr>)) = upstream s"
  "clock (upd_data (upd_Times (\<lambda>t. t\<lparr>Start := Some (clock s)\<rparr>)) (s\<lparr>data := zero_Data\<rparr>)) = clock s"
  "chan (upd_data (upd_Times (\<lambda>t. t\<lparr>Start := Some (clock s)\<rparr>)) (s\<lparr>data := zero_Data\<rparr>)) = chan s"
  "effects (upd_data (upd_Times (\<lambda>t. t\<lparr>Start := Some (clock s)\<rparr>)) (s\<lparr>data := zero_Data\<rparr>)) = effects s"
  "outbound r u (upd_data (upd_Times (\<lambda>t. t\<lparr>Start := Some (clock s)\<rparr>)) (s\<lparr>data := zero_Data\<rparr>))
     = outbound r u s"
  "data (upd_data (upd_Times (\<lambda>t. t\<lparr>Start := Some (clock s)\<rparr>)) (s\<lparr>data := zero_Data\<rparr>)) =
     zero_Data\<lparr>Times := (Times zero_Data)\<lparr>Start := Some (clock s)\<rparr>\<rparr>"
  by (simp_all add: upd_defs outbound_def)

lemma prepared_data:
  "data (upd_data (\<lambda>x. x\<lparr>Request := Some n, Source := src\<rparr>)
      ((upd_data (upd_Times (\<lambda>t. t\<lparr>Start := Some c\<rparr>)) (s\<lparr>data := zero_Data\<rparr>))\<lparr>buffers := bs\<rparr>)) =
   \<lparr>StatusCode = 0, Request = Some n, Response = None, Error = None,
    Times = \<lparr>Start = Some c, WroteRequest = None, GotFirstResponseByte = None, End = None\<rparr>,
    Source = src\<rparr>"
  "clock (upd_data (\<lambda>x. x\<lparr>Request := Some n, Source := src\<rparr>)
      ((upd_data (upd_Times (\<lambda>t. t\<lparr>Start := Some c\<rparr>)) (s\<lparr>data := zero_Data\<rparr>))\<lparr>buffers := bs\<rparr>)) =
   clock s"
  by (simp_all add: upd_defs zero_Data_def)

lemma handler_error_tail:
  assumes hr: "handleRequest e r u
             (upd_data (upd_Times (\<lambda>t. t\<lparr>Start := Some (clock s)\<rparr>)) (s\<lparr>data := zero_Data\<rparr>))
           = Return (Some er, s3)"
    and fresh: "rw_status (writer s3) = None"
  shows "rw_status (writer (state_after (handler e u r s))) = Some 503"
    and "rw_body (writer (state_after (handler e u r s))) =
           rw_body (writer s3) @
             (case rw_script (writer s3) of
                [] \<Rightarrow> error_Error er @ [CHR 0x0A]
              | (n, x) # rest \<Rightarrow> take n (error_Error er @ [CHR 0x0A]))"
    and "effects (state_after (handler e u r s)) =
           effects s3 @
             [Published (data (state_after (handler e u r s))),
              Logged (URL_String (URL r)) 503 (Some (error_Error er)),
              SentHeader 503 (Header_Set (Header_Set (rw_Header (writer s3)) ''Content-Type''
                 ''text/plain; charset=utf-8'') ''X-Content-Type-Options'' ''nosniff''),
              SentBody (case rw_script (writer s3) of
                          [] \<Rightarrow> error_Error er @ [CHR 0x0A]
                        | (n, x) # rest \<Rightarrow> take n (error_Error er @ [CHR 0x0A]))]"
proof -
  let ?s6 = "log_Printf (URL_String (URL r)) 503 (Some (error_Error er))
               (send (upd_data (\<lambda>x. x\<lparr>Error := Some er,
                        Times := (Times x)\<lparr>End := Some (clock s3)\<rparr>\<rparr>) s3))"
  have h: "handler e u r s = http_Error (error_Error er) 503 ?s6"
    by (rule handler_after_error [OF hr])
  have w: "writer ?s6 = writer s3" by (simp add: upd_defs)
  have d: "data ?s6 = data (state_after (handler e u r s))" unfolding h by simp
  have ef: "effects ?s6 = effects s3 @ [Published (data (state_after (handler e u r s))),
      Logged (URL_String (URL r)) 503 (Some (error_Error er))]"
    using d by (simp add: upd_defs)
  have f6: "rw_status (writer ?s6) = None" using fresh w by simp
  show "rw_status (writer (state_after (handler e u r s))) = Some 503"
    unfolding h using http_Error_fresh(1) [OF f6, where c = 503] by simp
  show "rw_body (writer (state_after (handler e u r s))) =
           rw_body (writer s3) @
             (case rw_script (writer s3) of
                [] \<Rightarrow> error_Error er @ [CHR 0x0A]
              | (n, x) # rest \<Rightarrow> take n (error_Error er @ [CHR 0x0A]))"
    unfolding h using http_Error_fresh(2) [OF f6, where c = 503 and m = "error_Error er"] w by simp
  show "effects (state_after (handler e u r s)) =
           effects s3 @
             [Published (data (state_after (handler e u r s))),
              Logged (URL_String (URL r)) 503 (Some (error_Error er)),
              SentHeader 503 (Header_Set (Header_Set (rw_Header (writer s3)) ''Content-Type''
                 ''text/plain; charset=utf-8'') ''X-Content-Type-Options'' ''nosniff''),
              SentBody (case rw_script (writer s3) of
                          [] \<Rightarrow> error_Error er @ [CHR 0x0A]
                        | (n, x) # rest \<Rightarrow> take n (error_Error er @ [CHR 0x0A]))]"
    using http_Error_fresh(3) [OF f6, where c = 503 and m = "error_Error er"] w ef h by simp
qed

lemma handler_invalid:
  assumes nr: "NewRequest_error e (Method r) (rewrite (URL r) u) = Some er"
  shows "data (state_after (handler e u r s)) =
           \<lparr>StatusCode = 0, Request = Some (length (buffers s)), Response = None, Error = Some er,
            Times = \<lparr>Start = Some (clock s), WroteRequest = None, GotFirstResponseByte = None,
                     End = Some (clock s)\<rparr>,
            Source = []\<rparr>"
    and "buffers (state_after (handler e u r s)) = buffers s @ [[]]"
    and "upstream (state_after (handler e u r s)) = upstream s"
    and "rw_status (writer s) = None \<Longrightarrow>
           effects (state_after (handler e u r s)) =
             effects s @
               [Published (data (state_after (handler e u r s))),
                Logged (URL_String (URL r)) 503 (Some (error_Error er)),
                SentHeader 503 (Header_Set (Header_Set (rw_Header (writer s)) ''Content-Type''
                   ''text/plain; charset=utf-8'') ''X-Content-Type-Options'' ''nosniff''),
                SentBody (case rw_script (writer s) of
                            [] \<Rightarrow> error_Error er @ [CHR 0x0A]
                          | (n, x) # rest \<Rightarrow> take n (error_Error er @ [CHR 0x0A]))]"
    and "returns (handler e u r s)"
proof -
  let ?s2 = "upd_data (upd_Times (\<lambda>t. t\<lparr>Start := Some (clock s)\<rparr>)) (s\<lparr>data := zero_Data\<rparr>)"
  let ?s3 = "upd_data (\<lambda>x. x\<lparr>Request := Some (length (buffers ?s2))\<rparr>)
               (?s2\<lparr>buffers := buffers ?s2 @ [[]]\<rparr>)"
  have hr: "handleRequest e r u ?s2 = Return (Some er, ?s3)"
    by (rule handleRequest_invalid [OF nr])
  show "returns (handler e u r s)" by (rule handler_after(9) [OF hr])
  show "data (state_after (handler e u r s)) =
           \<lparr>StatusCode = 0, Request = Some (length (buffers s)), Response = None, Error = Some er,
            Times = \<lparr>Start = Some (clock s), WroteRequest = None, GotFirstResponseByte = None,
                     End = Some (clock s)\<rparr>,
            Source = []\<rparr>"
    using handler_after(1) [OF hr] by (simp add: upd_defs zero_Data_def)
  show "buffers (state_after (handler e u r s)) = buffers s @ [[]]"
    using handler_after(3) [OF hr] by (simp add: upd_defs)
  show "upstream (state_after (handler e u r s)) = upstream s"
    using handler_after(4) [OF hr] by (simp add: upd_defs)
  assume "rw_status (writer s) = None"
  then have fresh: "rw_status (writer ?s3) = None" by (simp add: upd_defs)
  have "writer ?s3 = writer s" "effects ?s3 = effects s" by (simp_all add: upd_defs)
  then show "effects (state_after (handler e u r s)) =
             effects s @
               [Published (data (state_after (handler e u r s))),
                Logged (URL_String (URL r)) 503 (Some (error_Error er)),
                SentHeader 503 (Header_Set (Header_Set (rw_Header (writer s)) ''Content-Type''
                   ''text/plain; charset=utf-8'') ''X-Content-Type-Options'' ''nosniff''),
                SentBody (case rw_script (writer s) of
                            [] \<Rightarrow> error_Error er @ [CHR 0x0A]
                          | (n, x) # rest \<Rightarrow> take n (error_Error er @ [CHR 0x0A]))]"
    using handler_error_tail(3) [OF hr fresh] by simp
qed

lemma handler_refused:
  assumes nr: "NewRequest_error e (Method r) (rewrite (URL r) u) = None"
    and rt: "RoundTrip_run e (outbound r u s) = (evs, Inl er)"
  shows "StatusCode (data (state_after (handler e u r s))) = 503"
    and "Error (data (state_after (handler e u r s))) = Some er"
    and "Request (data (state_after (handler e u r s))) = Some (length (buffers s))"
    and "Response (data (state_after (handler e u r s))) = None"
    and "Source (data (state_after (handler e u r s))) = Header_Get (Header r) ''Source''"
    and "\<exists>rq. upstream (state_after (handler e u r s)) = upstream s @ rq
              \<and> buffers (state_after (handler e u r s)) = buffers s @ [rq]"
    and "rw_status (writer s) = None \<Longrightarrow> rw_status (writer (state_after (handler e u r s))) = Some 503"
    and "rw_status (writer s) = None \<Longrightarrow>
           rw_body (writer (state_after (handler e u r s))) =
             rw_body (writer s) @
               (case rw_script (writer s) of
                  [] \<Rightarrow> error_Error er @ [CHR 0x0A]
                | (n, x) # rest \<Rightarrow> take n (error_Error er @ [CHR 0x0A]))"
    and "rw_status (writer s) = None \<Longrightarrow>
           effects (state_after (handler e u r s)) =
             effects s @
               [Published (data (state_after (handler e u r s))),
                Logged (URL_String (URL r)) 503 (Some (error_Error er)),
                SentHeader 503 (Header_Set (Header_Set (rw_Header (writer s)) ''Content-Type''
                   ''text/plain; charset=utf-8'') ''X-Content-Type-Options'' ''nosniff''),
                SentBody (case rw_script (writer s) of
                            [] \<Rightarrow> error_Error er @ [CHR 0x0A]
                          | (n, x) # rest \<Rightarrow> take n (error_Error er @ [CHR 0x0A]))]"
    and "returns (handler e u r s)"
proof -
  let ?s2 = "upd_data (upd_Times (\<lambda>t. t\<lparr>Start := Some (clock s)\<rparr>)) (s\<lparr>data := zero_Data\<rparr>)"
  let ?n = "length (buffers s)"
  let ?sp = "upd_data (\<lambda>x. x\<lparr>Request := Some ?n, Source := Header_Get (Header r) ''Source''\<rparr>)
               (?s2\<lparr>buffers := buffers s @ [[]]\<rparr>)"
  let ?s1 = "fold (transport_step ?n) evs ?sp"
  have rt2: "RoundTrip_run e (outbound r u ?s2) = (evs, Inl er)"
    using rt by (simp add: start_frame)
  from handleRequest_refused [OF nr rt2] obtain rq s3 where
    hr: "handleRequest e r u ?s2 = Return (Some er, s3)"
    and d3: "data s3 = (data ?s1)\<lparr>StatusCode := 503\<rparr>"
    and up: "upstream s3 = upstream s @ rq"
    and bf: "buffers s3 = buffers s @ [rq]"
    and wr: "writer s3 = writer s"
    and ef: "effects s3 = effects s"
    by (auto simp add: start_frame)
  have run: "Request (data ?s1) = Some ?n" "Response (data ?s1) = None"
      "Source (data ?s1) = Header_Get (Header r) ''Source''"
    using run_frame [of ?n evs ?sp] by (simp_all add: prepared_data)
  show "returns (handler e u r s)" by (rule handler_after(9) [OF hr])
  show "StatusCode (data (state_after (handler e u r s))) = 503"
    using handler_after(1) [OF hr] d3 by simp
  show "Error (data (state_after (handler e u r s))) = Some er"
    using handler_after(1) [OF hr] by simp
  show "Request (data (state_after (handler e u r s))) = Some ?n"
    using handler_after(1) [OF hr] d3 run by simp
  show "Response (data (state_after (handler e u r s))) = None"
    using handler_after(1) [OF hr] d3 run by simp
  show "Source (data (state_after (handler e u r s))) = Header_Get (Header r) ''Source''"
    using handler_after(1) [OF hr] d3 run by simp
  show "\<exists>rq. upstream (state_after (handler e u r s)) = upstream s @ rq
              \<and> buffers (state_after (handler e u r s)) = buffers s @ [rq]"
    using handler_after(3,4) [OF hr] up bf by simp
  assume "rw_status (writer s) = None"
  then have fresh: "rw_status (writer s3) = None" using wr by simp
  show "rw_status (writer (state_after (handler e u r s))) = Some 503"
    by (rule handler_error_tail(1) [OF hr fresh])
  show "rw_body (writer (state_after (handler e u r s))) =
             rw_body (writer s) @
               (case rw_script (writer s) of
                  [] \<Rightarrow> error_Error er @ [CHR 0x0A]
                | (n, x) # rest \<Rightarrow> take n (error_Error er @ [CHR 0x0A]))"
    using handler_error_tail(2) [OF hr fresh] wr by simp
  show "effects (state_after (handler e u r s)) =
             effects s @
               [Published (data (state_after (handler e u r s))),
                Logged (URL_String (URL r)) 503 (Some (error_Error er)),
                SentHeader 503 (Header_Set (Header_Set (rw_Header (writer s)) ''Content-Type''
                   ''text/plain; charset=utf-8'') ''X-Content-Type-Options'' ''nosniff''),
                SentBody (case rw_script (writer s) of
                            [] \<Rightarrow> error_Error er @ [CHR 0x0A]
                          | (n, x) # rest \<Rightarrow> take n (error_Error er @ [CHR 0x0A]))]"
    using handler_error_tail(3) [OF hr fresh] wr ef by simp
qed

lemma copy_outcome_prefix:
  "prefix (snd (snd (copy_outcome ps fin sc))) (fst (snd (copy_outcome ps fin sc))) \<and>
   prefix (fst (snd (copy_outcome ps fin sc))) (concat ps)"
proof (induction ps arbitrary: sc)
  case Nil
  show ?case by simp
next
  case (Cons p ps)
  show ?case
  proof (cases "p = []")
    case True
    then show ?thesis using Cons.IH [of sc] by simp
  next
    case False
    show ?thesis
    proof (cases sc)
      case Nil
      obtain er rd wr where c: "copy_outcome ps fin [] = (er, rd, wr)"
        by (cases "copy_outcome ps fin []") auto
      show ?thesis using False Nil c Cons.IH [of "[]"] by simp
    next
      case (Cons ne rest)
      obtain n e where ne: "ne = (n, e)" by (cases ne) auto
      obtain er rd wr where c: "copy_outcome ps fin rest = (er, rd, wr)"
        by (cases "copy_outcome ps fin rest") auto
      have t: "prefix (take n p) p" by (rule take_is_prefix)
      show ?thesis using False Cons ne c t Cons.IH [of rest] by simp
    qed
  qed
qed

lemma copy_outcome_None:
  "fst (copy_outcome ps fin sc) = None \<Longrightarrow>
   fin = EOF \<and> fst (snd (copy_outcome ps fin sc)) = concat ps \<and>
   snd (snd (copy_outcome ps fin sc)) = concat ps"
proof (induction ps arbitrary: sc)
  case Nil
  then show ?case by (simp split: if_splits)
next
  case (Cons p ps)
  show ?case
  proof (cases "p = []")
    case True
    then have "fst (copy_outcome ps fin sc) = None" using Cons.prems by simp
    from Cons.IH [OF this] show ?thesis using True by auto
  next
    case False
    show ?thesis
    proof (cases sc)
      case Nil
      obtain er rd wr where c: "copy_outcome ps fin [] = (er, rd, wr)"
        by (cases "copy_outcome ps fin []") auto
      then have "fst (copy_outcome ps fin []) = None" using Cons.prems False Nil by simp
      from Cons.IH [OF this] show ?thesis using False Nil c by auto
    next
      case (Cons ne rest)
      obtain n e where ne: "ne = (n, e)" by (cases ne) auto
      obtain er rd wr where c: "copy_outcome ps fin rest = (er, rd, wr)"
        by (cases "copy_outcome ps fin rest") auto
      have ok: "e = None \<and> \<not> n < length p \<and> er = None"
        using Cons.prems False Cons ne c by (simp split: if_splits)
      then have "fst (copy_outcome ps fin rest) = None" using c by simp
      from Cons.IH [OF this] show ?thesis using False Cons ne c ok by auto
    qed
  qed
qed

lemma copy_outcome_healthy:
  "copy_outcome ps fin [] = (if fin = EOF then None else Some fin, concat ps, concat ps)"
  by (induction ps) simp_all

lemma copy_outcome_read:
  "\<exists>j. fst (snd (copy_outcome ps fin sc)) = concat (take j ps)"
proof (induction ps arbitrary: sc)
  case Nil
  show ?case by simp
next
  case (Cons p ps)
  show ?case
  proof (cases "p = []")
    case True
    obtain j where "fst (snd (copy_outcome ps fin sc)) = concat (take j ps)"
      using Cons.IH [of sc] by blast
    then have "fst (snd (copy_outcome (p # ps) fin sc)) = concat (take (Suc j) (p # ps))"
      using True by simp
    then show ?thesis by blast
  next
    case False
    have one: "p = concat (take (Suc 0) (p # ps))" by simp
    show ?thesis
    proof (cases sc)
      case Nil
      obtain er rd wr where c: "copy_outcome ps fin [] = (er, rd, wr)"
        by (cases "copy_outcome ps fin []") auto
      obtain j where "rd = concat (take j ps)" using Cons.IH [of "[]"] c by auto
      then have "fst (snd (copy_outcome (p # ps) fin sc)) = concat (take (Suc j) (p # ps))"
        using False Nil c by simp
      then show ?thesis by blast
    next
      case (Cons ne rest)
      obtain n e where ne: "ne = (n, e)" by (cases ne) auto
      obtain er rd wr where c: "copy_outcome ps fin rest = (er, rd, wr)"
        by (cases "copy_outcome ps fin rest") auto
      obtain j where j: "rd = concat (take j ps)" using Cons.IH [of rest] c by auto
      show ?thesis
      proof (cases "e \<noteq> None \<or> n < length p")
        case True
        then have "fst (snd (copy_outcome (p # ps) fin sc)) = concat (take (Suc 0) (p # ps))"
          using False Cons ne by auto
        then show ?thesis by blast
      next
        case stop: False
        then have "fst (snd (copy_outcome (p # ps) fin sc)) = concat (take (Suc j) (p # ps))"
          using False Cons ne c j by simp
        then show ?thesis by blast
      qed
    qed
  qed
qed

lemma handler_returns:
  assumes nr: "NewRequest_error e (Method r) (rewrite (URL r) u) = None"
    and rt: "snd (RoundTrip_run e (outbound r u s)) = Inr res"
  shows "returns (handler e u r s) \<longleftrightarrow>
     rw_status (writer s) \<noteq> None \<or> (100 \<le> res_StatusCode res \<and> res_StatusCode res \<le> 999)"
proof -
  let ?s2 = "upd_data (upd_Times (\<lambda>t. t\<lparr>Start := Some (clock s)\<rparr>)) (s\<lparr>data := zero_Data\<rparr>)"
  obtain evs where rt1: "RoundTrip_run e (outbound r u s) = (evs, Inr res)"
    using rt by (cases "RoundTrip_run e (outbound r u s)") auto
  have rt2: "RoundTrip_run e (outbound r u ?s2) = (evs, Inr res)"
    using rt1 by (simp add: start_frame)
  show ?thesis
  proof (cases "rw_status (writer s) \<noteq> None
      \<or> (100 \<le> res_StatusCode res \<and> res_StatusCode res \<le> 999)")
    case True
    then have ok: "rw_status (writer ?s2) \<noteq> None
        \<or> (100 \<le> res_StatusCode res \<and> res_StatusCode res \<le> 999)"
      by (simp add: start_frame)
    from handleRequest_response [OF nr rt2 ok] obtain err s3 where
      "handleRequest e r u ?s2 = Return (err, s3)" by blast
    then show ?thesis using handler_after(9) True by blast
  next
    case False
    then have f: "rw_status (writer ?s2) = None"
        "res_StatusCode res < 100 \<or> 999 < res_StatusCode res"
      by (auto simp add: start_frame)
    from handleRequest_panics [OF nr rt2 f] obtain w where
      "handleRequest e r u ?s2 = Panic w" by blast
    then have "handler e u r s = Panic w" by (rule handler_panic)
    then show ?thesis using False by simp
  qed
qed

lemma handler_response:
  assumes nr: "NewRequest_error e (Method r) (rewrite (URL r) u) = None"
    and rt: "RoundTrip_run e (outbound r u s) = (evs, Inr res)"
    and ret: "returns (handler e u r s)"
  shows "StatusCode (data (state_after (handler e u r s))) = res_StatusCode res"
    and "Error (data (state_after (handler e u r s))) =
           fst (copy_outcome (chunks (res_Body res)) (final (res_Body res)) (rw_script (writer s)))"
    and "Request (data (state_after (handler e u r s))) = Some (length (buffers s))"
    and "Response (data (state_after (handler e u r s))) = Some (Suc (length (buffers s)))"
    and "Source (data (state_after (handler e u r s))) = Header_Get (Header r) ''Source''"
    and "\<exists>rq. upstream (state_after (handler e u r s)) = upstream s @ rq
              \<and> buffers (state_after (handler e u r s)) = buffers s @
                   [rq, fst (snd (copy_outcome (chunks (res_Body res)) (final (res_Body res))
                                    (rw_script (writer s))))]"
    and "fst (copy_outcome (chunks (res_Body res)) (final (res_Body res)) (rw_script (writer s)))
           = None \<Longrightarrow>
         rw_body (writer (state_after (handler e u r s))) = rw_body (writer s) @
           snd (snd (copy_outcome (chunks (res_Body res)) (final (res_Body res))
                       (rw_script (writer s))))"
    and "rw_status (writer s) = None \<Longrightarrow>
         rw_status (writer (state_after (handler e u r s))) = Some (res_StatusCode res)"
    and "fst (copy_outcome (chunks (res_Body res)) (final (res_Body res)) (rw_script (writer s)))
           = Some er \<Longrightarrow>
         \<exists>tail. prefix tail (error_Error er @ [CHR 0x0A])
           \<and> rw_body (writer (state_after (handler e u r s))) = rw_body (writer s) @
               snd (snd (copy_outcome (chunks (res_Body res)) (final (res_Body res))
                           (rw_script (writer s)))) @ tail"
proof -
  let ?s2 = "upd_data (upd_Times (\<lambda>t. t\<lparr>Start := Some (clock s)\<rparr>)) (s\<lparr>data := zero_Data\<rparr>)"
  let ?n = "length (buffers s)"
  let ?sp = "upd_data (\<lambda>x. x\<lparr>Request := Some ?n, Source := Header_Get (Header r) ''Source''\<rparr>)
               (?s2\<lparr>buffers := buffers s @ [[]]\<rparr>)"
  let ?s1 = "fold (transport_step ?n) evs ?sp"
  let ?co = "copy_outcome (chunks (res_Body res)) (final (res_Body res)) (rw_script (writer s))"
  have rt2: "RoundTrip_run e (outbound r u ?s2) = (evs, Inr res)"
    using rt by (simp add: start_frame)
  have "snd (RoundTrip_run e (outbound r u s)) = Inr res" using rt by simp
  from handler_returns [OF nr this] ret have ok: "rw_status (writer ?s2) \<noteq> None
      \<or> (100 \<le> res_StatusCode res \<and> res_StatusCode res \<le> 999)"
    by (simp add: start_frame)
  from handleRequest_response [OF nr rt2 ok] obtain rq s3 where
    hr: "handleRequest e r u ?s2 = Return (fst ?co, s3)"
    and d3: "data s3 = (data ?s1)\<lparr>StatusCode := res_StatusCode res, Response := Some (Suc ?n)\<rparr>"
    and up: "upstream s3 = upstream s @ rq"
    and bf: "buffers s3 = buffers s @ [rq, fst (snd ?co)]"
    and bd: "rw_body (writer s3) = rw_body (writer s) @ snd (snd ?co)"
    and st: "rw_status (writer s3) =
        (if rw_status (writer s) = None then Some (res_StatusCode res) else rw_status (writer s))"
    by (auto simp add: start_frame)
  have run: "Request (data ?s1) = Some ?n" "Source (data ?s1) = Header_Get (Header r) ''Source''"
    using run_frame [of ?n evs ?sp] by (simp_all add: prepared_data)
  show "StatusCode (data (state_after (handler e u r s))) = res_StatusCode res"
    using handler_after(1) [OF hr] d3 by simp
  show "Error (data (state_after (handler e u r s))) = fst ?co"
    using handler_after(1) [OF hr] by simp
  show "Request (data (state_after (handler e u r s))) = Some ?n"
    using handler_after(1) [OF hr] d3 run by simp
  show "Response (data (state_after (handler e u r s))) = Some (Suc ?n)"
    using handler_after(1) [OF hr] d3 by simp
  show "Source (data (state_after (handler e u r s))) = Header_Get (Header r) ''Source''"
    using handler_after(1) [OF hr] d3 run by simp
  show "\<exists>rq. upstream (state_after (handler e u r s)) = upstream s @ rq
              \<and> buffers (state_after (handler e u r s)) = buffers s @ [rq, fst (snd ?co)]"
    using handler_after(3,4) [OF hr] up bf by simp
  show "rw_body (writer (state_after (handler e u r s))) = rw_body (writer s) @ snd (snd ?co)"
    if none: "fst ?co = None"
    using handler_after(7) [OF hr none] bd by simp
  show "rw_status (writer (state_after (handler e u r s))) = Some (res_StatusCode res)"
    if fresh: "rw_status (writer s) = None"
  proof (cases "fst ?co")
    case None
    then show ?thesis using handler_after(7) [OF hr None] st fresh by simp
  next
    case (Some er')
    let ?s6 = "log_Printf (URL_String (URL r)) 503 (Some (error_Error er'))
               (send (upd_data (\<lambda>x. x\<lparr>Error := Some er',
                        Times := (Times x)\<lparr>End := Some (clock s3)\<rparr>\<rparr>) s3))"
    have h: "handler e u r s = http_Error (error_Error er') 503 ?s6"
      using handler_after_error [of e r u s er' s3] hr Some by simp
    have "rw_status (writer ?s6) = Some (res_StatusCode res)"
      using st fresh by (simp add: upd_defs)
    then show ?thesis unfolding h using http_Error_sent [of ?s6] by simp
  qed
  show "\<exists>tail. prefix tail (error_Error er @ [CHR 0x0A])
           \<and> rw_body (writer (state_after (handler e u r s))) =
               rw_body (writer s) @ snd (snd ?co) @ tail"
    if some: "fst ?co = Some er"
  proof -
    let ?s6 = "log_Printf (URL_String (URL r)) 503 (Some (error_Error er))
               (send (upd_data (\<lambda>x. x\<lparr>Error := Some er,
                        Times := (Times x)\<lparr>End := Some (clock s3)\<rparr>\<rparr>) s3))"
    let ?m = "error_Error er @ [CHR 0x0A]"
    let ?tail = "case rw_script (writer ?s6) of [] \<Rightarrow> ?m | (n, x) # rest \<Rightarrow> take n ?m"
    have h: "handler e u r s = http_Error (error_Error er) 503 ?s6"
      using handler_after_error [of e r u s er s3] hr some by simp
    have "returns (http_Error (error_Error er) 503 ?s6)" using ret h by simp
    from http_Error_body [OF this]
    have "rw_body (writer (state_after (handler e u r s))) = rw_body (writer ?s6) @ ?tail"
      using h by simp
    moreover have "rw_body (writer ?s6) = rw_body (writer s) @ snd (snd ?co)"
      using bd by (simp add: upd_defs)
    moreover have "prefix ?tail ?m"
    proof (cases "rw_script (writer ?s6)")
      case Nil
      then show ?thesis by simp
    next
      case (Cons ne rest)
      obtain n x where "ne = (n, x)" by (cases ne) auto
      then show ?thesis using Cons take_is_prefix [of n ?m] by (simp del: take_append)
    qed
    ultimately have "prefix ?tail ?m
        \<and> rw_body (writer (state_after (handler e u r s))) =
            rw_body (writer s) @ snd (snd ?co) @ ?tail"
      by simp
    then show ?thesis by (intro exI [of _ ?tail])
  qed
qed

lemma handler_hooks:
  assumes nr: "NewRequest_error e (Method r) (rewrite (URL r) u) = None"
    and rt: "RoundTrip_run e (outbound r u s) = (evs, result)"
  shows "WroteRequest (Times (data (state_after (handler e u r s)))) =
     WroteRequest (Times (data (fold (transport_step (length (buffers s))) evs
        (upd_data (\<lambda>x. x\<lparr>Request := Some (length (buffers s)),
                          Source := Header_Get (Header r) ''Source''\<rparr>)
          ((upd_data (upd_Times (\<lambda>t. t\<lparr>Start := Some (clock s)\<rparr>)) (s\<lparr>data := zero_Data\<rparr>))
             \<lparr>buffers := buffers s @ [[]]\<rparr>)))))"
    and "GotFirstResponseByte (Times (data (state_after (handler e u r s)))) =
     GotFirstResponseByte (Times (data (fold (transport_step (length (buffers s))) evs
        (upd_data (\<lambda>x. x\<lparr>Request := Some (length (buffers s)),
                          Source := Header_Get (Header r) ''Source''\<rparr>)
          ((upd_data (upd_Times (\<lambda>t. t\<lparr>Start := Some (clock s)\<rparr>)) (s\<lparr>data := zero_Data\<rparr>))
             \<lparr>buffers := buffers s @ [[]]\<rparr>)))))"
proof -
  let ?s2 = "upd_data (upd_Times (\<lambda>t. t\<lparr>Start := Some (clock s)\<rparr>)) (s\<lparr>data := zero_Data\<rparr>)"
  let ?n = "length (buffers s)"
  let ?sp = "upd_data (\<lambda>x. x\<lparr>Request := Some ?n, Source := Header_Get (Header r) ''Source''\<rparr>)
               (?s2\<lparr>buffers := buffers s @ [[]]\<rparr>)"
  let ?s1 = "fold (transport_step ?n) evs ?sp"
  have rt2: "RoundTrip_run e (outbound r u ?s2) = (evs, result)"
    using rt by (simp add: start_frame)
  have "WroteRequest (Times (data (state_after (handler e u r s)))) =
        WroteRequest (Times (data ?s1))
      \<and> GotFirstResponseByte (Times (data (state_after (handler e u r s)))) =
        GotFirstResponseByte (Times (data ?s1))"
  proof (cases result)
    case (Inl er)
    from handleRequest_refused [OF nr rt2 [unfolded Inl]] obtain rq s3 where
      hr: "handleRequest e r u ?s2 = Return (Some er, s3)"
      and d3: "data s3 = (data ?s1)\<lparr>StatusCode := 503\<rparr>"
      by (auto simp add: start_frame)
    show ?thesis using handler_after(1) [OF hr] d3 by simp
  next
    case (Inr res)
    show ?thesis
    proof (cases "rw_status (writer ?s2) \<noteq> None
        \<or> (100 \<le> res_StatusCode res \<and> res_StatusCode res \<le> 999)")
      case True
      from handleRequest_response [OF nr rt2 [unfolded Inr] True] obtain rq s3 err where
        hr: "handleRequest e r u ?s2 = Return (err, s3)"
        and d3: "data s3 = (data ?s1)\<lparr>StatusCode := res_StatusCode res, Response := Some (Suc ?n)\<rparr>"
        by (auto simp add: start_frame)
      show ?thesis using handler_after(1) [OF hr] d3 by simp
    next
      case False
      then have f: "rw_status (writer ?s2) = None"
          "res_StatusCode res < 100 \<or> 999 < res_StatusCode res"
        by auto
      from handleRequest_panics [OF nr rt2 [unfolded Inr] f] obtain w where
        hr: "handleRequest e r u ?s2 = Panic w"
        and dw: "data w = (data ?s1)\<lparr>StatusCode := res_StatusCode res\<rparr>"
        by (auto simp add: start_frame)
      show ?thesis using handler_panic [OF hr] dw by simp
    qed
  qed
  then show "WroteRequest (Times (data (state_after (handler e u r s)))) =
      WroteRequest (Times (data ?s1))"
    and "GotFirstResponseByte (Times (data (state_after (handler e u r s)))) =
      GotFirstResponseByte (Times (data ?s1))"
    by simp_all
qed

lemma handler_Error_returns:
  assumes "Error (data (state_after (handler e u r s))) = Some er"
  shows "returns (handler e u r s)"
proof (rule ccontr)
  assume n: "\<not> returns (handler e u r s)"
  let ?s2 = "upd_data (upd_Times (\<lambda>t. t\<lparr>Start := Some (clock s)\<rparr>)) (s\<lparr>data := zero_Data\<rparr>)"
  let ?n = "length (buffers s)"
  let ?sp = "upd_data (\<lambda>x. x\<lparr>Request := Some ?n, Source := Header_Get (Header r) ''Source''\<rparr>)
               (?s2\<lparr>buffers := buffers s @ [[]]\<rparr>)"
  have nr: "NewRequest_error e (Method r) (rewrite (URL r) u) = None"
  proof (cases "NewRequest_error e (Method r) (rewrite (URL r) u)")
    case (Some x)
    then show ?thesis using handler_invalid(5) [OF Some, of s] n by simp
  qed simp
  obtain evs result where rt: "RoundTrip_run e (outbound r u s) = (evs, result)"
    by (cases "RoundTrip_run e (outbound r u s)") auto
  have rt2: "RoundTrip_run e (outbound r u ?s2) = (evs, result)"
    using rt by (simp add: start_frame)
  let ?s1 = "fold (transport_step ?n) evs ?sp"
  have e1: "Error (data ?s1) = None"
    using run_frame [of ?n evs ?sp] by (simp add: prepared_data)
  show False
  proof (cases result)
    case (Inl x)
    show ?thesis using handler_refused(10) [OF nr rt [unfolded Inl]] n by simp
  next
    case (Inr res)
    have "snd (RoundTrip_run e (outbound r u s)) = Inr res" using rt Inr by simp
    from handler_returns [OF nr this] n have f: "rw_status (writer ?s2) = None"
        "res_StatusCode res < 100 \<or> 999 < res_StatusCode res"
      by (auto simp add: start_frame)
    from handleRequest_panics [OF nr rt2 [unfolded Inr] f] obtain w where
      hr: "handleRequest e r u ?s2 = Panic w"
      and dw: "data w = (data ?s1)\<lparr>StatusCode := res_StatusCode res\<rparr>"
      by (auto simp add: start_frame)
    show ?thesis using handler_panic [OF hr] dw e1 assms by simp
  qed
qed

lemma sample_refused:
  "NewRequest_error env_refused (Method example_request)
     (rewrite (URL example_request) example_target) = None"
  "RoundTrip_run env_refused (outbound example_request example_target example_world)
     = ([Elapse 2], Inl (Err ''connection refused''))"
  "rw_status (writer example_world) = None"
  "rw_script (writer example_world) = []"
  "rw_body (writer example_world) = []"
  "rw_Header (writer example_world) = []"
  "effects example_world = []"
  "chan example_world = []"
  "clock example_world = 100"
  "buffers example_world = []"
  "upstream example_world = []"
  by (simp_all add: sample_defs)

lemma sample_ok:
  "NewRequest_error env_ok (Method example_request)
     (rewrite (URL example_request) example_target) = None"
  "snd (RoundTrip_run env_ok (outbound example_request example_target hung_up))
     = Inr example_response"
  "snd (RoundTrip_run env_ok (outbound example_request example_target example_world))
     = Inr example_response"
  "res_StatusCode example_response = 200"
  by (simp_all add: sample_defs)

lemma sample_099:
  "NewRequest_error env_099 (Method example_request)
     (rewrite (URL example_request) example_target) = None"
  "snd (RoundTrip_run env_099 (outbound example_request example_target example_world))
     = Inr (example_response\<lparr>res_StatusCode := 99\<rparr>)"
  by (simp_all add: sample_defs)

lemma sample_returns:
  "returns (handler env_ok example_target example_request example_world)"
  "returns (handler env_ok example_target example_request hung_up)"
  using handler_returns [OF sample_ok(1,3)] handler_returns [OF sample_ok(1,2)]
  by (simp_all add: sample_ok(4))

subsection \<open>One record for every request\<close>

text \<open>
  Whenever the handler returns, it has put exactly one record on the channel, its own;
  when it is left by a panic, it has put none.
\<close>

lemma handler_publication:
  "(returns (handler e u r s) \<longrightarrow>
      chan (state_after (handler e u r s)) = chan s @ [data (state_after (handler e u r s))]
      \<and> filter is_Published (effects (state_after (handler e u r s))) =
          filter is_Published (effects s) @ [Published (data (state_after (handler e u r s)))])
   \<and> (\<not> returns (handler e u r s) \<longrightarrow>
        chan (state_after (handler e u r s)) = chan s
        \<and> filter is_Published (effects (state_after (handler e u r s))) =
            filter is_Published (effects s))"
  using handler_chan [of e u r s] handler_unpublished [of e u r s] by blast

text \<open>
  Claim C1 is not what the code does for every request. The handler sends its record
  after \<^const>\<open>handleRequest\<close> has returned, and on most paths it gets there: when
  the request cannot be built, when the transport fails, and when the upstream answers
  with a status of three digits, whether or not the relay then breaks off. But
  \<^const>\<open>process\<close> hands the upstream's status code to \<^verbatim>\<open>w.WriteHeader\<close> unchecked.
  For an upstream whose status line is \<^verbatim>\<open>HTTP/1.1 099\<close>, which the transport
  accepts and returns as a response with the status code 99, \<^verbatim>\<open>WriteHeader\<close>
  panics on a response writer that has sent nothing: the handler is left before the
  send, and the channel and the publications are what they were before the request.
  The same request answered with the status 200 publishes one record.
\<close>

theorem status_099_publishes_no_record:
  "NewRequest_error env_099 (Method example_request)
       (rewrite (URL example_request) example_target) = None
   \<and> snd (RoundTrip_run env_099 (outbound example_request example_target example_world))
       = Inr (example_response\<lparr>res_StatusCode := 99\<rparr>)
   \<and> rw_status (writer example_world) = None
   \<and> \<not> returns (handler env_099 example_target example_request example_world)
   \<and> chan example_world = []
   \<and> chan (state_after (handler env_099 example_target example_request example_world)) = []
   \<and> filter is_Published
        (effects (state_after (handler env_099 example_target example_request example_world)))
       = []
   \<and> returns (handler env_ok example_target example_request example_world)
   \<and> chan (state_after (handler env_ok example_target example_request example_world))
       = [data (state_after (handler env_ok example_target example_request example_world))]"
proof -
  have n: "\<not> returns (handler env_099 example_target example_request example_world)"
    using handler_returns [OF sample_099] by (simp add: sample_refused)
  show ?thesis
    using n sample_099 handler_unpublished [OF n]
      handler_chan(1) [OF sample_returns(1)] sample_returns(1)
    by (simp add: sample_refused)
qed

subsection \<open>Start, End and the order of publication\<close>

text \<open>
  Claim C10. \<open>Start\<close> is the clock when the handler is entered, and the clock of the
  model, like Go's monotonic clock, never runs backwards. When the handler returns,
  and so has published its record, the record on the channel has \<open>End\<close> set, to the
  clock when the pipeline has returned, so that \<open>Start\<close> is not later than \<open>End\<close>;
  the record that is published carries \<open>End\<close>, so it is sent after \<open>End\<close> is
  stamped. When the request cannot be built or the round trip fails, the handler
  returns, and the publication comes first among the effects of the request, then the
  log line, then the 503 status and the message; and on every path with an error the
  handler ends as \<^const>\<open>http_Error\<close> applied after \<^const>\<open>send\<close>.
\<close>

theorem handler_Start_End_order:
  "Start (Times (data (state_after (handler e u r s)))) = Some (clock s)
   \<and> (returns (handler e u r s) \<longrightarrow>
        End (Times (data (state_after (handler e u r s))))
          = Some (clock (state_after (handler e u r s))))
   \<and> clock s \<le> clock (state_after (handler e u r s))
   \<and> (returns (handler e u r s) \<longrightarrow>
        chan (state_after (handler e u r s)) = chan s @ [data (state_after (handler e u r s))])
   \<and> (rw_status (writer s) = None
        \<and> (NewRequest_error e (Method r) (rewrite (URL r) u) = Some er
            \<or> NewRequest_error e (Method r) (rewrite (URL r) u) = None
               \<and> snd (RoundTrip_run e (outbound r u s)) = Inl er)
      \<longrightarrow> returns (handler e u r s)
          \<and> effects (state_after (handler e u r s)) =
            effects s @
              [Published (data (state_after (handler e u r s))),
               Logged (URL_String (URL r)) 503 (Some (error_Error er)),
               SentHeader 503 (Header_Set (Header_Set (rw_Header (writer s)) ''Content-Type''
                  ''text/plain; charset=utf-8'') ''X-Content-Type-Options'' ''nosniff''),
               SentBody (case rw_script (writer s) of
                           [] \<Rightarrow> error_Error er @ [CHR 0x0A]
                         | (n, x) # rest \<Rightarrow> take n (error_Error er @ [CHR 0x0A]))])
   \<and> (Error (data (state_after (handler e u r s))) = Some er
      \<longrightarrow> (\<exists>s5. data s5 = data (state_after (handler e u r s)) \<and> chan s5 = chan s
                \<and> handler e u r s =
                    http_Error (error_Error er) 503
                      (log_Printf (URL_String (URL r)) 503 (Some (error_Error er)) (send s5))))"
proof (intro conjI impI)
  show "Start (Times (data (state_after (handler e u r s)))) = Some (clock s)"
    by (rule handler_times(1))
  show "clock s \<le> clock (state_after (handler e u r s))"
    by (rule handler_times(2))
  show "End (Times (data (state_after (handler e u r s))))
      = Some (clock (state_after (handler e u r s)))"
    if "returns (handler e u r s)"
    using that by (rule handler_times(3))
  show "chan (state_after (handler e u r s)) = chan s @ [data (state_after (handler e u r s))]"
    if "returns (handler e u r s)"
    using that by (rule handler_chan(1))
next
  assume a: "rw_status (writer s) = None
        \<and> (NewRequest_error e (Method r) (rewrite (URL r) u) = Some er
            \<or> NewRequest_error e (Method r) (rewrite (URL r) u) = None
               \<and> snd (RoundTrip_run e (outbound r u s)) = Inl er)"
  then have fresh: "rw_status (writer s) = None" by simp
  from a consider
      (invalid) "NewRequest_error e (Method r) (rewrite (URL r) u) = Some er"
    | (refused) "NewRequest_error e (Method r) (rewrite (URL r) u) = None"
        "snd (RoundTrip_run e (outbound r u s)) = Inl er"
    by auto
  then have "returns (handler e u r s)
      \<and> effects (state_after (handler e u r s)) =
            effects s @
              [Published (data (state_after (handler e u r s))),
               Logged (URL_String (URL r)) 503 (Some (error_Error er)),
               SentHeader 503 (Header_Set (Header_Set (rw_Header (writer s)) ''Content-Type''
                  ''text/plain; charset=utf-8'') ''X-Content-Type-Options'' ''nosniff''),
               SentBody (case rw_script (writer s) of
                           [] \<Rightarrow> error_Error er @ [CHR 0x0A]
                         | (n, x) # rest \<Rightarrow> take n (error_Error er @ [CHR 0x0A]))]"
  proof cases
    case invalid
    then show ?thesis using handler_invalid(4) [OF invalid fresh] handler_invalid(5) [OF invalid]
      by simp
  next
    case refused
    obtain evs where rt: "RoundTrip_run e (outbound r u s) = (evs, Inl er)"
      using refused(2) by (cases "RoundTrip_run e (outbound r u s)") auto
    show ?thesis
      using handler_refused(9) [OF refused(1) rt fresh] handler_refused(10) [OF refused(1) rt]
      by simp
  qed
  then show "returns (handler e u r s)"
    and "effects (state_after (handler e u r s)) =
            effects s @
              [Published (data (state_after (handler e u r s))),
               Logged (URL_String (URL r)) 503 (Some (error_Error er)),
               SentHeader 503 (Header_Set (Header_Set (rw_Header (writer s)) ''Content-Type''
                  ''text/plain; charset=utf-8'') ''X-Content-Type-Options'' ''nosniff''),
               SentBody (case rw_script (writer s) of
                           [] \<Rightarrow> error_Error er @ [CHR 0x0A]
                         | (n, x) # rest \<Rightarrow> take n (error_Error er @ [CHR 0x0A]))]"
    by simp_all
next
  assume er: "Error (data (state_after (handler e u r s))) = Some er"
  let ?s2 = "upd_data (upd_Times (\<lambda>t. t\<lparr>Start := Some (clock s)\<rparr>)) (s\<lparr>data := zero_Data\<rparr>)"
  have ret: "returns (handler e u r s)" using er by (rule handler_Error_returns)
  obtain err s3 where hr: "handleRequest e r u ?s2 = Return (err, s3)"
    using ret handler_panic [of e r u s]
    by (cases "handleRequest e r u ?s2") auto
  have "err = Some er" using handler_after(1) [OF hr] er by simp
  then have hr': "handleRequest e r u ?s2 = Return (Some er, s3)" using hr by simp
  let ?s5 = "upd_data (\<lambda>x. x\<lparr>Error := Some er,
                        Times := (Times x)\<lparr>End := Some (clock s3)\<rparr>\<rparr>) s3"
  have h: "handler e u r s =
      http_Error (error_Error er) 503
        (log_Printf (URL_String (URL r)) 503 (Some (error_Error er)) (send ?s5))"
    by (rule handler_after_error [OF hr'])
  have "chan s3 = chan ?s2" using handleRequest_frame [of e r u ?s2] hr by simp
  then have c: "chan ?s5 = chan s" by (simp add: upd_defs)
  have d: "data ?s5 = data (state_after (handler e u r s))"
    using handler_after(1) [OF hr'] by (simp add: upd_defs)
  show "\<exists>s5. data s5 = data (state_after (handler e u r s)) \<and> chan s5 = chan s
                \<and> handler e u r s =
                    http_Error (error_Error er) 503
                      (log_Printf (URL_String (URL r)) 503 (Some (error_Error er)) (send s5))"
    using h c d by blast
qed

theorem handler_Start_End_order_witness:
  "Start (Times (data (state_after
       (handler env_refused example_target example_request example_world)))) = Some 100
   \<and> End (Times (data (state_after
       (handler env_refused example_target example_request example_world)))) = Some 102
   \<and> returns (handler env_refused example_target example_request example_world)
   \<and> take 2 (effects (state_after
       (handler env_refused example_target example_request example_world))) =
       [Published (data (state_after
          (handler env_refused example_target example_request example_world))),
        Logged (URL_String (URL example_request)) 503 (Some ''connection refused'')]
   \<and> drop 3 (effects (state_after
       (handler env_refused example_target example_request example_world))) =
       [SentBody (''connection refused'' @ [CHR 0x0A])]"
proof -
  let ?h = "handler env_refused example_target example_request example_world"
  have h: "rw_status (writer example_world) = None
      \<and> (NewRequest_error env_refused (Method example_request)
            (rewrite (URL example_request) example_target) = Some (Err ''connection refused'')
          \<or> NewRequest_error env_refused (Method example_request)
               (rewrite (URL example_request) example_target) = None
             \<and> snd (RoundTrip_run env_refused
                   (outbound example_request example_target example_world))
                 = Inl (Err ''connection refused''))"
    by (simp add: sample_refused)
  note t = handler_Start_End_order [of env_refused example_target example_request example_world
        "Err ''connection refused''"]
  have ret: "returns ?h" using t h by blast
  have ck: "clock (state_after ?h) = 102"
  proof -
    let ?s2 = "upd_data (upd_Times (\<lambda>t. t\<lparr>Start := Some (clock example_world)\<rparr>))
        (example_world\<lparr>data := zero_Data\<rparr>)"
    have rt2: "RoundTrip_run env_refused (outbound example_request example_target ?s2)
        = ([Elapse 2], Inl (Err ''connection refused''))"
      using sample_refused(2) by (simp add: start_frame)
    from handleRequest_refused [OF sample_refused(1) rt2] obtain rq s3 where
      hr: "handleRequest env_refused example_request example_target ?s2
             = Return (Some (Err ''connection refused''), s3)"
      and ck: "clock s3 = clock ?s2 + elapsed [Elapse 2]"
      by blast
    show ?thesis using handler_after(5) [OF hr] ck by (simp add: upd_defs sample_refused)
  qed
  have "End (Times (data (state_after ?h))) = Some 102" using t ret ck by simp
  then show ?thesis
    using t h ret by (simp add: sample_refused)
qed

subsection \<open>A round trip that fails\<close>

text \<open>
  Claim C3. When the transport returns an error for the request, the handler returns,
  the record has the status 503 and the error, and its \<open>Response\<close> is \<^verbatim>\<open>nil\<close>:
  nothing was captured, no second buffer was allocated, and nothing of an upstream
  response was relayed. The caller, on a response writer that has sent nothing yet,
  gets the status 503 and the error's message as the body (\<^verbatim>\<open>http.Error\<close> ends it
  with a line feed), as far as the connection takes it; these are the only status and
  body sent.
\<close>

theorem transport_error_gives_503:
  assumes "NewRequest_error e (Method r) (rewrite (URL r) u) = None"
    and "snd (RoundTrip_run e (outbound r u s)) = Inl er"
    and "rw_status (writer s) = None"
  shows "returns (handler e u r s)
    \<and> StatusCode (data (state_after (handler e u r s))) = 503
    \<and> Error (data (state_after (handler e u r s))) = Some er
    \<and> Response (data (state_after (handler e u r s))) = None
    \<and> captured (state_after (handler e u r s))
         (Response (data (state_after (handler e u r s)))) = None
    \<and> length (buffers (state_after (handler e u r s))) = Suc (length (buffers s))
    \<and> chan (state_after (handler e u r s)) = chan s @ [data (state_after (handler e u r s))]
    \<and> rw_status (writer (state_after (handler e u r s))) = Some 503
    \<and> rw_body (writer (state_after (handler e u r s))) =
         rw_body (writer s) @
           (case rw_script (writer s) of
              [] \<Rightarrow> error_Error er @ [CHR 0x0A]
            | (n, x) # rest \<Rightarrow> take n (error_Error er @ [CHR 0x0A]))
    \<and> effects (state_after (handler e u r s)) =
         effects s @
           [Published (data (state_after (handler e u r s))),
            Logged (URL_String (URL r)) 503 (Some (error_Error er)),
            SentHeader 503 (Header_Set (Header_Set (rw_Header (writer s)) ''Content-Type''
               ''text/plain; charset=utf-8'') ''X-Content-Type-Options'' ''nosniff''),
            SentBody (case rw_script (writer s) of
                        [] \<Rightarrow> error_Error er @ [CHR 0x0A]
                      | (n, x) # rest \<Rightarrow> take n (error_Error er @ [CHR 0x0A]))]"
proof -
  obtain evs where rt: "RoundTrip_run e (outbound r u s) = (evs, Inl er)"
    using assms(2) by (cases "RoundTrip_run e (outbound r u s)") auto
  note f = handler_refused [OF assms(1) rt]
  obtain rq where bf: "buffers (state_after (handler e u r s)) = buffers s @ [rq]"
    using f(6) by blast
  have "captured (state_after (handler e u r s))
      (Response (data (state_after (handler e u r s)))) = None"
    using f(4) by (simp add: captured_def)
  moreover have "length (buffers (state_after (handler e u r s))) = Suc (length (buffers s))"
    using bf by simp
  ultimately show ?thesis
    using f(1,2,4,10) f(7-9) [OF assms(3)] handler_chan(1) [OF f(10)] by simp
qed

theorem transport_error_gives_503_witness:
  "returns (handler env_refused example_target example_request example_world)
   \<and> StatusCode (data (state_after
       (handler env_refused example_target example_request example_world))) = 503
   \<and> Error (data (state_after
       (handler env_refused example_target example_request example_world)))
       = Some (Err ''connection refused'')
   \<and> Response (data (state_after
       (handler env_refused example_target example_request example_world))) = None
   \<and> rw_status (writer (state_after
       (handler env_refused example_target example_request example_world))) = Some 503
   \<and> rw_body (writer (state_after
       (handler env_refused example_target example_request example_world)))
       = ''connection refused'' @ [CHR 0x0A]"
proof -
  have h: "snd (RoundTrip_run env_refused (outbound example_request example_target example_world))
      = Inl (Err ''connection refused'')"
    by (simp add: sample_refused)
  show ?thesis
    using transport_error_gives_503 [OF sample_refused(1) h sample_refused(3)]
    by (simp add: sample_refused)
qed

subsection \<open>A relay that fails\<close>

text \<open>
  Claim C7. The round trip returned a response, the handler went on to relay it and
  returned, and the copy of the response's body to the caller ended in an error (the
  upstream's stream breaks, or a write to the caller fails or is short). Then the
  record holds that error, its status is the upstream's status, not 503, which on a
  fresh response writer is the status the caller was sent, and its response buffer
  holds what was read from the upstream up to the failure, a prefix of the upstream's
  body.
\<close>

theorem relay_error_keeps_status_and_capture:
  assumes "NewRequest_error e (Method r) (rewrite (URL r) u) = None"
    and "snd (RoundTrip_run e (outbound r u s)) = Inr res"
    and "returns (handler e u r s)"
    and "fst (copy_outcome (chunks (res_Body res)) (final (res_Body res)) (rw_script (writer s)))
           = Some er"
  shows "Error (data (state_after (handler e u r s))) = Some er
    \<and> StatusCode (data (state_after (handler e u r s))) = res_StatusCode res
    \<and> chan (state_after (handler e u r s)) = chan s @ [data (state_after (handler e u r s))]
    \<and> captured (state_after (handler e u r s))
         (Response (data (state_after (handler e u r s)))) =
         Some (fst (snd (copy_outcome (chunks (res_Body res)) (final (res_Body res))
                           (rw_script (writer s)))))
    \<and> prefix (fst (snd (copy_outcome (chunks (res_Body res)) (final (res_Body res))
                          (rw_script (writer s)))))
         (concat (chunks (res_Body res)))
    \<and> (rw_status (writer s) = None \<longrightarrow>
         rw_status (writer (state_after (handler e u r s))) = Some (res_StatusCode res))"
proof -
  let ?co = "copy_outcome (chunks (res_Body res)) (final (res_Body res)) (rw_script (writer s))"
  obtain evs where rt: "RoundTrip_run e (outbound r u s) = (evs, Inr res)"
    using assms(2) by (cases "RoundTrip_run e (outbound r u s)") auto
  note f = handler_response [OF assms(1) rt assms(3)]
  obtain rq where bf: "buffers (state_after (handler e u r s)) = buffers s @ [rq, fst (snd ?co)]"
    using f(6) by blast
  have cap: "captured (state_after (handler e u r s))
      (Response (data (state_after (handler e u r s)))) = Some (fst (snd ?co))"
    using f(4) bf by (simp add: captured_def nth_append)
  have "prefix (fst (snd ?co)) (concat (chunks (res_Body res)))"
    using copy_outcome_prefix by blast
  then show ?thesis
    using f(1,2) f(8) assms(4) cap handler_chan(1) [OF assms(3)] by simp
qed

lemma sample_truncated:
  "NewRequest_error env_truncated (Method example_request)
     (rewrite (URL example_request) example_target) = None"
  "snd (RoundTrip_run env_truncated (outbound example_request example_target example_world))
     = Inr (example_response\<lparr>res_Body := \<lparr>chunks = [''ba''], final = Err ''unexpected EOF''\<rparr>\<rparr>)"
  by (simp_all add: sample_defs)

theorem relay_error_keeps_status_and_capture_witness:
  "returns (handler env_truncated example_target example_request example_world)
   \<and> Error (data (state_after
       (handler env_truncated example_target example_request example_world)))
     = Some (Err ''unexpected EOF'')
   \<and> StatusCode (data (state_after
       (handler env_truncated example_target example_request example_world))) = 200
   \<and> captured (state_after (handler env_truncated example_target example_request example_world))
        (Response (data (state_after
           (handler env_truncated example_target example_request example_world))))
       = Some ''ba''
   \<and> rw_status (writer (state_after
       (handler env_truncated example_target example_request example_world))) = Some 200"
proof -
  let ?res = "example_response\<lparr>res_Body := \<lparr>chunks = [''ba''], final = Err ''unexpected EOF''\<rparr>\<rparr>"
  have r: "returns (handler env_truncated example_target example_request example_world)"
    using handler_returns [OF sample_truncated] by (simp add: example_response_def)
  have h: "fst (copy_outcome (chunks (res_Body ?res)) (final (res_Body ?res))
      (rw_script (writer example_world))) = Some (Err ''unexpected EOF'')"
    by (simp add: sample_refused)
  have c: "fst (snd (copy_outcome (chunks (res_Body ?res)) (final (res_Body ?res))
      (rw_script (writer example_world)))) = ''ba''"
    by (simp add: sample_refused)
  show ?thesis
    using relay_error_keeps_status_and_capture [OF sample_truncated r h] c r
    by (simp add: sample_refused example_response_def)
qed

subsection \<open>The four timestamps\<close>

lemma hooks_once_WroteRequest:
  assumes "hooks_once (pre @ CallWroteRequest x # post)"
  shows "\<forall>info. CallWroteRequest info \<notin> set pre" and "\<forall>info. CallWroteRequest info \<notin> set post"
proof -
  have "filter is_CallWroteRequest pre = [] \<and> filter is_CallWroteRequest post = []"
    using assms by (simp add: hooks_once_def)
  then have "\<forall>ev\<in>set pre. \<not> is_CallWroteRequest ev" "\<forall>ev\<in>set post. \<not> is_CallWroteRequest ev"
    by (simp_all add: filter_empty_conv)
  then show "\<forall>info. CallWroteRequest info \<notin> set pre" "\<forall>info. CallWroteRequest info \<notin> set post"
    by auto
qed

lemma hooks_once_GotFirstResponseByte:
  assumes "hooks_once (pre @ CallGotFirstResponseByte # post)"
  shows "CallGotFirstResponseByte \<notin> set pre" and "CallGotFirstResponseByte \<notin> set post"
proof -
  have "filter (\<lambda>ev. ev = CallGotFirstResponseByte) pre = []
      \<and> filter (\<lambda>ev. ev = CallGotFirstResponseByte) post = []"
    using assms by (simp add: hooks_once_def)
  then show "CallGotFirstResponseByte \<notin> set pre" "CallGotFirstResponseByte \<notin> set post"
    by (auto simp add: filter_empty_conv)
qed

lemma hooks_once_suffix: "hooks_once (pre @ post) \<Longrightarrow> hooks_once post"
  by (simp add: hooks_once_def)

lemma run_WroteRequest_once:
  assumes "hooks_once (pre @ post)"
  shows "WroteRequest (Times (data (fold (transport_step b) pre s))) = WroteRequest (Times (data s))
     \<or> WroteRequest (Times (data (fold (transport_step b) (pre @ post) s))) =
         WroteRequest (Times (data (fold (transport_step b) pre s)))"
proof (cases "\<forall>info. CallWroteRequest info \<notin> set pre")
  case True
  then show ?thesis using run_no_WroteRequest [of pre b s] by simp
next
  case False
  then obtain info where "CallWroteRequest info \<in> set pre" by blast
  then obtain a c where pre: "pre = a @ CallWroteRequest info # c"
    by (auto dest: split_list)
  have "hooks_once (a @ CallWroteRequest info # (c @ post))" using assms pre by simp
  then have "\<forall>x. CallWroteRequest x \<notin> set (c @ post)" by (rule hooks_once_WroteRequest(2))
  then have "\<forall>x. CallWroteRequest x \<notin> set post" by simp
  then show ?thesis
    using run_no_WroteRequest [of post b "fold (transport_step b) pre s"] by simp
qed

lemma run_GotFirstResponseByte_once:
  assumes "hooks_once (pre @ post)"
  shows "GotFirstResponseByte (Times (data (fold (transport_step b) pre s))) =
       GotFirstResponseByte (Times (data s))
     \<or> GotFirstResponseByte (Times (data (fold (transport_step b) (pre @ post) s))) =
         GotFirstResponseByte (Times (data (fold (transport_step b) pre s)))"
proof (cases "CallGotFirstResponseByte \<notin> set pre")
  case True
  then show ?thesis using run_no_GotFirstResponseByte [of pre b s] by simp
next
  case False
  then obtain a c where pre: "pre = a @ CallGotFirstResponseByte # c"
    by (auto dest: split_list)
  have "hooks_once (a @ CallGotFirstResponseByte # (c @ post))" using assms pre by simp
  then have "CallGotFirstResponseByte \<notin> set (c @ post)"
    by (rule hooks_once_GotFirstResponseByte(2))
  then have "CallGotFirstResponseByte \<notin> set post" by simp
  then show ?thesis
    using run_no_GotFirstResponseByte [of post b "fold (transport_step b) pre s"] by simp
qed

lemma handler_WroteRequest:
  assumes nr: "NewRequest_error e (Method r) (rewrite (URL r) u) = None"
    and rt: "fst (RoundTrip_run e (outbound r u s)) = evs"
  shows "\<forall>info. CallWroteRequest info \<notin> set evs \<Longrightarrow>
         WroteRequest (Times (data (state_after (handler e u r s)))) = None"
    and "evs = pre @ CallWroteRequest x # post \<Longrightarrow> \<forall>info. CallWroteRequest info \<notin> set post \<Longrightarrow>
         WroteRequest (Times (data (state_after (handler e u r s)))) = Some (clock s + elapsed pre)"
proof -
  obtain result where rt': "RoundTrip_run e (outbound r u s) = (evs, result)"
    using rt by (cases "RoundTrip_run e (outbound r u s)") auto
  note t = handler_hooks(1) [OF nr rt']
  show "WroteRequest (Times (data (state_after (handler e u r s)))) = None"
    if none: "\<forall>info. CallWroteRequest info \<notin> set evs"
    using t run_no_WroteRequest [OF none] by (simp add: prepared_data)
  show "WroteRequest (Times (data (state_after (handler e u r s)))) = Some (clock s + elapsed pre)"
    if split: "evs = pre @ CallWroteRequest x # post"
      and last: "\<forall>info. CallWroteRequest info \<notin> set post"
    using t run_last_WroteRequest [OF last, of "length (buffers s)" pre x] split
    by (simp add: prepared_data)
qed

lemma handler_GotFirstResponseByte:
  assumes nr: "NewRequest_error e (Method r) (rewrite (URL r) u) = None"
    and rt: "fst (RoundTrip_run e (outbound r u s)) = evs"
  shows "CallGotFirstResponseByte \<notin> set evs \<Longrightarrow>
         GotFirstResponseByte (Times (data (state_after (handler e u r s)))) = None"
    and "evs = pre @ CallGotFirstResponseByte # post \<Longrightarrow> CallGotFirstResponseByte \<notin> set post \<Longrightarrow>
         GotFirstResponseByte (Times (data (state_after (handler e u r s))))
           = Some (clock s + elapsed pre)"
proof -
  obtain result where rt': "RoundTrip_run e (outbound r u s) = (evs, result)"
    using rt by (cases "RoundTrip_run e (outbound r u s)") auto
  note t = handler_hooks(2) [OF nr rt']
  show "GotFirstResponseByte (Times (data (state_after (handler e u r s)))) = None"
    if none: "CallGotFirstResponseByte \<notin> set evs"
    using t run_no_GotFirstResponseByte [OF none] by (simp add: prepared_data)
  show "GotFirstResponseByte (Times (data (state_after (handler e u r s))))
      = Some (clock s + elapsed pre)"
    if split: "evs = pre @ CallGotFirstResponseByte # post"
      and last: "CallGotFirstResponseByte \<notin> set post"
    using t run_last_GotFirstResponseByte [OF last, of "length (buffers s)" pre] split
    by (simp add: prepared_data)
qed

text \<open>
  Claim C9, as the code has it. \<open>Start\<close> is the clock at the entry of the handler,
  and \<open>End\<close>, in the record of a handler that returned, the clock when the pipeline
  has returned. \<open>WroteRequest\<close> and \<open>GotFirstResponseByte\<close> stay unset when the
  request cannot be built (the transport is never called) and when the transport never
  calls the hook. In a run in which the transport calls each hook at most once, a field
  whose hook is called holds the clock of that call: \<open>GotFirstResponseByte\<close> the
  clock when the first byte of the response arrived, and \<open>WroteRequest\<close> the clock
  when the transport stopped writing the request, whether the request went out or the
  write failed, since the hook does not look at the error it is given. Along such a
  run, started with the two fields unset as the handler starts it, a field that has
  been set keeps its value to the end: each is set at most once.
\<close>

theorem timestamps_follow_the_hooks:
  "Start (Times (data (state_after (handler e u r s)))) = Some (clock s)
   \<and> (returns (handler e u r s) \<longrightarrow>
        End (Times (data (state_after (handler e u r s))))
          = Some (clock (state_after (handler e u r s))))
   \<and> (NewRequest_error e (Method r) (rewrite (URL r) u) = Some er \<longrightarrow>
        WroteRequest (Times (data (state_after (handler e u r s)))) = None
        \<and> GotFirstResponseByte (Times (data (state_after (handler e u r s)))) = None)
   \<and> (NewRequest_error e (Method r) (rewrite (URL r) u) = None
       \<and> fst (RoundTrip_run e (outbound r u s)) = evs \<and> hooks_once evs \<longrightarrow>
        ((\<forall>info. CallWroteRequest info \<notin> set evs) \<longrightarrow>
             WroteRequest (Times (data (state_after (handler e u r s)))) = None)
        \<and> (CallGotFirstResponseByte \<notin> set evs \<longrightarrow>
             GotFirstResponseByte (Times (data (state_after (handler e u r s)))) = None)
        \<and> (evs = pre @ CallWroteRequest info # post \<longrightarrow>
             WroteRequest (Times (data (state_after (handler e u r s))))
               = Some (clock s + elapsed pre))
        \<and> (evs = pre' @ CallGotFirstResponseByte # post' \<longrightarrow>
             GotFirstResponseByte (Times (data (state_after (handler e u r s))))
               = Some (clock s + elapsed pre')))
   \<and> (hooks_once (before @ after)
       \<and> WroteRequest (Times (data s0)) = None
       \<and> GotFirstResponseByte (Times (data s0)) = None \<longrightarrow>
        (WroteRequest (Times (data (fold (transport_step b) before s0))) = None
         \<or> WroteRequest (Times (data (fold (transport_step b) (before @ after) s0))) =
             WroteRequest (Times (data (fold (transport_step b) before s0))))
        \<and> (GotFirstResponseByte (Times (data (fold (transport_step b) before s0))) = None
           \<or> GotFirstResponseByte (Times (data (fold (transport_step b) (before @ after) s0))) =
               GotFirstResponseByte (Times (data (fold (transport_step b) before s0)))))"
proof (intro conjI impI)
  show "Start (Times (data (state_after (handler e u r s)))) = Some (clock s)"
    by (rule handler_times(1))
  show "End (Times (data (state_after (handler e u r s))))
      = Some (clock (state_after (handler e u r s)))"
    if "returns (handler e u r s)"
    using that by (rule handler_times(3))
next
  assume nr: "NewRequest_error e (Method r) (rewrite (URL r) u) = Some er"
  show "WroteRequest (Times (data (state_after (handler e u r s)))) = None"
    and "GotFirstResponseByte (Times (data (state_after (handler e u r s)))) = None"
    using handler_invalid(1) [OF nr, of s] by simp_all
next
  assume a: "NewRequest_error e (Method r) (rewrite (URL r) u) = None
       \<and> fst (RoundTrip_run e (outbound r u s)) = evs \<and> hooks_once evs"
  then have nr: "NewRequest_error e (Method r) (rewrite (URL r) u) = None"
    and rt: "fst (RoundTrip_run e (outbound r u s)) = evs"
    and once: "hooks_once evs" by simp_all
  show "WroteRequest (Times (data (state_after (handler e u r s)))) = None"
    if "\<forall>info. CallWroteRequest info \<notin> set evs"
    using handler_WroteRequest(1) [OF nr rt that] .
  show "GotFirstResponseByte (Times (data (state_after (handler e u r s)))) = None"
    if "CallGotFirstResponseByte \<notin> set evs"
    using handler_GotFirstResponseByte(1) [OF nr rt that] .
  show "WroteRequest (Times (data (state_after (handler e u r s)))) = Some (clock s + elapsed pre)"
    if split: "evs = pre @ CallWroteRequest info # post"
  proof -
    have "\<forall>x. CallWroteRequest x \<notin> set post"
      using once split hooks_once_WroteRequest(2) [of pre info post] by simp
    then show ?thesis by (rule handler_WroteRequest(2) [OF nr rt split])
  qed
  show "GotFirstResponseByte (Times (data (state_after (handler e u r s))))
      = Some (clock s + elapsed pre')"
    if split: "evs = pre' @ CallGotFirstResponseByte # post'"
  proof -
    have "CallGotFirstResponseByte \<notin> set post'"
      using once split hooks_once_GotFirstResponseByte(2) [of pre' post'] by simp
    then show ?thesis by (rule handler_GotFirstResponseByte(2) [OF nr rt split])
  qed
next
  assume a: "hooks_once (before @ after)
       \<and> WroteRequest (Times (data s0)) = None
       \<and> GotFirstResponseByte (Times (data s0)) = None"
  then have once: "hooks_once (before @ after)" by simp
  show "WroteRequest (Times (data (fold (transport_step b) before s0))) = None
         \<or> WroteRequest (Times (data (fold (transport_step b) (before @ after) s0))) =
             WroteRequest (Times (data (fold (transport_step b) before s0)))"
    using run_WroteRequest_once [OF once, of b s0] a by auto
  show "GotFirstResponseByte (Times (data (fold (transport_step b) before s0))) = None
           \<or> GotFirstResponseByte (Times (data (fold (transport_step b) (before @ after) s0))) =
               GotFirstResponseByte (Times (data (fold (transport_step b) before s0)))"
    using run_GotFirstResponseByte_once [OF once, of b s0] a by auto
qed

lemma sample_runs:
  "fst (RoundTrip_run env_ok (outbound example_request example_target example_world))
     = [ReadBody, ReadBody, ReadBody, Elapse 3] @ CallWroteRequest None
         # [Elapse 5, CallGotFirstResponseByte, Elapse 1]"
  "fst (RoundTrip_run env_ok (outbound example_request example_target example_world))
     = [ReadBody, ReadBody, ReadBody, Elapse 3, CallWroteRequest None, Elapse 5]
         @ CallGotFirstResponseByte # [Elapse 1]"
  "fst (RoundTrip_run env_refused (outbound example_request example_target example_world))
     = [Elapse 2]"
  "NewRequest_error env_write_failed (Method example_request)
     (rewrite (URL example_request) example_target) = None"
  "fst (RoundTrip_run env_write_failed (outbound example_request example_target example_world))
     = [ReadBody, Elapse 3]
         @ CallWroteRequest (Some (Err ''write: connection reset by peer'')) # []"
  "RoundTrip_run env_write_failed (outbound example_request example_target example_world)
     = ([ReadBody, Elapse 3, CallWroteRequest (Some (Err ''write: connection reset by peer''))],
        Inl (Err ''write: connection reset by peer''))"
  by (simp_all add: sample_defs)

theorem timestamps_follow_the_hooks_witness:
  "WroteRequest (Times (data (state_after
       (handler env_refused example_target example_request example_world)))) = None
   \<and> GotFirstResponseByte (Times (data (state_after
       (handler env_refused example_target example_request example_world)))) = None
   \<and> WroteRequest (Times (data (state_after
       (handler env_ok example_target example_request example_world)))) = Some 103
   \<and> GotFirstResponseByte (Times (data (state_after
       (handler env_ok example_target example_request example_world)))) = Some 108
   \<and> End (Times (data (state_after
       (handler env_ok example_target example_request example_world))))
       = Some (clock (state_after
           (handler env_ok example_target example_request example_world)))
   \<and> WroteRequest (Times (data (fold (transport_step 0)
        [Elapse 3, CallWroteRequest None, Elapse 5] example_world)))
       = WroteRequest (Times (data (fold (transport_step 0)
        [Elapse 3, CallWroteRequest None] example_world)))"
proof -
  have o1: "hooks_once [Elapse 2]"
    and o2: "hooks_once ([ReadBody, ReadBody, ReadBody, Elapse 3] @ CallWroteRequest None
         # [Elapse 5, CallGotFirstResponseByte, Elapse 1])"
    and o3: "hooks_once ([Elapse 3, CallWroteRequest None] @ [Elapse 5])"
    by (simp_all add: hooks_once_def)
  have a: "WroteRequest (Times (data (state_after
        (handler env_refused example_target example_request example_world)))) = None
      \<and> GotFirstResponseByte (Times (data (state_after
        (handler env_refused example_target example_request example_world)))) = None"
    using timestamps_follow_the_hooks [of env_refused example_target example_request example_world
        "Err ''x''" "[Elapse 2]" "[]" None "[]" "[]" "[]" "[]" "[]" example_world 0]
      sample_refused(1) sample_runs(3) o1
    by simp
  have b: "WroteRequest (Times (data (state_after
        (handler env_ok example_target example_request example_world))))
      = Some (clock example_world + elapsed [ReadBody, ReadBody, ReadBody, Elapse 3])"
    using timestamps_follow_the_hooks [of env_ok example_target example_request example_world
        "Err ''x''" "[ReadBody, ReadBody, ReadBody, Elapse 3] @ CallWroteRequest None
         # [Elapse 5, CallGotFirstResponseByte, Elapse 1]"
        "[ReadBody, ReadBody, ReadBody, Elapse 3]" None
        "[Elapse 5, CallGotFirstResponseByte, Elapse 1]" "[]" "[]" "[]" "[]" example_world 0]
      sample_ok(1) sample_runs(1) o2
    by simp
  have c: "GotFirstResponseByte (Times (data (state_after
        (handler env_ok example_target example_request example_world))))
      = Some (clock example_world
          + elapsed [ReadBody, ReadBody, ReadBody, Elapse 3, CallWroteRequest None, Elapse 5])"
    using timestamps_follow_the_hooks [of env_ok example_target example_request example_world
        "Err ''x''" "[ReadBody, ReadBody, ReadBody, Elapse 3] @ CallWroteRequest None
         # [Elapse 5, CallGotFirstResponseByte, Elapse 1]"
        "[]" None "[]"
        "[ReadBody, ReadBody, ReadBody, Elapse 3, CallWroteRequest None, Elapse 5]"
        "[Elapse 1]" "[]" "[]" example_world 0]
      sample_ok(1) sample_runs(1) o2
    by simp
  have d: "End (Times (data (state_after
        (handler env_ok example_target example_request example_world))))
       = Some (clock (state_after
           (handler env_ok example_target example_request example_world)))"
    using timestamps_follow_the_hooks [of env_ok example_target example_request example_world
        "Err ''x''" "[]" "[]" None "[]" "[]" "[]" "[]" "[]" example_world 0]
      sample_returns(1)
    by simp
  have e: "WroteRequest (Times (data (fold (transport_step 0)
        ([Elapse 3, CallWroteRequest None] @ [Elapse 5]) example_world)))
       = WroteRequest (Times (data (fold (transport_step 0)
        [Elapse 3, CallWroteRequest None] example_world)))"
    using timestamps_follow_the_hooks [of env_ok example_target example_request example_world
        "Err ''x''" "[]" "[]" None "[]" "[]" "[]"
        "[Elapse 3, CallWroteRequest None]" "[Elapse 5]" example_world 0] o3
    by (simp add: example_world_def zero_Data_def upd_defs time_Now_def)
  show ?thesis using a b c d e by (simp add: sample_refused)
qed

lemmas eval_cong = let_weak_cong prod.case_cong_weak sum.case_cong_weak option.case_cong_weak
  list.case_cong_weak result.case_cong_weak if_weak_cong

lemma write_failed_run:
  "handleRequest env_write_failed example_request example_target
     (upd_data (upd_Times (\<lambda>t. t\<lparr>Start := Some (clock example_world)\<rparr>))
        (example_world\<lparr>data := zero_Data\<rparr>)) =
   Return (Some (Err ''write: connection reset by peer''),
    \<lparr>data =
       \<lparr>StatusCode = 503, Request = Some 0, Response = None, Error = None,
        Times = \<lparr>Start = Some 100, WroteRequest = Some 103, GotFirstResponseByte = None,
                 End = None\<rparr>,
        Source = ''unit-7''\<rparr>,
     clock = 103, reqBody = \<lparr>chunks = [''request</xml>''], final = EOF\<rparr>,
     buffers = [''<xml>some ''],
     writer = \<lparr>rw_Header = [], rw_status = None, rw_sent = [], rw_body = [], rw_script = []\<rparr>,
     chan = [], upstream = ''<xml>some '', effects = []\<rparr>)"
  unfolding handleRequest_valid [OF sample_runs(4)]
  by (simp add: run_eval sample_defs url_eval header_eval cong: eval_cong)

text \<open>
  The claim as the specification words it, the request-written timestamp unset
  whenever the transport never reaches that phase, fails when the write of the request
  fails: the transport has read the first chunk of the body, the connection is reset,
  the transport reports the end of writing with that error, and the round trip fails.
  The request was never fully written (the second chunk is still unread), the record
  has the status 503 and the error, and its \<open>WroteRequest\<close> is set, to 103.
\<close>

theorem WroteRequest_is_set_on_a_failed_write:
  "RoundTrip_run env_write_failed (outbound example_request example_target example_world)
     = ([ReadBody, Elapse 3, CallWroteRequest (Some (Err ''write: connection reset by peer''))],
        Inl (Err ''write: connection reset by peer''))
   \<and> chunks (reqBody example_world) = [''<xml>some '', ''request</xml>'']
   \<and> upstream (state_after
        (handler env_write_failed example_target example_request example_world))
       = ''<xml>some ''
   \<and> chan (state_after
        (handler env_write_failed example_target example_request example_world))
       = [data (state_after
            (handler env_write_failed example_target example_request example_world))]
   \<and> StatusCode (data (state_after
        (handler env_write_failed example_target example_request example_world))) = 503
   \<and> Error (data (state_after
        (handler env_write_failed example_target example_request example_world)))
       = Some (Err ''write: connection reset by peer'')
   \<and> WroteRequest (Times (data (state_after
        (handler env_write_failed example_target example_request example_world)))) = Some 103"
  using sample_runs(6) handler_after(1,2,4) [OF write_failed_run]
  by (simp add: example_world_def)

subsection \<open>What the capture buffers hold\<close>

lemma TeeReader_Read_body:
  "\<exists>k. upstream (TeeReader_Read b s) = upstream s @ concat (take k (chunks (reqBody s))) \<and>
       chunks (reqBody (TeeReader_Read b s)) = drop k (chunks (reqBody s))"
proof (cases "chunks (reqBody s)")
  case Nil
  then have "upstream (TeeReader_Read b s) = upstream s @ concat (take 0 (chunks (reqBody s))) \<and>
       chunks (reqBody (TeeReader_Read b s)) = drop 0 (chunks (reqBody s))"
    by (simp add: TeeReader_Read_def Reader_Read_def)
  then show ?thesis by blast
next
  case (Cons p ps)
  then have "upstream (TeeReader_Read b s) = upstream s @ concat (take 1 (chunks (reqBody s))) \<and>
       chunks (reqBody (TeeReader_Read b s)) = drop 1 (chunks (reqBody s))"
    by (simp add: TeeReader_Read_def Reader_Read_def Let_def)
  then show ?thesis by blast
qed

lemma transport_step_body:
  "\<exists>k. upstream (transport_step b ev s) = upstream s @ concat (take k (chunks (reqBody s))) \<and>
       chunks (reqBody (transport_step b ev s)) = drop k (chunks (reqBody s))"
proof (cases ev)
  case ReadBody
  then show ?thesis using TeeReader_Read_body [of b s] by simp
next
  case CallWroteRequest
  then have "upstream (transport_step b ev s) = upstream s @ concat (take 0 (chunks (reqBody s))) \<and>
       chunks (reqBody (transport_step b ev s)) = drop 0 (chunks (reqBody s))"
    by (simp add: upd_defs)
  then show ?thesis by blast
next
  case CallGotFirstResponseByte
  then have "upstream (transport_step b ev s) = upstream s @ concat (take 0 (chunks (reqBody s))) \<and>
       chunks (reqBody (transport_step b ev s)) = drop 0 (chunks (reqBody s))"
    by (simp add: upd_defs)
  then show ?thesis by blast
next
  case (Elapse n)
  then have "upstream (transport_step b ev s) = upstream s @ concat (take 0 (chunks (reqBody s))) \<and>
       chunks (reqBody (transport_step b ev s)) = drop 0 (chunks (reqBody s))"
    by simp
  then show ?thesis by blast
qed

lemma concat_take_drop:
  "concat (take k xs) @ concat (take j (drop k xs)) = concat (take (k + j) xs)"
proof -
  have "take (k + j) xs = take k xs @ take j (drop k xs)" by (rule take_add)
  then show ?thesis by simp
qed

lemma run_body:
  "\<exists>k. upstream (fold (transport_step b) evs s) =
          upstream s @ concat (take k (chunks (reqBody s))) \<and>
       chunks (reqBody (fold (transport_step b) evs s)) = drop k (chunks (reqBody s))"
proof (induction evs arbitrary: s)
  case Nil
  have "upstream s = upstream s @ concat (take 0 (chunks (reqBody s))) \<and>
      chunks (reqBody s) = drop 0 (chunks (reqBody s))" by simp
  then show ?case unfolding fold_simps by blast
next
  case (Cons ev evs)
  let ?s1 = "transport_step b ev s"
  obtain k where k: "upstream ?s1 = upstream s @ concat (take k (chunks (reqBody s)))"
      "chunks (reqBody ?s1) = drop k (chunks (reqBody s))"
    using transport_step_body [of b ev s] by blast
  obtain j where j: "upstream (fold (transport_step b) evs ?s1) =
        upstream ?s1 @ concat (take j (chunks (reqBody ?s1)))"
      "chunks (reqBody (fold (transport_step b) evs ?s1)) = drop j (chunks (reqBody ?s1))"
    using Cons.IH [of ?s1] by blast
  have "upstream (fold (transport_step b) (ev # evs) s) =
      upstream s @ concat (take (k + j) (chunks (reqBody s)))"
    using k j concat_take_drop [of k "chunks (reqBody s)" j] by simp
  moreover have "chunks (reqBody (fold (transport_step b) (ev # evs) s)) =
      drop (k + j) (chunks (reqBody s))"
    using k j by (simp add: add.commute)
  ultimately show ?case by blast
qed

lemma handler_upstream:
  assumes nr: "NewRequest_error e (Method r) (rewrite (URL r) u) = None"
  shows "\<exists>k. upstream (state_after (handler e u r s)) =
     upstream s @ concat (take k (chunks (reqBody s)))"
proof -
  let ?s2 = "upd_data (upd_Times (\<lambda>t. t\<lparr>Start := Some (clock s)\<rparr>)) (s\<lparr>data := zero_Data\<rparr>)"
  let ?n = "length (buffers ?s2)"
  let ?sp = "upd_data (\<lambda>x. x\<lparr>Request := Some ?n, Source := Header_Get (Header r) ''Source''\<rparr>)
               (?s2\<lparr>buffers := buffers ?s2 @ [[]]\<rparr>)"
  obtain evs result where rt: "RoundTrip_run e (outbound r u ?s2) = (evs, result)"
    by (cases "RoundTrip_run e (outbound r u ?s2)") auto
  let ?s1 = "fold (transport_step ?n) evs ?sp"
  obtain k where k: "upstream ?s1 = upstream ?sp @ concat (take k (chunks (reqBody ?sp)))"
    using run_body [of ?n evs ?sp] by blast
  have sp: "upstream ?sp = upstream s" "reqBody ?sp = reqBody s" by (simp_all add: upd_defs)
  have hv: "handleRequest e r u ?s2 = process e (outbound r u ?s2) ?sp"
    using handleRequest_valid [OF nr, of ?s2] by simp
  have "upstream (state_of (handleRequest e r u ?s2)) = upstream ?s1"
  proof (cases result)
    case (Inl er)
    show ?thesis
      using hv process_failed [OF rt [unfolded Inl], of ?sp]
      by (simp add: upd_defs)
  next
    case (Inr res)
    let ?s4 = "upd_writer (\<lambda>w. w\<lparr>rw_Header := copyHeaders (rw_Header w) (res_Header res)\<rparr>)
                 ((upd_data (\<lambda>x. x\<lparr>StatusCode := res_StatusCode res\<rparr>) ?s1)
                    \<lparr>buffers := buffers ?s1 @ [[]]\<rparr>)"
    let ?s5 = "state_after (WriteHeader (res_StatusCode res) ?s4)"
    have u4: "upstream ?s4 = upstream ?s1" by (simp add: upd_defs)
    show ?thesis
    proof (cases "rw_status (writer ?sp) \<noteq> None
        \<or> (100 \<le> res_StatusCode res \<and> res_StatusCode res \<le> 999)")
      case True
      have "upstream (snd (io_Copy (length (buffers ?s1)) (chunks (res_Body res))
          (final (res_Body res)) ?s5)) = upstream ?s5"
        using io_Copy_frame [of "length (buffers ?s1)" "chunks (res_Body res)"
            "final (res_Body res)" ?s5] by simp
      moreover have "upstream ?s5 = upstream ?s1" using u4 by simp
      ultimately show ?thesis
        using hv process_response [OF rt [unfolded Inr] True]
        by (simp add: Let_def upd_defs)
    next
      case False
      then have f: "rw_status (writer ?sp) = None"
          "res_StatusCode res < 100 \<or> 999 < res_StatusCode res" by auto
      show ?thesis
        using hv process_panic [OF rt [unfolded Inr] f] u4 by (simp add: upd_defs)
    qed
  qed
  moreover have "upstream (state_after (handler e u r s)) =
      upstream (state_of (handleRequest e r u ?s2))"
  proof (cases "handleRequest e r u ?s2")
    case (Return p)
    obtain err s3 where p: "p = (err, s3)" by (cases p) auto
    show ?thesis using handler_after(4) [OF Return [unfolded p]] Return p by simp
  next
    case (Panic w)
    show ?thesis using handler_panic [OF Panic] Panic by simp
  qed
  ultimately have "upstream (state_after (handler e u r s)) = upstream ?s1" by simp
  then show ?thesis using k sp by auto
qed

text \<open>
  Claim C2, as the code has it. When the round trip returns a response and the handler
  returns, the request buffer of the record holds exactly the bytes the transport took
  from the outbound body, which are the bytes sent upstream and the first chunks of
  the caller's body in order. The response buffer holds exactly the bytes read from
  the upstream's body, the read part of \<^const>\<open>copy_outcome\<close>: the first chunks of
  that body in order, a prefix of it. The bytes relayed to the caller, the written part
  of \<^const>\<open>copy_outcome\<close>, are a prefix of that capture, and the caller's body is
  what it was before, then the relayed bytes, then, when the relay failed, as much of
  the error message as the connection takes. When the record has no error, nothing
  follows the relayed bytes, and the capture, the relayed bytes and the whole body of
  the upstream are the same.
\<close>

theorem captures_equal_what_was_sent:
  assumes "NewRequest_error e (Method r) (rewrite (URL r) u) = None"
    and "snd (RoundTrip_run e (outbound r u s)) = Inr res"
    and "returns (handler e u r s)"
  shows "\<exists>k j tail.
      captured (state_after (handler e u r s)) (Request (data (state_after (handler e u r s))))
        = Some (concat (take k (chunks (reqBody s))))
    \<and> upstream (state_after (handler e u r s)) =
        upstream s @ concat (take k (chunks (reqBody s)))
    \<and> captured (state_after (handler e u r s)) (Response (data (state_after (handler e u r s))))
        = Some (fst (snd (copy_outcome (chunks (res_Body res)) (final (res_Body res))
                            (rw_script (writer s)))))
    \<and> fst (snd (copy_outcome (chunks (res_Body res)) (final (res_Body res))
                   (rw_script (writer s))))
        = concat (take j (chunks (res_Body res)))
    \<and> prefix (fst (snd (copy_outcome (chunks (res_Body res)) (final (res_Body res))
                          (rw_script (writer s)))))
        (concat (chunks (res_Body res)))
    \<and> prefix (snd (snd (copy_outcome (chunks (res_Body res)) (final (res_Body res))
                          (rw_script (writer s)))))
        (fst (snd (copy_outcome (chunks (res_Body res)) (final (res_Body res))
                     (rw_script (writer s)))))
    \<and> rw_body (writer (state_after (handler e u r s))) =
        rw_body (writer s)
        @ snd (snd (copy_outcome (chunks (res_Body res)) (final (res_Body res))
                      (rw_script (writer s))))
        @ tail
    \<and> (case Error (data (state_after (handler e u r s))) of
         None \<Rightarrow>
           tail = []
           \<and> fst (snd (copy_outcome (chunks (res_Body res)) (final (res_Body res))
                         (rw_script (writer s)))) = concat (chunks (res_Body res))
           \<and> snd (snd (copy_outcome (chunks (res_Body res)) (final (res_Body res))
                         (rw_script (writer s)))) = concat (chunks (res_Body res))
       | Some er \<Rightarrow> prefix tail (error_Error er @ [CHR 0x0A]))"
proof -
  let ?co = "copy_outcome (chunks (res_Body res)) (final (res_Body res)) (rw_script (writer s))"
  let ?h = "state_after (handler e u r s)"
  obtain evs where rt: "RoundTrip_run e (outbound r u s) = (evs, Inr res)"
    using assms(2) by (cases "RoundTrip_run e (outbound r u s)") auto
  note f = handler_response [OF assms(1) rt assms(3)]
  obtain rq where up: "upstream ?h = upstream s @ rq"
    and bf: "buffers ?h = buffers s @ [rq, fst (snd ?co)]"
    using f(6) by blast
  obtain k where k: "upstream ?h = upstream s @ concat (take k (chunks (reqBody s)))"
    using handler_upstream [OF assms(1)] by blast
  have rq: "rq = concat (take k (chunks (reqBody s)))" using up k by simp
  have c1: "captured ?h (Request (data ?h)) = Some (concat (take k (chunks (reqBody s))))"
    using f(3) bf rq by (simp add: captured_def nth_append)
  have c2: "captured ?h (Response (data ?h)) = Some (fst (snd ?co))"
    using f(4) bf by (simp add: captured_def nth_append)
  obtain j where j: "fst (snd ?co) = concat (take j (chunks (res_Body res)))"
    using copy_outcome_read by blast
  have p: "prefix (fst (snd ?co)) (concat (chunks (res_Body res)))"
    "prefix (snd (snd ?co)) (fst (snd ?co))"
    using copy_outcome_prefix by blast+
  obtain tail where tail: "rw_body (writer ?h) = rw_body (writer s) @ snd (snd ?co) @ tail"
    and rest: "case Error (data ?h) of
         None \<Rightarrow> tail = [] \<and> fst (snd ?co) = concat (chunks (res_Body res))
           \<and> snd (snd ?co) = concat (chunks (res_Body res))
       | Some er \<Rightarrow> prefix tail (error_Error er @ [CHR 0x0A])"
  proof (cases "fst ?co")
    case None
    have "fst (snd ?co) = concat (chunks (res_Body res))"
      and "snd (snd ?co) = concat (chunks (res_Body res))"
      using copy_outcome_None [OF None] by blast+
    moreover have "rw_body (writer ?h) = rw_body (writer s) @ snd (snd ?co) @ []"
      using f(7) [OF None] by simp
    ultimately show ?thesis using that [of "[]"] f(2) None by simp
  next
    case (Some er)
    from f(9) [OF Some] obtain tl where "prefix tl (error_Error er @ [CHR 0x0A])"
      "rw_body (writer ?h) = rw_body (writer s) @ snd (snd ?co) @ tl"
      by blast
    then show ?thesis using that [of tl] f(2) Some by simp
  qed
  have "captured ?h (Request (data ?h)) = Some (concat (take k (chunks (reqBody s))))
    \<and> upstream ?h = upstream s @ concat (take k (chunks (reqBody s)))
    \<and> captured ?h (Response (data ?h)) = Some (fst (snd ?co))
    \<and> fst (snd ?co) = concat (take j (chunks (res_Body res)))
    \<and> prefix (fst (snd ?co)) (concat (chunks (res_Body res)))
    \<and> prefix (snd (snd ?co)) (fst (snd ?co))
    \<and> rw_body (writer ?h) = rw_body (writer s) @ snd (snd ?co) @ tail
    \<and> (case Error (data ?h) of
         None \<Rightarrow> tail = [] \<and> fst (snd ?co) = concat (chunks (res_Body res))
           \<and> snd (snd ?co) = concat (chunks (res_Body res))
       | Some er \<Rightarrow> prefix tail (error_Error er @ [CHR 0x0A]))"
    using c1 k c2 j p tail rest by blast
  then show ?thesis
    by (intro exI [of _ k] exI [of _ j] exI [of _ tail])
qed

lemma ok_run:
  "handleRequest env_ok example_request example_target
     (upd_data (upd_Times (\<lambda>t. t\<lparr>Start := Some (clock example_world)\<rparr>))
        (example_world\<lparr>data := zero_Data\<rparr>)) =
   Return (None,
    \<lparr>data =
       \<lparr>StatusCode = 200, Request = Some 0, Response = Some 1, Error = None,
        Times = \<lparr>Start = Some 100, WroteRequest = Some 103, GotFirstResponseByte = Some 108,
                 End = None\<rparr>,
        Source = ''unit-7''\<rparr>,
     clock = 109, reqBody = \<lparr>chunks = [], final = EOF\<rparr>,
     buffers = [''<xml>some request</xml>'', ''bam''],
     writer =
       \<lparr>rw_Header = [(''X-Response-Header'', [''response header value''])],
        rw_status = Some 200,
        rw_sent = [(''X-Response-Header'', [''response header value''])],
        rw_body = ''bam'', rw_script = []\<rparr>,
     chan = [], upstream = ''<xml>some request</xml>'',
     effects =
       [SentHeader 200 [(''X-Response-Header'', [''response header value''])],
        SentBody ''ba'', SentBody ''m'']\<rparr>)"
  unfolding handleRequest_valid [OF sample_ok(1)]
  by (simp add: run_eval sample_defs url_eval header_eval cong: eval_cong)

lemma hung_up_run:
  "handleRequest env_ok example_request example_target
     (upd_data (upd_Times (\<lambda>t. t\<lparr>Start := Some (clock hung_up)\<rparr>))
        (hung_up\<lparr>data := zero_Data\<rparr>)) =
   Return (Some (Err ''broken pipe''),
    \<lparr>data =
       \<lparr>StatusCode = 200, Request = Some 0, Response = Some 1, Error = None,
        Times = \<lparr>Start = Some 100, WroteRequest = Some 103, GotFirstResponseByte = Some 108,
                 End = None\<rparr>,
        Source = ''unit-7''\<rparr>,
     clock = 109, reqBody = \<lparr>chunks = [], final = EOF\<rparr>,
     buffers = [''<xml>some request</xml>'', ''ba''],
     writer =
       \<lparr>rw_Header = [(''X-Response-Header'', [''response header value''])],
        rw_status = Some 200,
        rw_sent = [(''X-Response-Header'', [''response header value''])],
        rw_body = ''b'', rw_script = [(0, Some (Err ''broken pipe''))]\<rparr>,
     chan = [], upstream = ''<xml>some request</xml>'',
     effects =
       [SentHeader 200 [(''X-Response-Header'', [''response header value''])],
        SentBody ''b'']\<rparr>)"
  unfolding handleRequest_valid [OF sample_ok(1)]
  by (simp add: run_eval sample_defs url_eval header_eval cong: eval_cong)

lemma hung_up_final:
  "data (state_after (handler env_ok example_target example_request hung_up)) =
     \<lparr>StatusCode = 200, Request = Some 0, Response = Some 1, Error = Some (Err ''broken pipe''),
      Times = \<lparr>Start = Some 100, WroteRequest = Some 103, GotFirstResponseByte = Some 108,
               End = Some 109\<rparr>,
      Source = ''unit-7''\<rparr>"
  "buffers (state_after (handler env_ok example_target example_request hung_up)) =
     [''<xml>some request</xml>'', ''ba'']"
  "rw_body (writer (state_after (handler env_ok example_target example_request hung_up))) = ''b''"
  "rw_status (writer (state_after (handler env_ok example_target example_request hung_up)))
     = Some 200"
  "chan (state_after (handler env_ok example_target example_request hung_up)) =
     [data (state_after (handler env_ok example_target example_request hung_up))]"
proof -
  show "data (state_after (handler env_ok example_target example_request hung_up)) =
     \<lparr>StatusCode = 200, Request = Some 0, Response = Some 1, Error = Some (Err ''broken pipe''),
      Times = \<lparr>Start = Some 100, WroteRequest = Some 103, GotFirstResponseByte = Some 108,
               End = Some 109\<rparr>,
      Source = ''unit-7''\<rparr>"
    using handler_after(1) [OF hung_up_run] by simp
  show "buffers (state_after (handler env_ok example_target example_request hung_up)) =
     [''<xml>some request</xml>'', ''ba'']"
    using handler_after(3) [OF hung_up_run] by simp
  show "rw_body (writer (state_after (handler env_ok example_target example_request hung_up)))
      = ''b''"
    unfolding handler_after_error [OF hung_up_run]
    by (simp add: http_Error_def Write_def WriteHeader_def log_Printf_def send_def upd_defs Let_def)
  show "rw_status (writer (state_after (handler env_ok example_target example_request hung_up)))
      = Some 200"
    unfolding handler_after_error [OF hung_up_run]
    by (simp add: http_Error_def Write_def WriteHeader_def log_Printf_def send_def upd_defs Let_def)
  show "chan (state_after (handler env_ok example_target example_request hung_up)) =
     [data (state_after (handler env_ok example_target example_request hung_up))]"
    using handler_after(2) [OF hung_up_run] by simp
qed

theorem captures_equal_what_was_sent_witness:
  "returns (handler env_ok example_target example_request example_world)
   \<and> captured (state_after (handler env_ok example_target example_request example_world))
       (Request (data (state_after
          (handler env_ok example_target example_request example_world))))
     = Some ''<xml>some request</xml>''
   \<and> upstream (state_after (handler env_ok example_target example_request example_world))
       = ''<xml>some request</xml>''
   \<and> captured (state_after (handler env_ok example_target example_request example_world))
       (Response (data (state_after
          (handler env_ok example_target example_request example_world))))
     = Some ''bam''
   \<and> rw_body (writer (state_after
        (handler env_ok example_target example_request example_world))) = ''bam''"
proof -
  let ?h = "state_after (handler env_ok example_target example_request example_world)"
  let ?co = "copy_outcome (chunks (res_Body example_response)) (final (res_Body example_response))
      (rw_script (writer example_world))"
  have e: "Error (data ?h) = None" "upstream ?h = ''<xml>some request</xml>''"
    using handler_after(1,4) [OF ok_run] by simp_all
  from captures_equal_what_was_sent [OF sample_ok(1,3) sample_returns(1)] obtain k j tail where
    all: "captured ?h (Request (data ?h)) = Some (concat (take k (chunks (reqBody example_world))))
      \<and> upstream ?h = upstream example_world @ concat (take k (chunks (reqBody example_world)))
      \<and> captured ?h (Response (data ?h)) = Some (fst (snd ?co))
      \<and> fst (snd ?co) = concat (take j (chunks (res_Body example_response)))
      \<and> prefix (fst (snd ?co)) (concat (chunks (res_Body example_response)))
      \<and> prefix (snd (snd ?co)) (fst (snd ?co))
      \<and> rw_body (writer ?h) = rw_body (writer example_world) @ snd (snd ?co) @ tail
      \<and> (case Error (data ?h) of
           None \<Rightarrow> tail = [] \<and> fst (snd ?co) = concat (chunks (res_Body example_response))
             \<and> snd (snd ?co) = concat (chunks (res_Body example_response))
         | Some er \<Rightarrow> prefix tail (error_Error er @ [CHR 0x0A]))"
    by (elim exE)
  have a: "captured ?h (Request (data ?h)) = Some (concat (take k (chunks (reqBody example_world))))"
    and b: "upstream ?h = upstream example_world @ concat (take k (chunks (reqBody example_world)))"
    and c: "captured ?h (Response (data ?h)) = Some (fst (snd ?co))"
    and w: "rw_body (writer ?h) = rw_body (writer example_world) @ snd (snd ?co) @ tail"
    and d: "case Error (data ?h) of
           None \<Rightarrow> tail = [] \<and> fst (snd ?co) = concat (chunks (res_Body example_response))
             \<and> snd (snd ?co) = concat (chunks (res_Body example_response))
         | Some er \<Rightarrow> prefix tail (error_Error er @ [CHR 0x0A])"
    using all by simp_all
  have d': "tail = []" "fst (snd ?co) = concat (chunks (res_Body example_response))"
    "snd (snd ?co) = concat (chunks (res_Body example_response))"
    using d e(1) by simp_all
  have "concat (take k (chunks (reqBody example_world))) = ''<xml>some request</xml>''"
    using b e(2) by (simp add: sample_refused)
  moreover have "fst (snd ?co) = ''bam''" "rw_body (writer ?h) = ''bam''"
    using d' w by (simp_all add: sample_refused example_response_def)
  ultimately show ?thesis using a c e(2) sample_returns(1) by simp
qed

text \<open>
  The claim as the specification words it fails when the round trip succeeds and the
  caller hangs up during the relay: the tee has put the chunk \<^verbatim>\<open>ba\<close> into the
  response buffer before the write that fails after one byte, so the record's
  response buffer holds \<^verbatim>\<open>ba\<close> and the caller was sent \<^verbatim>\<open>b\<close>.
\<close>

theorem capture_exceeds_what_the_caller_got:
  "NewRequest_error env_ok (Method example_request)
       (rewrite (URL example_request) example_target) = None
   \<and> snd (RoundTrip_run env_ok (outbound example_request example_target hung_up))
       = Inr example_response
   \<and> chan (state_after (handler env_ok example_target example_request hung_up))
       = [data (state_after (handler env_ok example_target example_request hung_up))]
   \<and> captured (state_after (handler env_ok example_target example_request hung_up))
       (Response (data (state_after (handler env_ok example_target example_request hung_up))))
       = Some ''ba''
   \<and> rw_body (writer (state_after (handler env_ok example_target example_request hung_up)))
       = ''b''"
  using sample_ok(1,2) hung_up_final by (simp add: captured_def)

subsection \<open>The error field and the status code\<close>

text \<open>
  Claim C4, as the code has it. The record's error is the construction error when the
  outbound request cannot be built, the transport's error when the round trip fails,
  and otherwise, in the record of a handler that returned, the error of the relay of
  the response body, absent when the relay ends well (it cannot end well if the
  upstream's stream ends in an error, and it does when the stream ends with
  \<^const>\<open>EOF\<close> and the connection takes every write). The status is 503 when the round
  trip failed, and the upstream's status whenever the round trip returned a response,
  whether or not the relay then failed.
\<close>

theorem error_and_status_by_path:
  "(NewRequest_error e (Method r) (rewrite (URL r) u) = Some er \<longrightarrow>
      Error (data (state_after (handler e u r s))) = Some er)
   \<and> (NewRequest_error e (Method r) (rewrite (URL r) u) = None
       \<and> snd (RoundTrip_run e (outbound r u s)) = Inl er \<longrightarrow>
        Error (data (state_after (handler e u r s))) = Some er
        \<and> StatusCode (data (state_after (handler e u r s))) = 503)
   \<and> (NewRequest_error e (Method r) (rewrite (URL r) u) = None
       \<and> snd (RoundTrip_run e (outbound r u s)) = Inr res
       \<and> returns (handler e u r s) \<longrightarrow>
        StatusCode (data (state_after (handler e u r s))) = res_StatusCode res
        \<and> Error (data (state_after (handler e u r s))) =
            fst (copy_outcome (chunks (res_Body res)) (final (res_Body res))
                   (rw_script (writer s)))
        \<and> (Error (data (state_after (handler e u r s))) = None \<longrightarrow> final (res_Body res) = EOF)
        \<and> (final (res_Body res) = EOF \<and> rw_script (writer s) = [] \<longrightarrow>
             Error (data (state_after (handler e u r s))) = None))"
proof (intro conjI impI)
  assume "NewRequest_error e (Method r) (rewrite (URL r) u) = Some er"
  then show "Error (data (state_after (handler e u r s))) = Some er"
    using handler_invalid(1) [of e r u er s] by simp
next
  assume a: "NewRequest_error e (Method r) (rewrite (URL r) u) = None
       \<and> snd (RoundTrip_run e (outbound r u s)) = Inl er"
  then obtain evs where rt: "RoundTrip_run e (outbound r u s) = (evs, Inl er)"
    by (cases "RoundTrip_run e (outbound r u s)") auto
  from a have nr: "NewRequest_error e (Method r) (rewrite (URL r) u) = None" by simp
  show "Error (data (state_after (handler e u r s))) = Some er"
    by (rule handler_refused(2) [OF nr rt])
  show "StatusCode (data (state_after (handler e u r s))) = 503"
    by (rule handler_refused(1) [OF nr rt])
next
  assume a: "NewRequest_error e (Method r) (rewrite (URL r) u) = None
       \<and> snd (RoundTrip_run e (outbound r u s)) = Inr res
       \<and> returns (handler e u r s)"
  then obtain evs where rt: "RoundTrip_run e (outbound r u s) = (evs, Inr res)"
    by (cases "RoundTrip_run e (outbound r u s)") auto
  from a have nr: "NewRequest_error e (Method r) (rewrite (URL r) u) = None"
    and ret: "returns (handler e u r s)" by simp_all
  let ?co = "copy_outcome (chunks (res_Body res)) (final (res_Body res)) (rw_script (writer s))"
  show "StatusCode (data (state_after (handler e u r s))) = res_StatusCode res"
    by (rule handler_response(1) [OF nr rt ret])
  show er: "Error (data (state_after (handler e u r s))) = fst ?co"
    by (rule handler_response(2) [OF nr rt ret])
  show "final (res_Body res) = EOF" if "Error (data (state_after (handler e u r s))) = None"
  proof -
    have "fst ?co = None" using that er by simp
    from copy_outcome_None [OF this] show ?thesis by blast
  qed
  show "Error (data (state_after (handler e u r s))) = None"
    if "final (res_Body res) = EOF \<and> rw_script (writer s) = []"
    using that er by (simp add: copy_outcome_healthy)
qed

theorem error_and_status_by_path_witness:
  "Error (data (state_after (handler env_refused example_target example_request example_world)))
     = Some (Err ''connection refused'')
   \<and> StatusCode (data (state_after
        (handler env_refused example_target example_request example_world))) = 503
   \<and> returns (handler env_ok example_target example_request example_world)
   \<and> Error (data (state_after (handler env_ok example_target example_request example_world)))
       = None
   \<and> StatusCode (data (state_after
        (handler env_ok example_target example_request example_world))) = 200
   \<and> Error (data (state_after (handler env_ok example_target bad_method_request example_world)))
       = Some (Err ''net/http: invalid method'')"
proof -
  have h1: "NewRequest_error env_refused (Method example_request)
        (rewrite (URL example_request) example_target) = None
      \<and> snd (RoundTrip_run env_refused (outbound example_request example_target example_world))
          = Inl (Err ''connection refused'')"
    by (simp add: sample_refused)
  have h2: "NewRequest_error env_ok (Method example_request)
        (rewrite (URL example_request) example_target) = None
      \<and> snd (RoundTrip_run env_ok (outbound example_request example_target example_world))
          = Inr example_response
      \<and> returns (handler env_ok example_target example_request example_world)"
    by (simp add: sample_ok sample_returns)
  have h3: "final (res_Body example_response) = EOF \<and> rw_script (writer example_world) = []"
    by (simp add: sample_refused example_response_def)
  have h4: "NewRequest_error env_ok (Method bad_method_request)
        (rewrite (URL bad_method_request) example_target)
      = Some (Err ''net/http: invalid method'')"
    by (simp add: sample_defs)
  have a: "Error (data (state_after
          (handler env_refused example_target example_request example_world)))
        = Some (Err ''connection refused'')
      \<and> StatusCode (data (state_after
          (handler env_refused example_target example_request example_world))) = 503"
    using error_and_status_by_path [of env_refused example_request example_target
        "Err ''connection refused''" example_world example_response] h1 by blast
  have b: "Error (data (state_after
          (handler env_ok example_target example_request example_world))) = None
      \<and> StatusCode (data (state_after
          (handler env_ok example_target example_request example_world)))
          = res_StatusCode example_response"
    using error_and_status_by_path [of env_ok example_request example_target
        "Err ''x''" example_world example_response] h2 h3 by blast
  have c: "Error (data (state_after
         (handler env_ok example_target bad_method_request example_world)))
       = Some (Err ''net/http: invalid method'')"
    using error_and_status_by_path [of env_ok bad_method_request example_target
        "Err ''net/http: invalid method''" example_world example_response] h4 by blast
  show ?thesis using a b c sample_returns(1) by (simp add: example_response_def)
qed

text \<open>
  The claim as the specification words it, an error exactly on a failed round trip or
  construction and then the status 503, fails twice. With the caller hanging up during
  the relay, construction and round trip succeed and the record has an error and the
  upstream's status 200. With a method that is no token, construction fails and the
  record's status is the zero value, not 503.
\<close>

theorem error_without_503:
  "NewRequest_error env_ok (Method example_request)
       (rewrite (URL example_request) example_target) = None
   \<and> snd (RoundTrip_run env_ok (outbound example_request example_target hung_up))
       = Inr example_response
   \<and> chan (state_after (handler env_ok example_target example_request hung_up))
       = [data (state_after (handler env_ok example_target example_request hung_up))]
   \<and> Error (data (state_after (handler env_ok example_target example_request hung_up)))
       = Some (Err ''broken pipe'')
   \<and> StatusCode (data (state_after (handler env_ok example_target example_request hung_up)))
       = 200
   \<and> NewRequest_error env_ok (Method bad_method_request)
       (rewrite (URL bad_method_request) example_target)
       = Some (Err ''net/http: invalid method'')
   \<and> chan (state_after (handler env_ok example_target bad_method_request example_world))
       = [data (state_after (handler env_ok example_target bad_method_request example_world))]
   \<and> Error (data (state_after (handler env_ok example_target bad_method_request example_world)))
       = Some (Err ''net/http: invalid method'')
   \<and> StatusCode (data (state_after
        (handler env_ok example_target bad_method_request example_world))) = 0"
proof -
  have h4: "NewRequest_error env_ok (Method bad_method_request)
        (rewrite (URL bad_method_request) example_target)
      = Some (Err ''net/http: invalid method'')"
    by (simp add: sample_defs)
  show ?thesis
    using sample_ok(1,2) hung_up_final(1,5) h4 handler_invalid(1) [OF h4, of example_world]
      handler_chan(1) [OF handler_invalid(5) [OF h4, of example_world]]
    by (simp add: sample_refused)
qed

subsection \<open>The source tag\<close>






end
